(* ===== verification/Prelude.thy ===== *)
theory Prelude
  imports Main "HOL-Library.Sublist"
begin

text \<open>
  Shared vocabulary of the travel-backend development: the names of the model's
  types, the exception monad in which every fallible Python statement is modelled
  (\<open>'e + 'a\<close>, \<open>Inl\<close> an exception that propagates), the list comprehension that may
  raise (\<open>emap\<close>), two characters the source's string literals contain, and the
  generic lemmas on lists and sums that the component theories share.
  The collection \<open>model_simps\<close> gathers the evaluation equations of the model's
  Python primitives, so that witnesses evaluate with \<open>simp add: model_simps\<close>.
\<close>

named_theorems model_simps "evaluation equations of the modelled Python primitives"

type_synonym pystr = string \<comment> \<open>a Python \<open>str\<close>, as the bytes of its UTF-8 encoding\<close>

definition nl :: char where
  "nl = CHR 0x0A"

definition squote :: char where
  "squote = CHR 0x27"

lemma nl_squote_chars [simp, model_simps]:
  "nl = CHR 0x0A" "squote = CHR 0x27"
  by (simp_all add: nl_def squote_def)

subsection \<open>The exception monad\<close>

definition ebind :: "'e + 'a \<Rightarrow> ('a \<Rightarrow> 'e + 'b) \<Rightarrow> 'e + 'b" where
  "ebind m f = (case m of Inl e \<Rightarrow> Inl e | Inr a \<Rightarrow> f a)"

lemma ebind_simps [simp, model_simps]:
  "ebind (Inl e) f = Inl e"
  "ebind (Inr a) f = f a"
  by (simp_all add: ebind_def)

lemma ebind_eq_Inr:
  "ebind m f = Inr b \<longleftrightarrow> (\<exists>a. m = Inr a \<and> f a = Inr b)"
  by (cases m) simp_all

lemma ebind_eq_Inl:
  "ebind m f = Inl e \<longleftrightarrow> m = Inl e \<or> (\<exists>a. m = Inr a \<and> f a = Inl e)"
  by (cases m) simp_all

text \<open>
  A Python list comprehension or loop whose body may raise: the elements are
  computed left to right and the first exception ends the whole loop.
\<close>

fun emap :: "('a \<Rightarrow> 'e + 'b) \<Rightarrow> 'a list \<Rightarrow> 'e + 'b list" where
  "emap f [] = Inr []"
| "emap f (x # xs) = ebind (f x) (\<lambda>y. ebind (emap f xs) (\<lambda>ys. Inr (y # ys)))"

lemma emap_Inr_length:
  "emap f xs = Inr ys \<Longrightarrow> length ys = length xs"
  by (induction xs arbitrary: ys) (auto simp: ebind_eq_Inr)

lemma emap_Inr_nth:
  "emap f xs = Inr ys \<Longrightarrow> i < length xs \<Longrightarrow> f (xs ! i) = Inr (ys ! i)"
proof (induction xs arbitrary: ys i)
  case Nil
  then show ?case by simp
next
  case (Cons x xs)
  then obtain y ys' where "f x = Inr y" "emap f xs = Inr ys'" "ys = y # ys'"
    by (auto simp: ebind_eq_Inr)
  show ?case
  proof (cases i)
    case 0
    with \<open>f x = Inr y\<close> \<open>ys = y # ys'\<close> show ?thesis by simp
  next
    case (Suc j)
    with Cons.prems Cons.IH [OF \<open>emap f xs = Inr ys'\<close>] \<open>ys = y # ys'\<close>
    show ?thesis by simp
  qed
qed

lemma emap_Inr_mem:
  assumes "emap f xs = Inr ys" and "y \<in> set ys"
  shows "\<exists>x\<in>set xs. f x = Inr y"
proof -
  from assms(2) obtain i where i: "i < length ys" "ys ! i = y" by (auto simp: in_set_conv_nth)
  with emap_Inr_length [OF assms(1)] have "i < length xs" by simp
  with emap_Inr_nth [OF assms(1) this] i show ?thesis by (auto intro: nth_mem)
qed

lemma emap_Inr_iff:
  "(\<exists>ys. emap f xs = Inr ys) \<longleftrightarrow> (\<forall>x\<in>set xs. \<exists>y. f x = Inr y)"
  by (induction xs) (auto simp: ebind_eq_Inr)

lemma emap_Inr_map:
  "emap (\<lambda>x. Inr (g x)) xs = Inr (map g xs)"
  by (induction xs) simp_all

lemma emap_Inl:
  "x \<in> set xs \<Longrightarrow> f x = Inl e \<Longrightarrow> \<exists>e'. emap f xs = Inl e'"
  using emap_Inr_iff [of f xs] by (cases "emap f xs") auto

lemma emap_Inl_elem:
  "emap f xs = Inl e \<Longrightarrow> \<exists>x\<in>set xs. f x = Inl e"
  by (induction xs) (auto simp: ebind_eq_Inl)

lemma emap_append:
  "emap f (xs @ ys) =
     ebind (emap f xs) (\<lambda>as. ebind (emap f ys) (\<lambda>bs. Inr (as @ bs)))"
  by (induction xs) (simp_all add: ebind_def split: sum.splits)

subsection \<open>Computations that record their remote calls\<close>

text \<open>
  A step of a handler that talks to remote services returns the calls it made, in
  order, with its exception or result. \<open>tbind\<close> runs the continuation only after
  a result; the calls made before an exception are kept.
\<close>

type_synonym ('c, 'e, 'a) traced = "'c list \<times> ('e + 'a)"

definition tbind :: "('c, 'e, 'a) traced \<Rightarrow> ('a \<Rightarrow> ('c, 'e, 'b) traced) \<Rightarrow> ('c, 'e, 'b) traced" where
  "tbind m f = (case snd m of Inl e \<Rightarrow> (fst m, Inl e) | Inr a \<Rightarrow> (fst m @ fst (f a), snd (f a)))"

lemma tbind_simps [simp, model_simps]:
  "tbind (cs, Inl e) f = (cs, Inl e)"
  "tbind (cs, Inr a) f = (cs @ fst (f a), snd (f a))"
  by (simp_all add: tbind_def)

text \<open>
  Two runs of a deterministic relation from one state that end in states without
  successor end in the same state.
\<close>

lemma tbind_assoc:
  "tbind (tbind m f) g = tbind m (\<lambda>a. tbind (f a) g)"
  by (cases m; cases "snd m") (auto simp: tbind_def split: sum.splits)

lemma tbind_prepend:
  "tbind (cs @ fst m, snd m) g = (cs @ fst (tbind m g), snd (tbind m g))"
  by (cases "snd m") (simp_all add: tbind_def)

lemma tbind_no_calls:
  "(\<And>a. fst (f a) = []) \<Longrightarrow> tbind (cs, r) f = (cs, ebind r (\<lambda>a. snd (f a)))"
  by (cases r) simp_all

subsection \<open>Lists\<close>

lemma take_filter_prefix_stable:
  "n \<le> length (filter P xs) \<Longrightarrow> take n (filter P (xs @ ys)) = take n (filter P xs)"
  by simp

lemma set_take_filter:
  "x \<in> set (take n (filter P xs)) \<Longrightarrow> x \<in> set xs \<and> P x"
  by (auto dest: in_set_takeD)

lemma subseq_take_filter:
  "subseq (take n (filter P xs)) xs"
  by (rule subseq_order.trans [OF prefix_imp_subseq [OF take_is_prefix] subseq_filter_left])

lemma takeWhile_takeWhile_append:
  assumes "r = [] \<or> \<not> P (hd r)"
  shows "takeWhile P (takeWhile P s @ r) = takeWhile P s"
proof -
  from assms have "takeWhile P r = []" by (cases r) auto
  then show ?thesis by (induction s) auto
qed

lemma dropWhile_takeWhile_append:
  assumes "r = [] \<or> \<not> P (hd r)"
  shows "dropWhile P (takeWhile P s @ r) = r"
proof -
  from assms have "dropWhile P r = r" by (cases r) auto
  then show ?thesis by (induction s) auto
qed

lemma dropWhile_eq_Cons_length:
  "dropWhile P s = x # r \<Longrightarrow> length r < length s"
  using length_dropWhile_le [of P s] by simp

lemma sublist_middle [intro]:
  "sublist u (a @ u @ b)"
  unfolding sublist_def by blast

end
