(* ===== verification/PyStr.thy ===== *)
theory PyStr
  imports Prelude
begin

text \<open>
  The Python \<open>str\<close> operations the backend calls, on the model's representation of a
  \<open>str\<close> as the bytes of its UTF-8 encoding (\<open>pystr\<close>).
  \<^item> \<open>utf8_chars\<close> cuts a byte string into its code points (a lead byte and the
    continuation bytes \<open>0x80..0xBF\<close> that follow it); \<open>utf8_len\<close> is Python's
    \<open>len\<close> and \<open>py_slice_str n\<close> is \<open>s[:n]\<close>, both counting code points, not bytes.
  \<^item> \<open>py_lower\<close> is \<open>str.lower\<close> on ASCII letters; other code points are unchanged.
  \<^item> \<open>py_isspace\<close> and \<open>py_split\<close> are \<open>str.isspace\<close> and \<open>str.split()\<close> with no
    argument, on the ASCII whitespace that CPython recognises.
  \<^item> Python's substring test \<open>a in b\<close> is the library's \<open>sublist a b\<close>: on UTF-8
    encodings, code-point containment and byte containment agree.
\<close>

subsection \<open>Code points\<close>

definition is_cont :: "char \<Rightarrow> bool" where
  "is_cont c \<longleftrightarrow> 128 \<le> (of_char c :: nat) \<and> (of_char c :: nat) < 192"

function utf8_chars :: "pystr \<Rightarrow> pystr list" where
  "utf8_chars [] = []"
| "utf8_chars (c # s) = (c # takeWhile is_cont s) # utf8_chars (dropWhile is_cont s)"
  by pat_completeness auto
termination
  by (relation "measure length") (auto simp: le_imp_less_Suc length_dropWhile_le)

definition utf8_len :: "pystr \<Rightarrow> nat" where
  "utf8_len s = length (utf8_chars s)"

definition py_slice_str :: "nat \<Rightarrow> pystr \<Rightarrow> pystr" where
  "py_slice_str n s = concat (take n (utf8_chars s))"

definition is_ascii :: "pystr \<Rightarrow> bool" where
  "is_ascii s \<longleftrightarrow> (\<forall>c\<in>set s. (of_char c :: nat) < 128)"

lemma concat_utf8_chars [simp]: "concat (utf8_chars s) = s"
  by (induction s rule: utf8_chars.induct) simp_all

lemma utf8_chars_nonempty: "g \<in> set (utf8_chars s) \<Longrightarrow> g \<noteq> []"
  by (induction s rule: utf8_chars.induct) auto

lemma prefix_concat_take_utf8: "prefix (concat (take n (utf8_chars s))) s"
proof -
  have "prefix (concat (take n (utf8_chars s))) (concat (utf8_chars s))"
    by (metis append_take_drop_id concat_append prefixI)
  then show ?thesis by simp
qed

lemma py_slice_str_prefix: "prefix (py_slice_str n s) s"
  by (simp add: py_slice_str_def prefix_concat_take_utf8)

text \<open>Re-reading a prefix of whole code points gives back the same code points.\<close>

lemma utf8_chars_concat_take:
  "utf8_chars (concat (take n (utf8_chars s))) = take n (utf8_chars s)"
proof (induction s arbitrary: n rule: utf8_chars.induct)
  case 1
  then show ?case by simp
next
  case (2 c s)
  show ?case
  proof (cases n)
    case 0
    then show ?thesis by simp
  next
    case (Suc m)
    let ?r = "concat (take m (utf8_chars (dropWhile is_cont s)))"
    have hd_r: "\<not> is_cont (hd ?r)" if "?r \<noteq> []"
    proof -
      obtain zs where zs: "dropWhile is_cont s = ?r @ zs"
        using prefix_concat_take_utf8 [of m "dropWhile is_cont s"] by (auto elim: prefixE)
      from zs that have "dropWhile is_cont s \<noteq> []"
        by (metis Nil_is_append_conv)
      moreover from zs that have "hd (dropWhile is_cont s) = hd ?r"
        by (metis hd_append2)
      ultimately show ?thesis by (metis hd_dropWhile)
    qed
    have r: "?r = [] \<or> \<not> is_cont (hd ?r)"
      using hd_r by blast
    have "utf8_chars ((c # takeWhile is_cont s) @ ?r) =
        (c # takeWhile is_cont s) # utf8_chars ?r"
      by (simp only: append_Cons utf8_chars.simps(2)
          takeWhile_takeWhile_append [where P = is_cont and s = s, OF r]
          dropWhile_takeWhile_append [where P = is_cont and s = s, OF r])
    then show ?thesis
      using Suc "2.IH" [of m] by simp
  qed
qed

lemma utf8_len_slice: "utf8_len (py_slice_str n s) = min n (utf8_len s)"
  by (simp add: utf8_len_def py_slice_str_def utf8_chars_concat_take)

lemma utf8_chars_slice: "utf8_chars (py_slice_str n s) = take n (utf8_chars s)"
  by (simp add: py_slice_str_def utf8_chars_concat_take)

lemma utf8_len_slice_le: "utf8_len (py_slice_str n s) \<le> n"
  by (simp add: utf8_len_slice)

lemma utf8_chars_ascii:
  "is_ascii s \<Longrightarrow> utf8_chars s = map (\<lambda>c. [c]) s"
proof (induction s rule: utf8_chars.induct)
  case 1
  then show ?case by simp
next
  case (2 c s)
  have "\<not> is_cont d" if "d \<in> set s" for d
    using "2.prems" that by (auto simp: is_ascii_def is_cont_def)
  then have "takeWhile is_cont s = []" "dropWhile is_cont s = s"
    by (cases s; simp)+
  with 2 show ?case by (simp add: is_ascii_def)
qed

lemma py_slice_str_ascii: "is_ascii s \<Longrightarrow> py_slice_str n s = take n s"
proof -
  assume "is_ascii s"
  then have "concat (take n (map (\<lambda>c. [c]) s)) = take n s"
    by (induction s arbitrary: n) (simp_all add: is_ascii_def take_Cons')
  with \<open>is_ascii s\<close> show ?thesis by (simp add: py_slice_str_def utf8_chars_ascii)
qed

lemma utf8_len_le_length: "utf8_len s \<le> length s"
proof -
  have "length (utf8_chars s) \<le> length s"
  proof (induction s rule: utf8_chars.induct)
    case (2 c s)
    then show ?case using length_dropWhile_le [of is_cont s] by simp
  qed simp
  then show ?thesis by (simp add: utf8_len_def)
qed

subsection \<open>\<open>str.join\<close>\<close>

fun py_join :: "pystr \<Rightarrow> pystr list \<Rightarrow> pystr" where
  "py_join sep [] = []"
| "py_join sep [x] = x"
| "py_join sep (x # y # zs) = x @ sep @ py_join sep (y # zs)"

subsection \<open>\<open>str.lower\<close>\<close>

definition py_lower_char :: "char \<Rightarrow> char" where
  "py_lower_char c =
     (if 65 \<le> (of_char c :: nat) \<and> (of_char c :: nat) \<le> 90
      then char_of (of_char c + (32 :: nat)) else c)"

definition py_lower :: "pystr \<Rightarrow> pystr" where
  "py_lower s = map py_lower_char s"

lemma py_lower_char_idem [simp]: "py_lower_char (py_lower_char c) = py_lower_char c"
  by (simp add: py_lower_char_def)

lemma py_lower_idem [simp]: "py_lower (py_lower s) = py_lower s"
  by (simp add: py_lower_def)

lemma py_lower_simps [simp, model_simps]:
  "py_lower [] = []" "py_lower (c # s) = py_lower_char c # py_lower s"
  by (simp_all add: py_lower_def)

lemma py_lower_append [simp]: "py_lower (a @ b) = py_lower a @ py_lower b"
  by (simp add: py_lower_def)

lemma length_py_lower [simp]: "length (py_lower s) = length s"
  by (simp add: py_lower_def)

subsection \<open>\<open>str.split()\<close>\<close>

text \<open>
  \<open>str.split()\<close> without a separator: runs of whitespace separate the words, and
  leading or trailing whitespace gives no empty word. CPython's whitespace in the
  ASCII range is tab, line feed, vertical tab, form feed, carriage return, the
  separators \<open>0x1C..0x1F\<close> and the space.
\<close>

definition py_isspace :: "char \<Rightarrow> bool" where
  "py_isspace c \<longleftrightarrow> (9 \<le> (of_char c :: nat) \<and> (of_char c :: nat) \<le> 13)
     \<or> (28 \<le> (of_char c :: nat) \<and> (of_char c :: nat) \<le> 32)"

function py_split :: "pystr \<Rightarrow> pystr list" where
  "py_split s =
     (case dropWhile py_isspace s of
        [] \<Rightarrow> []
      | c # t \<Rightarrow> takeWhile (\<lambda>d. \<not> py_isspace d) (c # t)
                 # py_split (dropWhile (\<lambda>d. \<not> py_isspace d) (c # t)))"
  by pat_completeness auto
termination
proof (relation "measure length")
  fix s c t
  assume dw: "dropWhile py_isspace s = c # t"
  then have "\<not> py_isspace c" by (induction s) (auto split: if_splits)
  then have "length (dropWhile (\<lambda>d. \<not> py_isspace d) (c # t)) \<le> length t"
    by (simp add: length_dropWhile_le)
  also have "length t < length (dropWhile py_isspace s)" using dw by simp
  also have "\<dots> \<le> length s" by (rule length_dropWhile_le)
  finally show "(dropWhile (\<lambda>d. \<not> py_isspace d) (c # t), s) \<in> measure length"
    by simp
qed simp

declare py_split.simps [simp del]

lemma py_split_Nil_case:
  assumes "dropWhile py_isspace s = []"
  shows "py_split s = []"
  unfolding py_split.simps [of s] assms by simp

lemma py_split_Cons_case:
  assumes "dropWhile py_isspace s = c # t"
  shows "py_split s = takeWhile (\<lambda>d. \<not> py_isspace d) (c # t)
                # py_split (dropWhile (\<lambda>d. \<not> py_isspace d) (c # t))"
  unfolding py_split.simps [of s] assms by simp

lemma dropWhile_hd_not:
  "dropWhile P s = c # t \<Longrightarrow> \<not> P c"
  by (induction s) (auto split: if_splits)

lemma py_split_nil_iff:
  "py_split s = [] \<longleftrightarrow> (\<forall>c\<in>set s. py_isspace c)"
proof (cases "dropWhile py_isspace s")
  case Nil
  then show ?thesis
    using py_split_Nil_case dropWhile_eq_Nil_conv [of py_isspace s] by simp
next
  case (Cons c t)
  then have "\<not> (\<forall>c\<in>set s. py_isspace c)"
    using dropWhile_eq_Nil_conv [of py_isspace s] by simp
  with Cons show ?thesis by (simp add: py_split_Cons_case)
qed

lemma py_split_words:
  "w \<in> set (py_split s) \<Longrightarrow> w \<noteq> [] \<and> (\<forall>c\<in>set w. \<not> py_isspace c)"
proof (induction s rule: py_split.induct)
  case (1 s)
  show ?case
  proof (cases "dropWhile py_isspace s")
    case Nil
    with "1.prems" show ?thesis by (simp add: py_split_Nil_case)
  next
    case (Cons c t)
    have c: "\<not> py_isspace c" using Cons by (rule dropWhile_hd_not)
    from "1.prems" Cons consider
        "w = takeWhile (\<lambda>d. \<not> py_isspace d) (c # t)"
      | "w \<in> set (py_split (dropWhile (\<lambda>d. \<not> py_isspace d) (c # t)))"
      by (auto simp: py_split_Cons_case)
    then show ?thesis
    proof cases
      case 1
      with c show ?thesis by (auto dest: set_takeWhileD)
    next
      case 2
      with "1.IH" [OF Cons] show ?thesis by blast
    qed
  qed
qed

lemma py_split_subset:
  "w \<in> set (py_split s) \<Longrightarrow> set w \<subseteq> set s"
proof (induction s rule: py_split.induct)
  case (1 s)
  show ?case
  proof (cases "dropWhile py_isspace s")
    case Nil
    with "1.prems" show ?thesis by (simp add: py_split_Nil_case)
  next
    case (Cons c t)
    have sub: "set (c # t) \<subseteq> set s"
      by (metis Cons set_dropWhileD subsetI)
    from "1.prems" Cons consider
        "w = takeWhile (\<lambda>d. \<not> py_isspace d) (c # t)"
      | "w \<in> set (py_split (dropWhile (\<lambda>d. \<not> py_isspace d) (c # t)))"
      by (auto simp: py_split_Cons_case)
    then show ?thesis
    proof cases
      case 1
      then have "set w \<subseteq> set (c # t)" by (auto dest: set_takeWhileD)
      with sub show ?thesis by (rule subset_trans [rotated])
    next
      case 2
      with "1.IH" [OF Cons]
      have "set w \<subseteq> set (dropWhile (\<lambda>d. \<not> py_isspace d) (c # t))" by blast
      also have "\<dots> \<subseteq> set (c # t)" by (auto dest: set_dropWhileD)
      finally show ?thesis using sub by (rule subset_trans)
    qed
  qed
qed

lemma py_split_lower_words:
  "w \<in> set (py_split (py_lower s)) \<Longrightarrow> py_lower w = w"
proof -
  assume "w \<in> set (py_split (py_lower s))"
  then have "set w \<subseteq> set (py_lower s)" by (rule py_split_subset)
  then have "\<forall>c\<in>set w. py_lower_char c = c"
    by (auto simp: py_lower_def)
  then show ?thesis by (simp add: py_lower_def map_idI)
qed

end
