(* ===== verification/PyValue.thy ===== *)
theory PyValue
  imports PyStr
begin

text \<open>
  The Python values the backend receives from its remote services, which are parsed
  JSON (\<open>jval\<close>): \<open>None\<close>, booleans, numbers, strings, lists and dicts. A dict is an
  association list (the services' JSON objects have unique keys, so \<open>map_of\<close> finds
  the one entry of a key). A number is kept as its decimal text: the backend passes
  scores through and never computes with them.
  The exceptions the backend can raise or receive are \<open>py_exc\<close>; every Python
  operation that may raise returns \<open>py_exc + 'a\<close>:
  \<^item> \<open>py_get v k d\<close> is \<open>v.get(k, d)\<close> (only dicts have \<open>.get\<close>: \<open>AttributeError\<close>);
  \<^item> \<open>py_contains v k\<close> is \<open>k in v\<close> (keys of a dict, elements of a list, substrings
    of a str; \<open>TypeError\<close> on other values);
  \<^item> \<open>py_getitem v k\<close> is \<open>v[k]\<close> for a \<open>str\<close> key (\<open>KeyError\<close>, \<open>TypeError\<close>);
  \<^item> \<open>py_iter v\<close> is the sequence \<open>for x in v\<close> runs over;
  \<^item> \<open>py_slice n v\<close> is \<open>v[:n]\<close>;
  \<^item> \<open>pyd_str\<close>, \<open>pyd_float\<close>, \<open>pyd_opt_str\<close> are pydantic's validation of a field
    declared \<open>str\<close>, \<open>float\<close>, \<open>str | None\<close> (\<open>ValidationError\<close> naming the field).
\<close>

type_synonym jnum = pystr \<comment> \<open>the decimal text of a JSON number\<close>

datatype jval =
    JNull
  | JBool bool
  | JNum jnum
  | JStr pystr
  | JArr "jval list"
  | JObj "(pystr \<times> jval) list"

type_synonym jdict = "(pystr \<times> jval) list"

datatype py_exc =
    Exc pystr \<comment> \<open>an exception whose \<open>str(e)\<close> is the text: a client error, or \<open>raise Exception(msg)\<close>\<close>
  | TypeError
  | AttributeError
  | KeyError pystr
  | ValidationError pystr \<comment> \<open>pydantic rejected the named field\<close>

fun py_get :: "jval \<Rightarrow> pystr \<Rightarrow> jval \<Rightarrow> py_exc + jval" where
  "py_get (JObj d) k dflt = Inr (case map_of d k of Some v \<Rightarrow> v | None \<Rightarrow> dflt)"
| "py_get _ k dflt = Inl AttributeError"

fun py_contains :: "jval \<Rightarrow> pystr \<Rightarrow> py_exc + bool" where
  "py_contains (JObj d) k = Inr (k \<in> set (map fst d))"
| "py_contains (JArr xs) k = Inr (JStr k \<in> set xs)"
| "py_contains (JStr s) k = Inr (sublist k s)"
| "py_contains _ k = Inl TypeError"

fun py_getitem :: "jval \<Rightarrow> pystr \<Rightarrow> py_exc + jval" where
  "py_getitem (JObj d) k = (case map_of d k of Some v \<Rightarrow> Inr v | None \<Rightarrow> Inl (KeyError k))"
| "py_getitem _ k = Inl TypeError"

fun py_iter :: "jval \<Rightarrow> py_exc + jval list" where
  "py_iter (JArr xs) = Inr xs"
| "py_iter (JObj d) = Inr (map (\<lambda>kv. JStr (fst kv)) d)"
| "py_iter (JStr s) = Inr (map JStr (utf8_chars s))"
| "py_iter _ = Inl TypeError"

fun py_slice :: "nat \<Rightarrow> jval \<Rightarrow> py_exc + jval" where
  "py_slice n (JStr s) = Inr (JStr (py_slice_str n s))"
| "py_slice n (JArr xs) = Inr (JArr (take n xs))"
| "py_slice n _ = Inl TypeError"

fun is_str :: "jval \<Rightarrow> bool" where
  "is_str (JStr _) = True"
| "is_str _ = False"

fun is_dict :: "jval \<Rightarrow> bool" where
  "is_dict (JObj _) = True"
| "is_dict _ = False"

text \<open>
  Pydantic v2 in its default (lax) mode: a \<open>str\<close> field takes only a string; a
  \<open>float\<close> field takes a number or a boolean (\<open>True\<close> is \<open>1.0\<close>); \<open>str | None\<close>
  takes a string or \<open>None\<close>. Numeric strings, which lax mode also converts to a
  float, are not modelled: the model rejects them.
\<close>

fun pyd_str :: "pystr \<Rightarrow> jval \<Rightarrow> py_exc + pystr" where
  "pyd_str f (JStr s) = Inr s"
| "pyd_str f _ = Inl (ValidationError f)"

fun pyd_float :: "pystr \<Rightarrow> jval \<Rightarrow> py_exc + jnum" where
  "pyd_float f (JNum t) = Inr t"
| "pyd_float f (JBool b) = Inr (if b then ''1.0'' else ''0.0'')"
| "pyd_float f _ = Inl (ValidationError f)"

fun pyd_opt_str :: "pystr \<Rightarrow> jval \<Rightarrow> py_exc + pystr option" where
  "pyd_opt_str f JNull = Inr None"
| "pyd_opt_str f (JStr s) = Inr (Some s)"
| "pyd_opt_str f _ = Inl (ValidationError f)"

text \<open>\<open>str(v)\<close> of a value, for the f-strings of the route.\<close>

fun py_str :: "jval \<Rightarrow> pystr" and py_repr :: "jval \<Rightarrow> pystr" where
  "py_str (JStr s) = s"
| "py_str v = py_repr v"
| "py_repr JNull = ''None''"
| "py_repr (JBool b) = (if b then ''True'' else ''False'')"
| "py_repr (JNum t) = t"
| "py_repr (JStr s) = squote # s @ [squote]"
| "py_repr (JArr xs) = ''['' @ py_join '', '' (map py_repr xs) @ '']''"
| "py_repr (JObj d) =
     ''{'' @ py_join '', ''
       (map (\<lambda>kv. squote # fst kv @ squote # '': '' @ py_repr (snd kv)) d) @ ''}''"

text \<open>
  \<open>str(e)\<close> of an exception: the message of an \<open>Exception(msg)\<close>, the quoted key of a
  \<open>KeyError\<close>; the message texts of the other built-in errors are abstracted to the
  error's name.
\<close>

fun exc_str :: "py_exc \<Rightarrow> pystr" where
  "exc_str (Exc m) = m"
| "exc_str TypeError = ''TypeError''"
| "exc_str AttributeError = ''AttributeError''"
| "exc_str (KeyError k) = squote # k @ [squote]"
| "exc_str (ValidationError f) = ''validation error for '' @ f"

lemma py_contains_dict_Some:
  "map_of d k = Some v \<Longrightarrow> py_contains (JObj d) k = Inr True"
  using map_of_eq_None_iff [of d k] by auto

lemma py_contains_dict_None:
  "map_of d k = None \<Longrightarrow> py_contains (JObj d) k = Inr False"
  by (auto simp: map_of_eq_None_iff)

lemma py_getitem_dict_Some:
  "map_of d k = Some v \<Longrightarrow> py_getitem (JObj d) k = Inr v"
  by simp

lemma py_get_dict [simp, model_simps]:
  "py_get (JObj d) k dflt = Inr (case map_of d k of Some v \<Rightarrow> v | None \<Rightarrow> dflt)"
  by simp

lemma py_get_Inr_dict:
  "py_get v k dflt = Inr r \<Longrightarrow> is_dict v"
  by (cases v) simp_all

lemma pyd_str_Inr [simp]: "pyd_str f v = Inr s \<longleftrightarrow> v = JStr s"
  by (cases v) auto

lemma pyd_opt_str_Inr:
  "pyd_opt_str f v = Inr r \<longleftrightarrow> (v = JNull \<and> r = None) \<or> (\<exists>s. v = JStr s \<and> r = Some s)"
  by (cases v) auto

end
