(* ===== verification/Schemas.thy ===== *)
theory Schemas
  imports PyValue
begin

text \<open>
  The request and response models of \<^verbatim>\<open>src/backend/app/models/schemas.py\<close> as
  records: those of the research endpoint (lines 61--84) first, then the others. \<open>ResearchRequest\<close>'s field
  constraints (\<open>min_length\<close>, \<open>max_length\<close> counted in code points, \<open>ge\<close>, \<open>le\<close>) are
  the predicate \<open>valid_research_request\<close>; its \<open>language\<close> is a plain \<open>str\<close> with no
  constraint. The timestamp is an abstract clock reading (\<open>datetime.now()\<close>).
\<close>

type_synonym timestamp = nat

record research_request =
  rq_query :: pystr
  rq_max_results :: int
  rq_language :: pystr

definition valid_research_request :: "research_request \<Rightarrow> bool" where
  "valid_research_request r \<longleftrightarrow>
     3 \<le> utf8_len (rq_query r) \<and> utf8_len (rq_query r) \<le> 200
     \<and> 1 \<le> rq_max_results r \<and> rq_max_results r \<le> 10"

record research_result =
  rr_title :: pystr
  rr_url :: pystr
  rr_content :: pystr
  rr_score :: jnum
  rr_image_url :: "pystr option"

record research_response =
  rp_query :: pystr
  rp_response :: pystr
  rp_image_urls :: "pystr list"
  rp_sources :: "research_result list"
  rp_timestamp :: timestamp

text \<open>
  The models of the other routes (lines 9--58). Their routes (\<^verbatim>\<open>routes/health.py\<close>,
  \<^verbatim>\<open>routes/analysis.py\<close>, imported by \<^verbatim>\<open>main.py\<close>) are not in the repository;
  the models and the constraints of their fields are.
\<close>

record health_check_response =
  hc_status :: pystr
  hc_timestamp :: timestamp
  hc_message :: pystr

record chat_request =
  cq_message :: pystr
  cq_language :: pystr

definition valid_chat_request :: "chat_request \<Rightarrow> bool" where
  "valid_chat_request r \<longleftrightarrow> 1 \<le> utf8_len (cq_message r) \<and> utf8_len (cq_message r) \<le> 1000"

definition default_chat_request :: "pystr \<Rightarrow> chat_request" where
  "default_chat_request m = \<lparr>cq_message = m, cq_language = ''en''\<rparr>"

record chat_response =
  cp_response :: pystr
  cp_language :: pystr
  cp_timestamp :: timestamp

record analysis_request =
  aq_text :: pystr
  aq_context :: pystr
  aq_language :: pystr

definition valid_analysis_request :: "analysis_request \<Rightarrow> bool" where
  "valid_analysis_request r \<longleftrightarrow> 1 \<le> utf8_len (aq_text r)"

definition default_analysis_request :: "pystr \<Rightarrow> analysis_request" where
  "default_analysis_request t = \<lparr>aq_text = t, aq_context = [], aq_language = ''en''\<rparr>"

record analysis_response =
  ap_summary :: pystr
  ap_key_findings :: "pystr list"
  ap_recommendations :: "pystr list"
  ap_next_steps :: "pystr list"
  ap_disclaimer :: pystr
  ap_language :: pystr
  ap_timestamp :: timestamp

record image_analysis_response =
  ia_extracted_text :: pystr
  ia_analysis :: analysis_response

text \<open>
  The invariants the specification (section 3) states of a response to a query:
  it answers that query, carries at most five image URLs, and every source's content
  is at most 500 code points (the normalised content).
\<close>

definition wf_research_response :: "pystr \<Rightarrow> research_response \<Rightarrow> bool" where
  "wf_research_response q r \<longleftrightarrow>
     rp_query r = q \<and> length (rp_image_urls r) \<le> 5
     \<and> list_all (\<lambda>s. utf8_len (rr_content s) \<le> 500) (rp_sources r)"

text \<open>
  \<open>ResearchRequest\<close>'s defaults: \<open>max_results = 5\<close>, \<open>language = "en"\<close>.
\<close>

definition default_request :: "pystr \<Rightarrow> research_request" where
  "default_request q = \<lparr>rq_query = q, rq_max_results = 5, rq_language = ''en''\<rparr>"

end
