(* ===== verification/Tavily.thy ===== *)
theory Tavily
  imports Schemas
begin

text \<open>
  The search client of \<^verbatim>\<open>src/backend/app/services/tavily_service.py\<close>.
  \<^item> The remote search provider is a capability \<open>search_provider\<close>: given the call's
    arguments it answers a parsed JSON payload, or raises an exception, given by its
    \<open>str(e)\<close> (\<open>Inl\<close>).
  \<^item> \<open>search_travel_research\<close> (lines 17--40) makes the one call with
    \<open>search_depth="advanced"\<close> and \<open>include_images=True\<close> and re-raises a failure as
    \<open>Exception("Research search error: ...")\<close>.
  \<^item> \<open>format_results\<close> (lines 42--63) is the result normaliser: for every element of
    the payload's \<open>results\<close> (default \<open>[]\<close>) a dict with \<open>.get\<close> defaults and the
    content cut by \<open>[:500]\<close>. It raises when the payload or a hit is not a dict
    (\<open>AttributeError\<close>), when \<open>results\<close> is not iterable or a content is neither a
    string nor a list (\<open>TypeError\<close>); the first exception ends the loop.
  \<open>wf_payload\<close> is the payload shape the provider's interface promises (spec, section 6):
  a dict whose \<open>results\<close>, if present, is a list of dicts with string \<open>title\<close>, \<open>url\<close>,
  \<open>content\<close>, numeric \<open>score\<close> and string-or-null \<open>image\<close>, each of them optional.
\<close>

record search_args =
  sa_query :: pystr
  sa_search_depth :: pystr
  sa_max_results :: int
  sa_include_images :: bool

type_synonym search_provider = "search_args \<Rightarrow> pystr + jval"

definition tavily_search_args :: "pystr \<Rightarrow> int \<Rightarrow> search_args" where
  "tavily_search_args q n =
     \<lparr>sa_query = q, sa_search_depth = ''advanced'', sa_max_results = n, sa_include_images = True\<rparr>"

definition search_travel_research :: "search_provider \<Rightarrow> pystr \<Rightarrow> int \<Rightarrow> py_exc + jval" where
  "search_travel_research client q n =
     (case client (tavily_search_args q n) of
        Inl msg \<Rightarrow> Inl (Exc (''Research search error: '' @ msg))
      | Inr response \<Rightarrow> Inr response)"

text \<open>One formatted result: the dict \<open>format_results\<close> appends, field by field.\<close>

record fresult =
  fr_title :: jval
  fr_url :: jval
  fr_content :: jval
  fr_score :: jval
  fr_image_url :: jval

definition format_result :: "jval \<Rightarrow> py_exc + fresult" where
  "format_result r =
     ebind (py_get r ''title'' (JStr ''Untitled'')) (\<lambda>t.
     ebind (py_get r ''url'' (JStr [])) (\<lambda>u.
     ebind (ebind (py_get r ''content'' (JStr [])) (py_slice 500)) (\<lambda>c.
     ebind (py_get r ''score'' (JNum ''0.0'')) (\<lambda>sc.
     ebind (py_get r ''image'' JNull) (\<lambda>img.
     Inr \<lparr>fr_title = t, fr_url = u, fr_content = c, fr_score = sc, fr_image_url = img\<rparr>)))))"

definition format_results :: "jval \<Rightarrow> py_exc + fresult list" where
  "format_results raw =
     ebind (py_get raw ''results'' (JArr [])) (\<lambda>results.
     ebind (py_iter results) (\<lambda>hits. emap format_result hits))"

subsection \<open>The provider's promised payload shape\<close>

fun is_num :: "jval \<Rightarrow> bool" where
  "is_num (JNum _) = True"
| "is_num _ = False"

definition wf_field :: "(jval \<Rightarrow> bool) \<Rightarrow> jdict \<Rightarrow> pystr \<Rightarrow> bool" where
  "wf_field P d k = (case map_of d k of None \<Rightarrow> True | Some v \<Rightarrow> P v)"

fun wf_hit :: "jval \<Rightarrow> bool" where
  "wf_hit (JObj d) \<longleftrightarrow>
     wf_field is_str d ''title'' \<and> wf_field is_str d ''url'' \<and> wf_field is_str d ''content''
     \<and> wf_field is_num d ''score'' \<and> wf_field (\<lambda>v. v = JNull \<or> is_str v) d ''image''"
| "wf_hit _ \<longleftrightarrow> False"

fun payload_hits :: "jval \<Rightarrow> jval list" where
  "payload_hits (JObj d) = (case map_of d ''results'' of Some (JArr hs) \<Rightarrow> hs | _ \<Rightarrow> [])"
| "payload_hits _ = []"

fun wf_payload :: "jval \<Rightarrow> bool" where
  "wf_payload (JObj d) \<longleftrightarrow>
     (case map_of d ''results'' of
        None \<Rightarrow> True
      | Some (JArr hs) \<Rightarrow> list_all wf_hit hs
      | Some _ \<Rightarrow> False)"
| "wf_payload _ \<longleftrightarrow> False"

subsection \<open>Lemmas\<close>

lemma search_travel_research_Inr:
  "search_travel_research client q n = Inr raw \<longleftrightarrow> client (tavily_search_args q n) = Inr raw"
  by (simp add: search_travel_research_def split: sum.splits)

lemma search_travel_research_Inl:
  "search_travel_research client q n = Inl e \<longleftrightarrow>
   (\<exists>msg. client (tavily_search_args q n) = Inl msg \<and> e = Exc (''Research search error: '' @ msg))"
  by (auto simp: search_travel_research_def split: sum.splits)

lemma format_results_hits:
  "wf_payload raw \<Longrightarrow>
   format_results raw = emap format_result (payload_hits raw)"
  by (cases raw rule: payload_hits.cases)
    (auto simp: format_results_def split: option.splits jval.splits)

lemma format_result_content_slice:
  "format_result h = Inr r \<Longrightarrow>
   \<exists>v. py_get h ''content'' (JStr []) = Inr v \<and> py_slice 500 v = Inr (fr_content r)"
  by (auto simp: format_result_def ebind_eq_Inr)

lemma format_result_str_content:
  assumes "format_result h = Inr r" and "fr_content r = JStr c"
  shows "utf8_len c \<le> 500"
proof -
  from format_result_content_slice [OF assms(1)] assms(2) obtain v
    where "py_slice 500 v = Inr (JStr c)" by auto
  then show ?thesis by (cases v) (auto simp: utf8_len_slice_le)
qed

lemma format_results_mem:
  "format_results raw = Inr fs \<Longrightarrow> r \<in> set fs \<Longrightarrow> \<exists>h. format_result h = Inr r"
  by (auto simp: format_results_def ebind_eq_Inr dest: emap_Inr_mem)

subsection \<open>The normaliser's specification\<close>

text \<open>
  The spec's \<open>NormalizedResult\<close> (section 3) of one hit: title defaults to
  \<open>"Untitled"\<close>, URL and content to the empty string, score to \<open>0.0\<close>, image to
  none, and the content is cut to 500 code points. \<open>fresult_of\<close> shows a normalised
  result as the dict \<open>format_results\<close> builds.
\<close>

definition str_field :: "jdict \<Rightarrow> pystr \<Rightarrow> pystr \<Rightarrow> pystr" where
  "str_field d k dflt = (case map_of d k of Some (JStr s) \<Rightarrow> s | _ \<Rightarrow> dflt)"

definition normalize_spec :: "jdict \<Rightarrow> research_result" where
  "normalize_spec d =
     \<lparr>rr_title = str_field d ''title'' ''Untitled'',
      rr_url = str_field d ''url'' [],
      rr_content = py_slice_str 500 (str_field d ''content'' []),
      rr_score = (case map_of d ''score'' of Some (JNum t) \<Rightarrow> t | _ \<Rightarrow> ''0.0''),
      rr_image_url = (case map_of d ''image'' of Some (JStr s) \<Rightarrow> Some s | _ \<Rightarrow> None)\<rparr>"

definition fresult_of :: "research_result \<Rightarrow> fresult" where
  "fresult_of r =
     \<lparr>fr_title = JStr (rr_title r), fr_url = JStr (rr_url r), fr_content = JStr (rr_content r),
      fr_score = JNum (rr_score r),
      fr_image_url = (case rr_image_url r of None \<Rightarrow> JNull | Some s \<Rightarrow> JStr s)\<rparr>"

fun hit_dict :: "jval \<Rightarrow> jdict" where
  "hit_dict (JObj d) = d"
| "hit_dict _ = []"

lemma py_get_str_field:
  "wf_field is_str d k \<Longrightarrow> py_get (JObj d) k (JStr dflt) = Inr (JStr (str_field d k dflt))"
  by (auto simp: wf_field_def str_field_def split: option.splits jval.splits)

lemma py_get_score_field:
  "wf_field is_num d k \<Longrightarrow>
   py_get (JObj d) k (JNum dflt) =
     Inr (JNum (case map_of d k of Some (JNum t) \<Rightarrow> t | _ \<Rightarrow> dflt))"
  by (auto simp: wf_field_def split: option.splits jval.splits)

lemma py_get_image_field:
  "wf_field (\<lambda>v. v = JNull \<or> is_str v) d k \<Longrightarrow>
   py_get (JObj d) k JNull =
     Inr (case (case map_of d k of Some (JStr s) \<Rightarrow> Some s | _ \<Rightarrow> None) of
            None \<Rightarrow> JNull | Some s \<Rightarrow> JStr s)"
  by (auto simp: wf_field_def split: option.splits jval.splits)

lemma format_result_wf:
  "wf_hit h \<Longrightarrow> format_result h = Inr (fresult_of (normalize_spec (hit_dict h)))"
  by (cases h rule: wf_hit.cases)
    (simp_all add: format_result_def py_get_str_field py_get_score_field py_get_image_field
      fresult_of_def normalize_spec_def del: py_get_dict py_get.simps)

lemma emap_format_result_wf:
  "list_all wf_hit hs \<Longrightarrow>
   emap format_result hs = Inr (map (fresult_of \<circ> normalize_spec \<circ> hit_dict) hs)"
  by (induction hs) (simp_all add: format_result_wf)

lemma wf_payload_hits: "wf_payload raw \<Longrightarrow> list_all wf_hit (payload_hits raw)"
  by (cases raw rule: payload_hits.cases) (auto split: option.splits jval.splits)

lemma format_result_content_null:
  "map_of d ''content'' = Some JNull \<Longrightarrow> format_result (JObj d) = Inl TypeError"
  by (simp add: format_result_def)

lemma map_of_filter_other_key:
  "k \<noteq> x \<Longrightarrow> map_of (filter (\<lambda>kv. fst kv \<noteq> x) d) k = map_of d k"
  by (induction d) auto

text \<open>A hit that is well-formed but for a \<open>null\<close> \<open>url\<close> is normalised, the \<open>None\<close> kept.\<close>

lemma format_result_null_url:
  assumes "map_of d ''url'' = Some JNull"
    and "wf_hit (JObj (filter (\<lambda>kv. fst kv \<noteq> ''url'') d))"
  shows "\<exists>r. format_result (JObj d) = Inr r \<and> fr_url r = JNull"
  using assms
  by (auto simp: format_result_def wf_field_def map_of_filter_other_key
      split: option.splits jval.splits elim!: is_str.elims)

lemma format_results_null_url:
  assumes "map_of p ''results'' = Some (JArr (hs @ JObj d # hs'))"
    and "list_all wf_hit (hs @ hs')" and "map_of d ''url'' = Some JNull"
    and "wf_hit (JObj (filter (\<lambda>kv. fst kv \<noteq> ''url'') d))"
  shows "\<exists>fs. format_results (JObj p) = Inr fs \<and> (\<exists>r\<in>set fs. fr_url r = JNull)"
proof -
  obtain r where r: "format_result (JObj d) = Inr r" "fr_url r = JNull"
    using format_result_null_url [OF assms(3,4)] by blast
  with assms(1,2) show ?thesis
    by (simp add: format_results_def emap_append emap_format_result_wf)
qed

lemma format_results_wf_hits:
  assumes "wf_payload raw"
  shows "format_results raw = Inr (map (fresult_of \<circ> normalize_spec \<circ> hit_dict) (payload_hits raw))"
  using assms by (simp add: format_results_hits emap_format_result_wf wf_payload_hits)

subsection \<open>Properties of the normaliser\<close>

text \<open>
  C16: on every payload of the promised shape the normaliser
  does not raise, keeps one result per hit in the provider's order, and each result is
  the spec's normalised result of its hit (defaults filled in, content cut to 500 code
  points).
\<close>

theorem format_results_refines:
  assumes "wf_payload raw"
  shows "format_results raw = Inr (map (fresult_of \<circ> normalize_spec \<circ> hit_dict) (payload_hits raw))"
  using assms by (simp add: format_results_hits emap_format_result_wf wf_payload_hits)

text \<open>
  C17: whatever the provider sends, a content the
  normaliser keeps is at most 500 long: 500 code points of a string, or 500 elements
  of a list (which \<open>[:500]\<close> also accepts).
\<close>

theorem format_result_content_bound:
  assumes "format_result h = Inr r"
  shows "(\<exists>c. fr_content r = JStr c \<and> utf8_len c \<le> 500 \<and> c = py_slice_str 500 c)
       \<or> (\<exists>xs. fr_content r = JArr xs \<and> length xs \<le> 500)"
proof -
  from format_result_content_slice [OF assms] obtain v c where v: "py_get h ''content'' (JStr []) = Inr v"
      and c: "py_slice 500 v = Inr c" and r: "fr_content r = c"
    by blast
  show ?thesis
  proof (cases v)
    case (JStr s)
    have "py_slice_str 500 (py_slice_str 500 s) = py_slice_str 500 s"
      by (simp add: py_slice_str_def utf8_chars_concat_take)
    with JStr c r show ?thesis by (auto simp: utf8_len_slice_le)
  next
    case (JArr xs)
    with c r show ?thesis by auto
  qed (use c in simp_all)
qed

theorem format_result_content_bound_witness:
  "format_result (JObj [(''content'', JStr (replicate 600 (CHR ''a'')))]) =
     Inr \<lparr>fr_title = JStr ''Untitled'', fr_url = JStr [], fr_content = JStr (replicate 500 (CHR ''a'')),
          fr_score = JNum ''0.0'', fr_image_url = JNull\<rparr> \<and>
   ((\<exists>c. JStr (replicate 500 (CHR ''a'')) = JStr c \<and> utf8_len c \<le> 500 \<and> c = py_slice_str 500 c)
    \<or> (\<exists>xs. JStr (replicate 500 (CHR ''a'')) = JArr xs \<and> length xs \<le> 500))"
proof -
  have asc: "is_ascii (replicate n (CHR ''a''))" for n
    by (simp add: is_ascii_def)
  have h: "format_result (JObj [(''content'', JStr (replicate 600 (CHR ''a'')))]) =
     Inr \<lparr>fr_title = JStr ''Untitled'', fr_url = JStr [], fr_content = JStr (replicate 500 (CHR ''a'')),
          fr_score = JNum ''0.0'', fr_image_url = JNull\<rparr>"
    by (simp add: format_result_def py_slice_str_ascii [OF asc])
  show ?thesis using format_result_content_bound [OF h] h by simp
qed

text \<open>
  C18: the normaliser does not survive a hit whose \<open>content\<close> is JSON \<open>null\<close>:
  \<open>.get\<close> returns the stored \<open>None\<close>, not the default \<open>""\<close>, and \<open>None[:500]\<close> raises
  \<open>TypeError\<close>. When the hits before it are well-formed, \<open>format_results\<close> raises that
  \<open>TypeError\<close>, whatever follows: no hit is skipped and nothing is returned.
\<close>

theorem format_results_null_content:
  assumes "map_of p ''results'' = Some (JArr (hs @ JObj d # rest))"
    and "list_all wf_hit hs" and "map_of d ''content'' = Some JNull"
  shows "format_results (JObj p) = Inl TypeError"
  using assms by (simp add: format_results_def emap_append emap_format_result_wf
      format_result_content_null)

theorem format_results_null_content_witness:
  "map_of [(''results'', JArr ([JObj [(''url'', JStr ''a'')]] @
       JObj [(''title'', JStr ''Louvre''), (''content'', JNull)] # [JObj []]))] ''results''
     = Some (JArr ([JObj [(''url'', JStr ''a'')]] @
       JObj [(''title'', JStr ''Louvre''), (''content'', JNull)] # [JObj []])) \<and>
   list_all wf_hit [JObj [(''url'', JStr ''a'')]] \<and>
   map_of [(''title'', JStr ''Louvre''), (''content'', JNull)] ''content'' = Some JNull \<and>
   format_results (JObj [(''results'', JArr ([JObj [(''url'', JStr ''a'')]] @
       JObj [(''title'', JStr ''Louvre''), (''content'', JNull)] # [JObj []]))]) = Inl TypeError"
proof -
  have h: "list_all wf_hit [JObj [(''url'', JStr ''a'')]]" by (simp add: wf_field_def)
  show ?thesis
    using format_results_null_content [of "[(''results'', JArr ([JObj [(''url'', JStr ''a'')]] @
       JObj [(''title'', JStr ''Louvre''), (''content'', JNull)] # [JObj []]))]"
      "[JObj [(''url'', JStr ''a'')]]" "[(''title'', JStr ''Louvre''), (''content'', JNull)]" "[JObj []]"]
      h by simp
qed

theorem format_results_refines_witness:
  "wf_payload (JObj [(''results'', JArr [JObj [(''url'', JStr ''u''), (''score'', JNum ''0.9'')]])]) \<and>
   format_results (JObj [(''results'', JArr [JObj [(''url'', JStr ''u''), (''score'', JNum ''0.9'')]])]) =
     Inr [\<lparr>fr_title = JStr ''Untitled'', fr_url = JStr ''u'', fr_content = JStr [],
           fr_score = JNum ''0.9'', fr_image_url = JNull\<rparr>]"
proof -
  have h: "wf_payload (JObj [(''results'', JArr [JObj [(''url'', JStr ''u''), (''score'', JNum ''0.9'')]])])"
    by (simp add: wf_field_def)
  show ?thesis
    using format_results_refines [OF h] h
    by (simp add: normalize_spec_def fresult_of_def str_field_def py_slice_str_def)
qed

end
