(* ===== verification/MarkdownImages.thy ===== *)
theory MarkdownImages
  imports PyStr
begin

text \<open>
  The image extractor of \<^verbatim>\<open>src/backend/app/services/firecrawl_service.py\<close>
  (line 71): \<^verbatim>\<open>re.findall(r'!\[.*?\]\((.*?)\)', markdown)\<close>.
  The regular expression is translated into the matcher Python's backtracking engine
  runs for it: at a start position it needs \<open>![\<close>, then the lazy \<open>.*?\<close> of the alt
  text tries the continuation \<open>](\<close> after zero, one, two, \<dots> characters, and the
  lazy group \<open>(.*?)\<close> stops at the first \<open>)\<close>. The dot matches every character but
  the line feed (no \<open>re.DOTALL\<close>). \<open>re.findall\<close> scans the start positions from
  left to right, returns group 1 of every match, and resumes after the end of a
  match. Since \<open>!\<close>, \<open>[\<close>, \<open>]\<close>, \<open>(\<close>, \<open>)\<close> and the line feed are ASCII, running
  the matcher on the UTF-8 bytes gives the encoding of the code-point result.
\<close>

subsection \<open>The matcher\<close>

text \<open>Group 1, \<open>(.*?)\<^bold>)\<close>: the shortest run without a line feed that a \<open>)\<close> ends.\<close>

fun url_scan :: "pystr \<Rightarrow> (pystr \<times> pystr) option" where
  "url_scan [] = None"
| "url_scan (c # r) =
     (if c = CHR '')'' then Some ([], r)
      else if c = nl then None
      else map_option (\<lambda>(u, rest). (c # u, rest)) (url_scan r))"

text \<open>The literal \<open>\](\<close> that closes the alt text, then group 1.\<close>

fun after_alt :: "pystr \<Rightarrow> (pystr \<times> pystr) option" where
  "after_alt (c # d # r) = (if c = CHR '']'' \<and> d = CHR ''('' then url_scan r else None)"
| "after_alt _ = None"

text \<open>The lazy alt text \<open>.*?\<close>: try the continuation first, then consume one more character.\<close>

fun alt_scan :: "pystr \<Rightarrow> (pystr \<times> pystr) option" where
  "alt_scan [] = None"
| "alt_scan (c # r) =
     (case after_alt (c # r) of
        Some m \<Rightarrow> Some m
      | None \<Rightarrow> (if c = nl then None else alt_scan r))"

text \<open>A match anchored at the start of the string: group 1 and the unread rest.\<close>

fun match_img :: "pystr \<Rightarrow> (pystr \<times> pystr) option" where
  "match_img (c # d # r) = (if c = CHR ''!'' \<and> d = CHR ''['' then alt_scan r else None)"
| "match_img _ = None"

text \<open>The markdown image syntax \<open>![alt](url)\<close>, the language the pattern describes.\<close>

definition img_syntax :: "pystr \<Rightarrow> pystr \<Rightarrow> pystr" where
  "img_syntax a u = ''!['' @ a @ '']('' @ u @ '')''"

text \<open>A document of text pieces, each followed by one image link, and a tail.\<close>

definition md_doc :: "(pystr \<times> pystr \<times> pystr) list \<Rightarrow> pystr \<Rightarrow> pystr" where
  "md_doc xs tail = concat (map (\<lambda>(t, a, u). t @ img_syntax a u) xs) @ tail"

definition img_part_ok :: "pystr \<times> pystr \<times> pystr \<Rightarrow> bool" where
  "img_part_ok p = (case p of (t, a, u) \<Rightarrow>
     \<not> sublist ''!['' t \<and> nl \<notin> set a \<and> CHR '']'' \<notin> set a \<and> nl \<notin> set u \<and> CHR '')'' \<notin> set u)"

lemma url_scan_sound:
  "url_scan r = Some (u, rest) \<Longrightarrow>
   r = u @ CHR '')'' # rest \<and> nl \<notin> set u \<and> CHR '')'' \<notin> set u"
  by (induction r arbitrary: u rule: url_scan.induct) (auto split: if_splits)

lemma url_scan_exact:
  "nl \<notin> set u \<Longrightarrow> CHR '')'' \<notin> set u \<Longrightarrow> url_scan (u @ CHR '')'' # rest) = Some (u, rest)"
  by (induction u) auto

lemma url_scan_complete:
  "nl \<notin> set u \<Longrightarrow> url_scan (u @ CHR '')'' # rest) \<noteq> None"
  by (induction u) auto

lemma after_alt_sound:
  "after_alt r = Some (u, rest) \<Longrightarrow>
   r = CHR '']'' # CHR ''('' # u @ CHR '')'' # rest \<and> nl \<notin> set u \<and> CHR '')'' \<notin> set u"
  by (cases r rule: after_alt.cases) (auto split: if_splits dest: url_scan_sound)

lemma alt_scan_sound:
  "alt_scan r = Some (u, rest) \<Longrightarrow>
   \<exists>a. r = a @ CHR '']'' # CHR ''('' # u @ CHR '')'' # rest
       \<and> nl \<notin> set a \<and> nl \<notin> set u \<and> CHR '')'' \<notin> set u"
proof (induction r arbitrary: u rest rule: alt_scan.induct)
  case 1
  then show ?case by simp
next
  case (2 c r)
  show ?case
  proof (cases "after_alt (c # r)")
    case (Some m)
    with "2.prems" have "after_alt (c # r) = Some (u, rest)" by simp
    then show ?thesis by (fastforce dest: after_alt_sound)
  next
    case None
    with "2.prems" have c: "c \<noteq> nl" and r: "alt_scan r = Some (u, rest)"
      by (simp_all split: if_splits)
    from "2.IH" [OF None c r] obtain a where
      "r = a @ CHR '']'' # CHR ''('' # u @ CHR '')'' # rest"
      "nl \<notin> set a" "nl \<notin> set u" "CHR '')'' \<notin> set u"
      by blast
    with c show ?thesis by (intro exI [of _ "c # a"]) simp
  qed
qed

lemma after_alt_not_close:
  "CHR '']'' \<noteq> c \<Longrightarrow> after_alt (c # r) = None"
  by (cases r) simp_all

lemma alt_scan_exact:
  "nl \<notin> set a \<Longrightarrow> CHR '']'' \<notin> set a \<Longrightarrow> nl \<notin> set u \<Longrightarrow> CHR '')'' \<notin> set u \<Longrightarrow>
   alt_scan (a @ CHR '']'' # CHR ''('' # u @ CHR '')'' # rest) = Some (u, rest)"
proof (induction a)
  case Nil
  then show ?case by (simp add: url_scan_exact)
next
  case (Cons c a)
  then show ?case by (auto simp: after_alt_not_close)
qed

lemma alt_scan_complete:
  "nl \<notin> set a \<Longrightarrow> nl \<notin> set u \<Longrightarrow>
   alt_scan (a @ CHR '']'' # CHR ''('' # u @ CHR '')'' # rest) \<noteq> None"
proof (induction a)
  case Nil
  then show ?case by (simp add: url_scan_complete split: option.splits)
next
  case (Cons c a)
  let ?r = "a @ CHR '']'' # CHR ''('' # u @ CHR '')'' # rest"
  from Cons have ih: "alt_scan ?r \<noteq> None" and c: "c \<noteq> nl" by auto
  show ?case
  proof (cases "after_alt (c # ?r)")
    case None
    with ih c show ?thesis by simp
  next
    case (Some m)
    then show ?thesis by simp
  qed
qed

lemma img_syntax_Cons:
  "img_syntax a u @ rest = CHR ''!'' # CHR ''['' # a @ CHR '']'' # CHR ''('' # u @ CHR '')'' # rest"
  by (simp add: img_syntax_def)

lemma match_img_sound:
  "match_img s = Some (u, rest) \<Longrightarrow>
   \<exists>a. s = img_syntax a u @ rest \<and> nl \<notin> set a \<and> nl \<notin> set u \<and> CHR '')'' \<notin> set u"
  by (cases s rule: match_img.cases)
    (auto simp: img_syntax_Cons split: if_splits dest!: alt_scan_sound)

lemma match_img_length:
  "match_img s = Some (u, rest) \<Longrightarrow> length rest + length u + 5 \<le> length s"
  by (auto dest!: match_img_sound simp: img_syntax_def)

lemma match_img_exact:
  "nl \<notin> set a \<Longrightarrow> CHR '']'' \<notin> set a \<Longrightarrow> nl \<notin> set u \<Longrightarrow> CHR '')'' \<notin> set u \<Longrightarrow>
   match_img (img_syntax a u @ rest) = Some (u, rest)"
  by (simp add: img_syntax_Cons alt_scan_exact)

lemma match_img_not_bang:
  "CHR ''!'' \<noteq> c \<Longrightarrow> match_img (c # s) = None"
  by (cases s) simp_all

subsection \<open>\<open>re.findall\<close>\<close>

function findall_img :: "pystr \<Rightarrow> pystr list" where
  "findall_img [] = []"
| "findall_img (c # r) =
     (case match_img (c # r) of
        Some (u, rest) \<Rightarrow> u # findall_img rest
      | None \<Rightarrow> findall_img r)"
  by pat_completeness auto
termination
  by (relation "measure length") (auto dest: match_img_length)

lemma findall_img_skip:
  "CHR ''!'' \<notin> set t \<Longrightarrow> findall_img (t @ s) = findall_img s"
  by (induction t) (simp_all add: match_img_not_bang)

lemma findall_img_match:
  "match_img s = Some (u, rest) \<Longrightarrow> findall_img s = u # findall_img rest"
  by (cases s) simp_all


lemma findall_img_no_match:
  "match_img (c # r) = None \<Longrightarrow> findall_img (c # r) = findall_img r"
  by simp

lemma match_img_prefix:
  "match_img s \<noteq> None \<Longrightarrow> prefix ''!['' s"
  by (cases s rule: match_img.cases) (auto split: if_splits)

text \<open>Text without an opening \<open>![\<close> contributes nothing and does not disturb what follows.\<close>

lemma findall_img_skip_text:
  "\<not> sublist ''!['' (t @ take 1 s) \<Longrightarrow> findall_img (t @ s) = findall_img s"
proof (induction t)
  case Nil
  then show ?case by simp
next
  case (Cons c t)
  have tail: "\<not> sublist ''!['' (t @ take 1 s)"
    using Cons.prems by (auto simp: sublist_Cons_right)
  have "match_img (c # t @ s) = None"
  proof (rule ccontr)
    assume "match_img (c # t @ s) \<noteq> None"
    then have "prefix ''!['' (c # t @ s)" by (rule match_img_prefix)
    then have "prefix ''!['' (c # t @ take 1 s)"
      by (cases t; cases s) auto
    with Cons.prems show False by (auto simp: sublist_Cons_right)
  qed
  with Cons.IH [OF tail] show ?case by simp
qed

text \<open>
  C24: every URL the extractor returns is group 1 of an image link
  \<open>![alt](url)\<close> that occurs in the markdown, with alt text and URL on one line and
  no \<open>)\<close> in the URL.
\<close>

theorem findall_img_sound:
  "u \<in> set (findall_img s) \<Longrightarrow>
   \<exists>a. sublist (img_syntax a u) s \<and> nl \<notin> set a \<and> nl \<notin> set u \<and> CHR '')'' \<notin> set u"
proof (induction s rule: findall_img.induct)
  case 1
  then show ?case by simp
next
  case (2 c r)
  show ?case
  proof (cases "match_img (c # r)")
    case None
    with "2.prems" have "u \<in> set (findall_img r)" by simp
    with "2.IH"(1) [OF None] obtain a where a: "sublist (img_syntax a u) r"
        "nl \<notin> set a" "nl \<notin> set u" "CHR '')'' \<notin> set u"
      by blast
    from a(1) have "sublist (img_syntax a u) (c # r)"
      by (simp add: sublist_Cons_right)
    with a(2-4) show ?thesis by blast
  next
    case (Some m)
    obtain u' rest where m: "m = (u', rest)" by (cases m)
    with Some have "match_img (c # r) = Some (u', rest)" by simp
    from match_img_sound [OF this] obtain a' where dec: "c # r = img_syntax a' u' @ rest"
        "nl \<notin> set a'" "nl \<notin> set u'" "CHR '')'' \<notin> set u'"
      by blast
    from "2.prems" Some m consider "u = u'" | "u \<in> set (findall_img rest)" by auto
    then show ?thesis
    proof cases
      case 1
      have "sublist (img_syntax a' u') (c # r)" unfolding dec(1) by (rule sublist_append_rightI)
      with 1 dec(2-4) show ?thesis by blast
    next
      case 2
      from "2.IH"(2) [OF Some m [symmetric] 2] obtain a where a: "sublist (img_syntax a u) rest"
          "nl \<notin> set a" "nl \<notin> set u" "CHR '')'' \<notin> set u"
        by blast
      have "sublist rest (c # r)" unfolding dec(1) by (rule sublist_append_leftI)
      with a(1) have "sublist (img_syntax a u) (c # r)" by (rule sublist_order.order.trans)
      with a(2-4) show ?thesis by blast
    qed
  qed
qed


theorem findall_img_sound_witness:
  "''b.png'' \<in> set (findall_img ''go ![a](b.png)'') \<and>
   (\<exists>a. sublist (img_syntax a ''b.png'') ''go ![a](b.png)'' \<and> nl \<notin> set a
        \<and> nl \<notin> set ''b.png'' \<and> CHR '')'' \<notin> set ''b.png'')"
proof -
  have h: "''b.png'' \<in> set (findall_img ''go ![a](b.png)'')" by simp
  show ?thesis using findall_img_sound [OF h] h by blast
qed

text \<open>
  C26: every match consumes at least the five characters
  \<open>![](\<close> and \<open>)\<close>, so the extractor returns at most one URL per five characters
  of markdown.
\<close>

theorem findall_img_bound:
  "5 * length (findall_img s) \<le> length s"
proof (induction s rule: findall_img.induct)
  case 1
  then show ?case by simp
next
  case (2 c r)
  show ?case
  proof (cases "match_img (c # r)")
    case None
    with "2.IH"(1) [OF None] show ?thesis by simp
  next
    case (Some m)
    obtain u rest where m: "m = (u, rest)" by (cases m)
    with Some have "match_img (c # r) = Some (u, rest)" by simp
    then have "length rest + length u + 5 \<le> length (c # r)" by (rule match_img_length)
    with "2.IH"(2) [OF Some m [symmetric]] Some m show ?thesis by simp
  qed
qed

lemma findall_img_Nil_suffix:
  "findall_img (p @ s) = [] \<Longrightarrow> findall_img s = []"
  by (induction p) (auto split: option.splits)

lemma match_img_link:
  "nl \<notin> set a \<Longrightarrow> nl \<notin> set u \<Longrightarrow> match_img (img_syntax a u @ rest) \<noteq> None"
  by (simp add: img_syntax_Cons alt_scan_complete)

text \<open>
  C25: the extractor misses no image: a markdown text that holds
  an image link \<open>![alt](url)\<close> with alt text and URL on one line yields at least
  one URL, whatever else the alt text holds (\<open>]\<close> and \<open>(\<close> included, which the lazy
  \<open>.*?\<close> backtracks over) and whatever precedes the link.
\<close>

theorem findall_img_complete:
  assumes "sublist (img_syntax a u) s" and "nl \<notin> set a" and "nl \<notin> set u"
  shows "findall_img s \<noteq> []"
proof
  assume none: "findall_img s = []"
  from assms(1) obtain p q where s: "s = p @ img_syntax a u @ q"
    by (auto simp: sublist_def)
  obtain m where "match_img (img_syntax a u @ q) = Some m"
    using match_img_link [OF assms(2,3)] by blast
  then have "findall_img (img_syntax a u @ q) \<noteq> []"
    by (cases m) (simp add: findall_img_match)
  with none s show False by (auto dest: findall_img_Nil_suffix)
qed

theorem findall_img_complete_witness:
  "sublist (img_syntax ''a]b'' ''x.png'') ''see ![a]b](x.png)'' \<and> nl \<notin> set ''a]b'' \<and>
   nl \<notin> set ''x.png'' \<and> findall_img ''see ![a]b](x.png)'' \<noteq> []"
proof -
  have s: "sublist (img_syntax ''a]b'' ''x.png'') ''see ![a]b](x.png)''"
    unfolding img_syntax_def sublist_def by (rule exI [of _ "''see ''"], rule exI [of _ "[]"]) simp
  have n: "nl \<notin> set ''a]b''" "nl \<notin> set ''x.png''" by simp_all
  show ?thesis using findall_img_complete [OF s n] s n by blast
qed

lemma findall_img_no_open:
  "\<not> sublist ''!['' s \<Longrightarrow> findall_img s = []"
  using findall_img_skip_text [of s "[]"] by simp

lemma no_open_snoc_bang:
  "\<not> sublist ''!['' t \<Longrightarrow> \<not> sublist ''!['' (t @ ''!'')"
proof (induction t)
  case Nil
  then show ?case by (simp add: sublist_Cons_right)
next
  case (Cons c t)
  have "\<not> prefix ''!['' (c # t @ ''!'')"
  proof (cases t)
    case Nil
    then show ?thesis by simp
  next
    case (Cons d t')
    with \<open>\<not> sublist ''!['' (c # t)\<close> show ?thesis by (auto simp: sublist_Cons_right)
  qed
  with Cons show ?case by (simp add: sublist_Cons_right)
qed

lemma md_doc_Cons:
  "md_doc ((t, a, u) # xs) tail = t @ img_syntax a u @ md_doc xs tail"
  by (simp add: md_doc_def)

lemma take1_img_syntax: "take 1 (img_syntax a u @ r) = ''!''"
  by (simp add: img_syntax_def)

subsection \<open>Properties of the extractor\<close>

text \<open>
  C23: rendering image links \<open>![alt](url)\<close> between pieces of
  text and extracting them again gives back exactly the URLs, in the order of
  appearance and with duplicates, provided no alt text holds a line feed or \<open>]\<close>, no
  URL holds a line feed or \<open>)\<close>, and no text piece opens an image with \<open>![\<close>.
\<close>

theorem findall_img_roundtrip:
  assumes "list_all img_part_ok xs" and "\<not> sublist ''!['' tail"
  shows "findall_img (md_doc xs tail) = map (\<lambda>(t, a, u). u) xs"
  using assms
proof (induction xs)
  case Nil
  then show ?case by (simp add: md_doc_def findall_img_no_open)
next
  case (Cons x xs)
  obtain t a u where x: "x = (t, a, u)" by (cases x)
  with Cons.prems have ok: "\<not> sublist ''!['' t" "nl \<notin> set a" "CHR '']'' \<notin> set a"
      "nl \<notin> set u" "CHR '')'' \<notin> set u"
    by (simp_all add: img_part_ok_def)
  have "\<not> sublist ''!['' (t @ take 1 (img_syntax a u @ md_doc xs tail))"
    unfolding take1_img_syntax by (rule no_open_snoc_bang [OF ok(1)])
  then have "findall_img (t @ img_syntax a u @ md_doc xs tail) =
      findall_img (img_syntax a u @ md_doc xs tail)"
    by (rule findall_img_skip_text)
  also have "\<dots> = u # findall_img (md_doc xs tail)"
    using ok(2-5) by (simp add: findall_img_match match_img_exact)
  finally show ?case using Cons x by (simp add: md_doc_Cons)
qed

theorem findall_img_roundtrip_witness:
  "list_all img_part_ok [(''See '', ''tower'', ''http://a/paris.jpg''), ([], ''x'', ''b.png'')]
   \<and> \<not> sublist ''!['' '' end!''
   \<and> findall_img (md_doc [(''See '', ''tower'', ''http://a/paris.jpg''), ([], ''x'', ''b.png'')] '' end!'')
       = [''http://a/paris.jpg'', ''b.png'']"
proof -
  have h1: "list_all img_part_ok [(''See '', ''tower'', ''http://a/paris.jpg''), ([], ''x'', ''b.png'')]"
    by (simp add: img_part_ok_def sublist_code)
  have h2: "\<not> sublist ''!['' '' end!''"
    by (simp add: sublist_code)
  show ?thesis using findall_img_roundtrip [OF h1 h2] h1 h2 by simp
qed

end
