(* ===== verification/Firecrawl.thy ===== *)
theory Firecrawl
  imports MarkdownImages PyValue
begin

text \<open>
  The scrape client of \<^verbatim>\<open>src/backend/app/services/firecrawl_service.py\<close>.
  \<^item> The SDK's answer is \<open>sdk_obj\<close>: a plain dict, or an object that may have callable
    \<open>model_dump\<close>, \<open>dict\<close> and \<open>json\<close> methods (\<open>None\<close>: no such method; \<open>Inl\<close>: the call
    raises; \<open>Inr v\<close>: it returns \<open>v\<close>; for \<open>json\<close>, \<open>v\<close> is what \<open>json.loads\<close> makes of
    the text) and a \<open>str()\<close> text.
  \<^item> \<open>to_dict\<close> is \<open>_to_dict\<close> (lines 12--35): the dict itself, else the first method
    of \<open>model_dump\<close>, \<open>dict\<close>, \<open>json\<close> that returns, else \<open>{"raw": str(obj)}\<close>.
  \<^item> \<open>markdown_of\<close> is the lookup of lines 62--66: a top-level string \<open>markdown\<close>, else
    \<open>data["markdown"]\<close> when \<open>data\<close> is a dict holding that key (of any type), else
    \<open>None\<close>; the \<open>in\<close> tests and subscripts raise on values that are no container.
  \<^item> \<open>scrape\<close> (lines 44--83) calls the provider with \<open>formats=["markdown"]\<close> and
    \<open>max_age=3600000\<close>, extracts the image URLs when the markdown is a string, and turns
    every exception of the block into the error outcome \<open>{"error": ..., "image_urls": []}\<close>.
    The outcome is a datatype with the keys of the dict the code returns
    (\<open>outcome_keys\<close>) and its subscript (\<open>outcome_get\<close>).
\<close>

datatype sdk_obj =
    SdkDict jdict
  | SdkObject "(pystr + jval) option" "(pystr + jval) option" "(pystr + jval) option" pystr

record scrape_args =
  sc_url :: jval
  sc_formats :: "pystr list"
  sc_max_age :: int

type_synonym scrape_provider = "scrape_args \<Rightarrow> pystr + sdk_obj"

datatype scrape_outcome =
    ScrapeOk jval "pystr list" jval \<comment> \<open>markdown (or \<open>None\<close>), image URLs, the normalised dict\<close>
  | ScrapeErr py_exc

definition firecrawl_args :: "jval \<Rightarrow> scrape_args" where
  "firecrawl_args url = \<lparr>sc_url = url, sc_formats = [''markdown''], sc_max_age = 3600000\<rparr>"

fun to_dict :: "sdk_obj \<Rightarrow> jval" where
  "to_dict (SdkDict d) = JObj d"
| "to_dict (SdkObject model_dump dict_m json_m str_repr) =
     (case model_dump of Some (Inr v) \<Rightarrow> v | _ \<Rightarrow>
      (case dict_m of Some (Inr v) \<Rightarrow> v | _ \<Rightarrow>
       (case json_m of Some (Inr v) \<Rightarrow> v | _ \<Rightarrow>
        JObj [(''raw'', JStr str_repr)])))"

text \<open>\<open>a and b\<close> of Python, with \<open>b\<close> evaluated only when \<open>a\<close> holds.\<close>

definition py_and :: "py_exc + bool \<Rightarrow> py_exc + bool \<Rightarrow> py_exc + bool" where
  "py_and a b = ebind a (\<lambda>x. if x then b else Inr False)"

definition markdown_of :: "jval \<Rightarrow> py_exc + jval" where
  "markdown_of data =
     ebind (py_and (py_contains data ''markdown'')
                   (ebind (py_getitem data ''markdown'') (\<lambda>v. Inr (is_str v)))) (\<lambda>top.
     if top then py_getitem data ''markdown''
     else ebind (py_and (py_contains data ''data'')
                   (py_and (ebind (py_getitem data ''data'') (\<lambda>v. Inr (is_dict v)))
                           (ebind (py_getitem data ''data'') (\<lambda>v. py_contains v ''markdown'')))) (\<lambda>nested.
          if nested then ebind (py_getitem data ''data'') (\<lambda>v. py_getitem v ''markdown'')
          else Inr JNull))"

definition scrape :: "scrape_provider \<Rightarrow> jval \<Rightarrow> scrape_outcome" where
  "scrape client url =
     (case client (firecrawl_args url) of
        Inl msg \<Rightarrow> ScrapeErr (Exc msg)
      | Inr obj \<Rightarrow>
          (let data = to_dict obj in
           case markdown_of data of
             Inl e \<Rightarrow> ScrapeErr e
           | Inr markdown \<Rightarrow>
               ScrapeOk markdown (case markdown of JStr s \<Rightarrow> findall_img s | _ \<Rightarrow> []) data))"

fun outcome_keys :: "scrape_outcome \<Rightarrow> pystr list" where
  "outcome_keys (ScrapeOk _ _ _) = [''markdown'', ''image_urls'', ''raw'']"
| "outcome_keys (ScrapeErr _) = [''error'', ''image_urls'']"

fun outcome_get :: "scrape_outcome \<Rightarrow> pystr \<Rightarrow> py_exc + jval" where
  "outcome_get (ScrapeOk md imgs raw) k =
     (if k = ''markdown'' then Inr md
      else if k = ''image_urls'' then Inr (JArr (map JStr imgs))
      else if k = ''raw'' then Inr raw
      else Inl (KeyError k))"
| "outcome_get (ScrapeErr e) k =
     (if k = ''error'' then Inr (JStr (''Scraping error: '' @ exc_str e))
      else if k = ''image_urls'' then Inr (JArr [])
      else Inl (KeyError k))"

fun outcome_images :: "scrape_outcome \<Rightarrow> pystr list" where
  "outcome_images (ScrapeOk _ imgs _) = imgs"
| "outcome_images (ScrapeErr _) = []"

subsection \<open>Lemmas\<close>

lemma outcome_keys_content_image_urls:
  "''content'' \<notin> set (outcome_keys oc) \<and> ''image_urls'' \<in> set (outcome_keys oc)"
  by (cases oc) simp_all

lemma outcome_get_keys:
  "k \<in> set (outcome_keys oc) \<longleftrightarrow> (\<exists>v. outcome_get oc k = Inr v)"
  by (cases oc) auto

lemma scrape_provider_error:
  "client (firecrawl_args url) = Inl msg \<Longrightarrow> scrape client url = ScrapeErr (Exc msg)"
  by (simp add: scrape_def)

lemma scrape_response:
  "client (firecrawl_args url) = Inr obj \<Longrightarrow>
   scrape client url =
     (case markdown_of (to_dict obj) of
        Inl e \<Rightarrow> ScrapeErr e
      | Inr markdown \<Rightarrow>
          ScrapeOk markdown (case markdown of JStr s \<Rightarrow> findall_img s | _ \<Rightarrow> []) (to_dict obj))"
  by (simp add: scrape_def Let_def)

lemma outcome_images_scrape:
  "outcome_images (scrape client url) =
     (case client (firecrawl_args url) of
        Inl _ \<Rightarrow> []
      | Inr obj \<Rightarrow> (case markdown_of (to_dict obj) of
                     Inr (JStr s) \<Rightarrow> findall_img s
                   | _ \<Rightarrow> []))"
  by (simp add: scrape_def Let_def split: sum.splits jval.splits)

lemma outcome_get_image_urls:
  "outcome_get oc ''image_urls'' = Inr (JArr (map JStr (outcome_images oc)))"
  by (cases oc) simp_all


lemmas dict_access_simps = py_contains_dict_Some py_contains_dict_None py_getitem_dict_Some

lemma markdown_of_top:
  "map_of d ''markdown'' = Some (JStr s) \<Longrightarrow> markdown_of (JObj d) = Inr (JStr s)"
  by (simp add: markdown_of_def py_and_def dict_access_simps del: py_contains.simps py_getitem.simps)

lemma markdown_of_nested:
  assumes "\<forall>v. map_of d ''markdown'' = Some v \<longrightarrow> \<not> is_str v"
    and "map_of d ''data'' = Some (JObj d')" and "map_of d' ''markdown'' = Some v"
  shows "markdown_of (JObj d) = Inr v"
proof -
  have top: "ebind (py_contains (JObj d) ''markdown'') (\<lambda>x. if x
      then ebind (py_getitem (JObj d) ''markdown'') (\<lambda>v. Inr (is_str v)) else Inr False)
      = Inr False"
    using assms(1) by (cases "map_of d ''markdown''")
      (simp_all add: py_and_def dict_access_simps del: py_contains.simps py_getitem.simps)
  from assms(2,3) show ?thesis
    by (simp add: markdown_of_def top py_and_def dict_access_simps
        del: py_contains.simps py_getitem.simps)
qed

subsection \<open>Properties of the scrape client\<close>

text \<open>
  C19: when the provider raises, \<open>scrape\<close> returns the error
  outcome carrying the provider's message, with the key \<open>image_urls\<close> bound to an
  empty list, instead of raising.
\<close>

theorem scrape_failure_absorbed:
  assumes "client (firecrawl_args url) = Inl msg"
  shows "scrape client url = ScrapeErr (Exc msg) \<and>
    outcome_get (scrape client url) ''image_urls'' = Inr (JArr []) \<and>
    outcome_get (scrape client url) ''error'' = Inr (JStr (''Scraping error: '' @ msg))"
  using assms by (simp add: scrape_provider_error)

theorem scrape_failure_absorbed_witness:
  "(\<lambda>_. Inl ''timeout'' :: pystr + sdk_obj) (firecrawl_args (JStr ''u'')) = Inl ''timeout'' \<and>
   scrape (\<lambda>_. Inl ''timeout'') (JStr ''u'') = ScrapeErr (Exc ''timeout'') \<and>
   outcome_get (scrape (\<lambda>_. Inl ''timeout'') (JStr ''u'')) ''image_urls'' = Inr (JArr []) \<and>
   outcome_get (scrape (\<lambda>_. Inl ''timeout'') (JStr ''u'')) ''error'' =
     Inr (JStr (''Scraping error: '' @ ''timeout''))"
  using scrape_failure_absorbed [of "\<lambda>_. Inl ''timeout''" "JStr ''u''" "''timeout''"] by simp

text \<open>
  C20: when the normalised response has a top-level string
  \<open>markdown\<close>, \<open>scrape\<close> succeeds with that markdown and the image URLs the extractor
  finds in it.
\<close>

theorem scrape_top_markdown:
  assumes "client (firecrawl_args url) = Inr obj" and "to_dict obj = JObj d"
    and "map_of d ''markdown'' = Some (JStr s)"
  shows "scrape client url = ScrapeOk (JStr s) (findall_img s) (JObj d)"
  using assms by (simp add: scrape_response markdown_of_top)

theorem scrape_top_markdown_witness:
  "(\<lambda>_. Inr (SdkDict [(''markdown'', JStr ''![a](p.png)'')])) (firecrawl_args (JStr ''u''))
     = (Inr (SdkDict [(''markdown'', JStr ''![a](p.png)'')]) :: pystr + sdk_obj) \<and>
   to_dict (SdkDict [(''markdown'', JStr ''![a](p.png)'')]) = JObj [(''markdown'', JStr ''![a](p.png)'')] \<and>
   map_of [(''markdown'', JStr ''![a](p.png)'')] ''markdown'' = Some (JStr ''![a](p.png)'') \<and>
   scrape (\<lambda>_. Inr (SdkDict [(''markdown'', JStr ''![a](p.png)'')])) (JStr ''u'') =
     ScrapeOk (JStr ''![a](p.png)'') [''p.png''] (JObj [(''markdown'', JStr ''![a](p.png)'')])"
proof -
  have "findall_img ''![a](p.png)'' = [''p.png'']" by simp
  then show ?thesis
    using scrape_top_markdown [of "\<lambda>_. Inr (SdkDict [(''markdown'', JStr ''![a](p.png)'')])"
        "JStr ''u''" "SdkDict [(''markdown'', JStr ''![a](p.png)'')]"
        "[(''markdown'', JStr ''![a](p.png)'')]" "''![a](p.png)''"]
    by simp
qed

text \<open>
  C21: when the response has no top-level string \<open>markdown\<close>
  but a dict \<open>data\<close> with a \<open>markdown\<close> key, \<open>scrape\<close> succeeds with that value (of
  any type) and extracts image URLs only when it is a string.
\<close>

theorem scrape_nested_markdown:
  assumes "client (firecrawl_args url) = Inr obj" and "to_dict obj = JObj d"
    and "\<forall>v. map_of d ''markdown'' = Some v \<longrightarrow> \<not> is_str v"
    and "map_of d ''data'' = Some (JObj d')" and "map_of d' ''markdown'' = Some v"
  shows "scrape client url =
    ScrapeOk v (case v of JStr s \<Rightarrow> findall_img s | _ \<Rightarrow> []) (JObj d)"
  using assms by (simp add: scrape_response markdown_of_nested)

theorem scrape_nested_markdown_witness:
  "(\<lambda>_. Inr (SdkObject (Some (Inr (JObj [(''data'', JObj [(''markdown'', JStr ''![x](q.jpg)'')])])))
       None None ''doc''))
     (firecrawl_args (JStr ''u'')) =
     (Inr (SdkObject (Some (Inr (JObj [(''data'', JObj [(''markdown'', JStr ''![x](q.jpg)'')])])))
       None None ''doc'') :: pystr + sdk_obj) \<and>
   to_dict (SdkObject (Some (Inr (JObj [(''data'', JObj [(''markdown'', JStr ''![x](q.jpg)'')])])))
       None None ''doc'') = JObj [(''data'', JObj [(''markdown'', JStr ''![x](q.jpg)'')])] \<and>
   map_of [(''data'', JObj [(''markdown'', JStr ''![x](q.jpg)'')])] ''markdown'' = None \<and>
   map_of [(''data'', JObj [(''markdown'', JStr ''![x](q.jpg)'')])] ''data''
     = Some (JObj [(''markdown'', JStr ''![x](q.jpg)'')]) \<and>
   map_of [(''markdown'', JStr ''![x](q.jpg)'')] ''markdown'' = Some (JStr ''![x](q.jpg)'') \<and>
   scrape (\<lambda>_. Inr (SdkObject (Some (Inr (JObj [(''data'', JObj [(''markdown'', JStr ''![x](q.jpg)'')])])))
       None None ''doc'')) (JStr ''u'') =
     ScrapeOk (JStr ''![x](q.jpg)'') [''q.jpg''] (JObj [(''data'', JObj [(''markdown'', JStr ''![x](q.jpg)'')])])"
proof -
  have "findall_img ''![x](q.jpg)'' = [''q.jpg'']" by simp
  then show ?thesis
    using scrape_nested_markdown [of "\<lambda>_. Inr (SdkObject (Some (Inr (JObj [(''data'', JObj [(''markdown'', JStr ''![x](q.jpg)'')])])))
       None None ''doc'')" "JStr ''u''"
      "SdkObject (Some (Inr (JObj [(''data'', JObj [(''markdown'', JStr ''![x](q.jpg)'')])]))) None None ''doc''"
      "[(''data'', JObj [(''markdown'', JStr ''![x](q.jpg)'')])]"
      "[(''markdown'', JStr ''![x](q.jpg)'')]" "JStr ''![x](q.jpg)''"]
    by simp
qed

text \<open>
  C22: a response that converts to no dict (\<open>None\<close>, a boolean, a number, a string
  or a list) never makes \<open>scrape\<close> raise. The \<open>in\<close> tests raise \<open>TypeError\<close> on a
  value that is no container; on a string or a list they test substrings or elements,
  and one that holds \<open>"markdown"\<close> or \<open>"data"\<close> makes the subscript that follows raise
  \<open>TypeError\<close>. Either way the \<open>except\<close> clause returns the error outcome; otherwise
  the markdown is \<open>None\<close> and no image URL is extracted.
\<close>

theorem scrape_non_dict_absorbed:
  assumes "client (firecrawl_args url) = Inr obj" and "\<not> is_dict (to_dict obj)"
  shows "scrape client url =
    (if py_contains (to_dict obj) ''markdown'' = Inr False
        \<and> py_contains (to_dict obj) ''data'' = Inr False
     then ScrapeOk JNull [] (to_dict obj) else ScrapeErr TypeError)"
  using assms by (cases "to_dict obj") (simp_all add: scrape_response markdown_of_def py_and_def)

theorem scrape_non_dict_absorbed_witness:
  "(\<lambda>_. Inr (SdkObject (Some (Inr JNull)) None None ''None'')) (firecrawl_args (JStr ''u''))
     = (Inr (SdkObject (Some (Inr JNull)) None None ''None'') :: pystr + sdk_obj) \<and>
   \<not> is_dict (to_dict (SdkObject (Some (Inr JNull)) None None ''None'')) \<and>
   scrape (\<lambda>_. Inr (SdkObject (Some (Inr JNull)) None None ''None'')) (JStr ''u'') = ScrapeErr TypeError"
  using scrape_non_dict_absorbed [of "\<lambda>_. Inr (SdkObject (Some (Inr JNull)) None None ''None'')"
      "JStr ''u''" "SdkObject (Some (Inr JNull)) None None ''None''"]
  by simp

end
