(* ===== verification/ImageFilter.thy ===== *)
theory ImageFilter
  imports PyStr
begin

text \<open>
  The relevance filter of \<^verbatim>\<open>src/backend/app/routes/research.py\<close> (lines 75--79):
  \<^verbatim>\<open>query_keywords = request.query.lower().split()\<close> and the comprehension that keeps
  a URL when \<^verbatim>\<open>any(keyword in url.lower() for keyword in query_keywords)\<close>, cut to
  its first five elements by \<^verbatim>\<open>[:5]\<close>. Python's \<open>in\<close> on strings is \<open>sublist\<close>;
  \<open>any\<close> over the keyword list is \<open>list_ex\<close>.
\<close>

definition query_keywords :: "pystr \<Rightarrow> pystr list" where
  "query_keywords q = py_split (py_lower q)"

definition url_relevant :: "pystr list \<Rightarrow> pystr \<Rightarrow> bool" where
  "url_relevant ks url = list_ex (\<lambda>k. sublist k (py_lower url)) ks"

definition filter_images :: "pystr \<Rightarrow> pystr list \<Rightarrow> pystr list" where
  "filter_images q urls = take 5 (filter (url_relevant (query_keywords q)) urls)"

lemma url_relevant_lower [simp]:
  "url_relevant ks (py_lower u) = url_relevant ks u"
  by (simp add: url_relevant_def)

lemma query_keywords_lower [simp]:
  "query_keywords (py_lower q) = query_keywords q"
  by (simp add: query_keywords_def)

lemma filter_images_relevant:
  "u \<in> set (filter_images q urls) \<Longrightarrow>
   u \<in> set urls \<and> (\<exists>k\<in>set (query_keywords q). sublist k (py_lower u))"
  by (auto simp: filter_images_def url_relevant_def list_ex_iff dest: set_take_filter)

lemma filter_images_length: "length (filter_images q urls) \<le> 5"
  by (simp add: filter_images_def)

subsection \<open>Properties of the filter\<close>

text \<open>
  C33: the filter returns at most five URLs and never more than
  it was given.
\<close>

theorem filter_images_bounds:
  "length (filter_images q urls) \<le> 5 \<and> length (filter_images q urls) \<le> length urls"
  by (simp add: filter_images_def min_le_iff_disj)

text \<open>
  C32: every URL the filter keeps is one of its inputs and
  contains, case-insensitively, a non-empty whitespace-free word of the query.
\<close>

theorem filter_images_sound:
  assumes "u \<in> set (filter_images q urls)"
  shows "u \<in> set urls \<and>
    (\<exists>k\<in>set (py_split (py_lower q)).
       k \<noteq> [] \<and> (\<forall>c\<in>set k. \<not> py_isspace c) \<and> sublist k (py_lower u))"
proof -
  from assms have u: "u \<in> set urls" and rel: "url_relevant (query_keywords q) u"
    unfolding filter_images_def by (auto dest: set_take_filter)
  from rel obtain k where k: "k \<in> set (py_split (py_lower q))" "sublist k (py_lower u)"
    by (auto simp: url_relevant_def query_keywords_def list_ex_iff)
  from k(1) have "k \<noteq> [] \<and> (\<forall>c\<in>set k. \<not> py_isspace c)" by (rule py_split_words)
  with u k show ?thesis by blast
qed

theorem filter_images_sound_witness:
  "''http://x/Paris.jpg'' \<in> set (filter_images ''paris museums'' [''a.png'', ''http://x/Paris.jpg''])
   \<and> ''http://x/Paris.jpg'' \<in> set [''a.png'', ''http://x/Paris.jpg''] \<and>
   (\<exists>k\<in>set (py_split (py_lower ''paris museums'')).
       k \<noteq> [] \<and> (\<forall>c\<in>set k. \<not> py_isspace c) \<and> sublist k (py_lower ''http://x/Paris.jpg''))"
proof -
  have h: "''http://x/Paris.jpg'' \<in> set (filter_images ''paris museums'' [''a.png'', ''http://x/Paris.jpg''])"
    by code_simp
  show ?thesis using filter_images_sound [OF h] h by blast
qed

text \<open>
  C34: the kept URLs are a subsequence of the input: the filter
  keeps the aggregation order and never reorders or invents URLs.
\<close>

theorem filter_images_order:
  "subseq (filter_images q urls) urls"
  unfolding filter_images_def by (rule subseq_take_filter)

text \<open>
  C35: while fewer than five URLs are kept, no relevant URL is
  dropped: the filter loses relevant URLs only to the cut at five.
\<close>

theorem filter_images_complete:
  assumes "length (filter_images q urls) < 5" and "u \<in> set urls"
    and "url_relevant (query_keywords q) u"
  shows "u \<in> set (filter_images q urls)"
proof -
  from assms(1) have "filter_images q urls = filter (url_relevant (query_keywords q)) urls"
    by (simp add: filter_images_def)
  with assms(2,3) show ?thesis by simp
qed

text \<open>
  C36: lower-casing the query or the URLs beforehand
  changes nothing but the case of the kept URLs.
\<close>

theorem filter_images_case_insensitive:
  "filter_images (py_lower q) urls = filter_images q urls \<and>
   filter_images q (map py_lower urls) = map py_lower (filter_images q urls)"
proof -
  have "filter (url_relevant ks) (map py_lower urls) = map py_lower (filter (url_relevant ks) urls)"
    for ks
    by (induction urls) simp_all
  then show ?thesis by (simp add: filter_images_def take_map)
qed

theorem filter_images_complete_witness:
  "length (filter_images ''rome'' [''http://x/rome.png'']) < 5 \<and>
   ''http://x/rome.png'' \<in> set [''http://x/rome.png''] \<and>
   url_relevant (query_keywords ''rome'') ''http://x/rome.png'' \<and>
   ''http://x/rome.png'' \<in> set (filter_images ''rome'' [''http://x/rome.png''])"
proof -
  have r: "url_relevant (query_keywords ''rome'') ''http://x/rome.png''"
    by code_simp
  have l: "length (filter_images ''rome'' [''http://x/rome.png'']) < 5"
    by (simp add: filter_images_def)
  show ?thesis using filter_images_complete [OF l _ r] l r by simp
qed

end
