(* ===== verification/PromptTemplate.thy ===== *)
theory PromptTemplate
  imports PyValue
begin

text \<open>
  The prompt templates of LangChain's \<open>ChatPromptTemplate.from_messages\<close>, which both
  chains of \<^verbatim>\<open>src/backend/app/chains\<close> build their messages with: every message text
  is an f-string template, parsed as Python's \<open>string.Formatter\<close> parses it
  (\<open>{{\<close> and \<open>}}\<close> are literal braces, \<open>{name}\<close> is a variable; a lone \<open>}\<close> or an
  unclosed \<open>{\<close> raise \<open>ValueError\<close>) and formatted with the chain's input variables
  (a variable without a value raises \<open>KeyError\<close>). Values are inserted as they are,
  never parsed again. Format specifications and conversions inside a field are not
  modelled: the field name is the text up to the closing brace.
\<close>

datatype tpart = TLit char | TVar pystr

definition lbrace :: char where "lbrace = CHR 0x7B"
definition rbrace :: char where "rbrace = CHR 0x7D"

definition pcons :: "tpart \<Rightarrow> py_exc + tpart list \<Rightarrow> py_exc + tpart list" where
  "pcons p m = ebind m (\<lambda>ps. Inr (p # ps))"

function parse_template :: "pystr \<Rightarrow> py_exc + tpart list" where
  "parse_template [] = Inr []"
| "parse_template (c # s) =
     (if c = lbrace then
        (case s of
           d # r \<Rightarrow> if d = lbrace then pcons (TLit lbrace) (parse_template r)
                  else (case dropWhile (\<lambda>x. x \<noteq> rbrace) s of
                          [] \<Rightarrow> Inl (Exc (''expected '' @ [squote, rbrace, squote] @ '' before end of string''))
                        | _ # r' \<Rightarrow> pcons (TVar (takeWhile (\<lambda>x. x \<noteq> rbrace) s)) (parse_template r'))
         | [] \<Rightarrow> Inl (Exc (''Single '' @ [squote, lbrace, squote] @ '' encountered in format string'')))
      else if c = rbrace then
        (case s of
           d # r \<Rightarrow> if d = rbrace then pcons (TLit rbrace) (parse_template r)
                  else Inl (Exc (''Single '' @ [squote, rbrace, squote] @ '' encountered in format string''))
         | [] \<Rightarrow> Inl (Exc (''Single '' @ [squote, rbrace, squote] @ '' encountered in format string'')))
      else pcons (TLit c) (parse_template s))"
  by pat_completeness auto
termination
  by (relation "measure length")
    (auto simp: le_imp_less_Suc length_dropWhile_le dest!: dropWhile_eq_Cons_length split: if_splits)

fun format_parts :: "(pystr \<times> pystr) list \<Rightarrow> tpart list \<Rightarrow> py_exc + pystr" where
  "format_parts vs [] = Inr []"
| "format_parts vs (TLit c # ps) = ebind (format_parts vs ps) (\<lambda>r. Inr (c # r))"
| "format_parts vs (TVar v # ps) =
     (case map_of vs v of
        None \<Rightarrow> Inl (KeyError v)
      | Some x \<Rightarrow> ebind (format_parts vs ps) (\<lambda>r. Inr (x @ r)))"

definition format_template :: "(pystr \<times> pystr) list \<Rightarrow> pystr \<Rightarrow> py_exc + pystr" where
  "format_template vs s = ebind (parse_template s) (format_parts vs)"

definition brace_free :: "pystr \<Rightarrow> bool" where
  "brace_free s \<longleftrightarrow> lbrace \<notin> set s \<and> rbrace \<notin> set s"

lemma braces_distinct [simp]: "lbrace \<noteq> rbrace" "rbrace \<noteq> lbrace"
  by (simp_all add: lbrace_def rbrace_def)

lemma parse_template_brace_free:
  "brace_free s \<Longrightarrow> parse_template s = Inr (map TLit s)"
  by (induction s) (auto simp: brace_free_def pcons_def)

lemma format_parts_lits [simp]: "format_parts vs (map TLit s) = Inr s"
  by (induction s) simp_all

lemma format_template_brace_free:
  "brace_free s \<Longrightarrow> format_template vs s = Inr s"
  by (simp add: format_template_def parse_template_brace_free)

lemma brace_free_append [simp]: "brace_free (s @ t) \<longleftrightarrow> brace_free s \<and> brace_free t"
  by (auto simp: brace_free_def)

lemma dropWhile_until:
  "c \<notin> set v \<Longrightarrow> dropWhile (\<lambda>x. x \<noteq> c) (v @ c # r) = c # r"
  by (induction v) auto

lemma takeWhile_until:
  "c \<notin> set v \<Longrightarrow> takeWhile (\<lambda>x. x \<noteq> c) (v @ c # r) = v"
  by (induction v) auto

lemma parse_template_var:
  assumes "brace_free (d # v)" and "d \<noteq> lbrace"
  shows "parse_template (lbrace # d # v @ rbrace # r) = pcons (TVar (d # v)) (parse_template r)"
proof -
  have "d \<noteq> rbrace" "rbrace \<notin> set v" using assms(1) by (auto simp: brace_free_def)
  then show ?thesis using assms(2)
    by (simp add: dropWhile_until takeWhile_until)
qed

lemma format_template_Cons_lit:
  "c \<noteq> lbrace \<Longrightarrow> c \<noteq> rbrace \<Longrightarrow>
   format_template vs (c # s) = ebind (format_template vs s) (\<lambda>t. Inr (c # t))"
  by (simp add: format_template_def pcons_def ebind_def split: sum.splits)

lemma format_template_var:
  assumes "brace_free a" and "brace_free (d # v)" and "d \<noteq> lbrace"
    and "map_of vs (d # v) = Some x"
  shows "format_template vs (a @ lbrace # d # v @ rbrace # r) =
    ebind (format_template vs r) (\<lambda>t. Inr (a @ x @ t))"
  using assms(1)
proof (induction a)
  case Nil
  have "parse_template (lbrace # d # v @ rbrace # r) = pcons (TVar (d # v)) (parse_template r)"
    using assms(2,3) by (rule parse_template_var)
  then show ?case unfolding format_template_def append_Nil
    by (simp add: assms(4) pcons_def ebind_def split: sum.splits)
next
  case (Cons c a)
  then have "c \<noteq> lbrace" "c \<noteq> rbrace" "brace_free a" by (auto simp: brace_free_def)
  with Cons.IH show ?case
    by (simp add: format_template_Cons_lit ebind_def split: sum.splits)
qed

lemma format_template_field:
  assumes "brace_free a" and "brace_free name" and "name \<noteq> []"
    and "map_of vs name = Some x"
  shows "format_template vs (a @ lbrace # name @ rbrace # r) =
    ebind (format_template vs r) (\<lambda>t. Inr (a @ x @ t))"
proof (cases name)
  case (Cons d v)
  with assms(2) have "d \<noteq> lbrace" by (auto simp: brace_free_def)
  with Cons assms show ?thesis by (simp add: format_template_var)
qed (use assms(3) in simp)

end
