(* ===== verification/ChatChain.thy ===== *)
theory ChatChain
  imports PromptTemplate
begin

text \<open>
  The chat chain of \<^verbatim>\<open>src/backend/app/chains/chat_chain.py\<close>, through which the
  research endpoint asks the text-generation service for its narrative.
  \<^item> \<open>system_message\<close> is the language dispatch of \<^verbatim>\<open>create_chat_chain\<close>
    (lines 31--60): \<open>"fr"\<close> and \<open>"vi"\<close> select their templates, every other
    string the English one. The templates are the source's texts as UTF-8 bytes.
  \<^item> The generation service is the capability \<open>llm_provider\<close>: one single-turn call
    with the system message and the user message (the chain
    \<open>prompt | llm | StrOutputParser()\<close>), answering the reply text or raising (\<open>Inl\<close>,
    the exception's \<open>str(e)\<close>; loading the model is part of the call).
  \<^item> \<open>chat_messages\<close> is the prompt of lines 63--66,
    \<open>ChatPromptTemplate.from_messages([("system", system_message), ("user",
    "{user_question}")])\<close>, formatted with the chain's one input variable: both
    message texts are templates (see \<open>PromptTemplate\<close>).
  \<^item> \<open>get_chat_response\<close> (lines 78--97) builds the chain and invokes it once: the
    prompt is formatted, then the model is called; an exception propagates.
\<close>

type_synonym llm_provider = "pystr \<Rightarrow> pystr \<Rightarrow> pystr + pystr"

definition system_message_fr :: pystr where
  "system_message_fr =
     ''Vous '' @ [CHR 0xC3, CHR 0xAA] @
     ''tes un assistant de voyage IA expert. Votre objectif est d'' @ [CHR 0x27] @
     ''inspirer et d'' @ [CHR 0x27] @ ''aider les utilisateurs '' @
     [CHR 0xC3, CHR 0xA0] @ '' planifier leurs voyages de r'' @ [CHR 0xC3, CHR 0xAA] @
     ''ve.'' @ [CHR 0x0A, CHR 0x0A] @ ''Vos capacit'' @ [CHR 0xC3, CHR 0xA9] @ ''s:'' @
     [CHR 0x0A] @ ''- Fournir des informations d'' @ [CHR 0xC3, CHR 0xA9] @ ''taill'' @
     [CHR 0xC3, CHR 0xA9] @
     ''es et engageantes sur les destinations, la culture, les activit'' @
     [CHR 0xC3, CHR 0xA9] @ ''s et la logistique.'' @ [CHR 0x0A] @ ''- Cr'' @
     [CHR 0xC3, CHR 0xA9] @ ''er des exemples d'' @ [CHR 0x27] @ ''itin'' @
     [CHR 0xC3, CHR 0xA9] @ ''raires.'' @ [CHR 0x0A] @
     ''- Offrir des conseils pratiques pour la budg'' @ [CHR 0xC3, CHR 0xA9] @
     ''tisation, la s'' @ [CHR 0xC3, CHR 0xA9] @ ''curit'' @ [CHR 0xC3, CHR 0xA9] @
     '' et les voyages responsables.'' @ [CHR 0x0A] @ ''- R'' @ [CHR 0xC3, CHR 0xA9] @
     ''pondre dans un ton conversationnel et inspirant.'' @ [CHR 0x0A, CHR 0x0A] @
     ''IMPORTANT: Vous n'' @ [CHR 0x27, CHR 0xC3, CHR 0xAA] @
     ''tes pas un agent de r'' @ [CHR 0xC3, CHR 0xA9] @
     ''servation. Toujours conseiller aux utilisateurs de v'' @ [CHR 0xC3, CHR 0xA9] @
     ''rifier les d'' @ [CHR 0xC3, CHR 0xA9] @
     ''tails tels que les prix et la disponibilit'' @ [CHR 0xC3, CHR 0xA9] @
     '' sur les sites de r'' @ [CHR 0xC3, CHR 0xA9] @ ''servation officiels.''"

definition system_message_vi :: pystr where
  "system_message_vi =
     ''B'' @ [CHR 0xE1, CHR 0xBA, CHR 0xA1] @ ''n l'' @ [CHR 0xC3, CHR 0xA0] @ '' m'' @
     [CHR 0xE1, CHR 0xBB, CHR 0x99] @ ''t tr'' @ [CHR 0xE1, CHR 0xBB, CHR 0xA3] @
     '' l'' @ [CHR 0xC3, CHR 0xBD] @ '' du l'' @ [CHR 0xE1, CHR 0xBB, CHR 0x8B] @
     ''ch AI chuy'' @ [CHR 0xC3, CHR 0xAA] @ ''n nghi'' @
     [CHR 0xE1, CHR 0xBB, CHR 0x87] @ ''p. M'' @ [CHR 0xE1, CHR 0xBB, CHR 0xA5] @
     ''c ti'' @ [CHR 0xC3, CHR 0xAA] @ ''u c'' @ [CHR 0xE1, CHR 0xBB, CHR 0xA7] @
     ''a b'' @ [CHR 0xE1, CHR 0xBA, CHR 0xA1] @ ''n l'' @ [CHR 0xC3, CHR 0xA0] @
     '' truy'' @ [CHR 0xE1, CHR 0xBB, CHR 0x81] @ ''n c'' @
     [CHR 0xE1, CHR 0xBA, CHR 0xA3] @ ''m h'' @ [CHR 0xE1, CHR 0xBB, CHR 0xA9] @
     ''ng v'' @ [CHR 0xC3, CHR 0xA0] @ '' gi'' @ [CHR 0xC3, CHR 0xBA] @ ''p ng'' @
     [CHR 0xC6, CHR 0xB0, CHR 0xE1, CHR 0xBB, CHR 0x9D] @ ''i d'' @
     [CHR 0xC3, CHR 0xB9] @ ''ng l'' @ [CHR 0xC3, CHR 0xAA] @ ''n k'' @
     [CHR 0xE1, CHR 0xBA, CHR 0xBF] @ '' ho'' @ [CHR 0xE1, CHR 0xBA, CHR 0xA1] @
     ''ch cho chuy'' @ [CHR 0xE1, CHR 0xBA, CHR 0xBF] @ ''n '' @ [CHR 0xC4, CHR 0x91] @
     ''i m'' @ [CHR 0xC6, CHR 0xA1] @ '' '' @
     [CHR 0xC6, CHR 0xB0, CHR 0xE1, CHR 0xBB, CHR 0x9B] @ ''c c'' @
     [CHR 0xE1, CHR 0xBB, CHR 0xA7] @ ''a h'' @ [CHR 0xE1, CHR 0xBB, CHR 0x8D] @
     ''.'' @ [CHR 0x0A, CHR 0x0A] @ ''Kh'' @ [CHR 0xE1, CHR 0xBA, CHR 0xA3] @ '' n'' @
     [CHR 0xC4, CHR 0x83] @ ''ng c'' @ [CHR 0xE1, CHR 0xBB, CHR 0xA7] @ ''a b'' @
     [CHR 0xE1, CHR 0xBA, CHR 0xA1] @ ''n:'' @ [CHR 0x0A] @ ''- Cung c'' @
     [CHR 0xE1, CHR 0xBA, CHR 0xA5] @ ''p th'' @ [CHR 0xC3, CHR 0xB4] @
     ''ng tin chi ti'' @ [CHR 0xE1, CHR 0xBA, CHR 0xBF] @ ''t v'' @
     [CHR 0xC3, CHR 0xA0] @ '' h'' @ [CHR 0xE1, CHR 0xBA, CHR 0xA5] @ ''p d'' @
     [CHR 0xE1, CHR 0xBA, CHR 0xAB] @ ''n v'' @ [CHR 0xE1, CHR 0xBB, CHR 0x81] @
     '' c'' @ [CHR 0xC3, CHR 0xA1] @ ''c '' @ [CHR 0xC4, CHR 0x91] @ ''i'' @
     [CHR 0xE1, CHR 0xBB, CHR 0x83] @ ''m '' @
     [CHR 0xC4, CHR 0x91, CHR 0xE1, CHR 0xBA, CHR 0xBF] @ ''n, v'' @
     [CHR 0xC4, CHR 0x83] @ ''n h'' @ [CHR 0xC3, CHR 0xB3] @ ''a, ho'' @
     [CHR 0xE1, CHR 0xBA, CHR 0xA1] @ ''t '' @
     [CHR 0xC4, CHR 0x91, CHR 0xE1, CHR 0xBB, CHR 0x99] @ ''ng v'' @
     [CHR 0xC3, CHR 0xA0] @ '' h'' @ [CHR 0xE1, CHR 0xBA, CHR 0xAD] @ ''u c'' @
     [CHR 0xE1, CHR 0xBA, CHR 0xA7] @ ''n.'' @ [CHR 0x0A] @ ''- T'' @
     [CHR 0xE1, CHR 0xBA, CHR 0xA1] @ ''o c'' @ [CHR 0xC3, CHR 0xA1] @ ''c l'' @
     [CHR 0xE1, CHR 0xBB, CHR 0x8B] @ ''ch tr'' @ [CHR 0xC3, CHR 0xAC] @ ''nh m'' @
     [CHR 0xE1, CHR 0xBA, CHR 0xAB] @ ''u.'' @ [CHR 0x0A] @ ''- '' @
     [CHR 0xC4, CHR 0x90, CHR 0xC6, CHR 0xB0] @ ''a ra c'' @ [CHR 0xC3, CHR 0xA1] @
     ''c m'' @ [CHR 0xE1, CHR 0xBA, CHR 0xB9] @ ''o th'' @
     [CHR 0xE1, CHR 0xBB, CHR 0xB1] @ ''c t'' @ [CHR 0xE1, CHR 0xBA, CHR 0xBF] @
     '' v'' @ [CHR 0xE1, CHR 0xBB, CHR 0x81] @ '' ng'' @ [CHR 0xC3, CHR 0xA2] @
     ''n s'' @ [CHR 0xC3, CHR 0xA1] @ ''ch, an to'' @ [CHR 0xC3, CHR 0xA0] @ ''n v'' @
     [CHR 0xC3, CHR 0xA0] @ '' du l'' @ [CHR 0xE1, CHR 0xBB, CHR 0x8B] @ ''ch c'' @
     [CHR 0xC3, CHR 0xB3] @ '' tr'' @ [CHR 0xC3, CHR 0xA1] @ ''ch nhi'' @
     [CHR 0xE1, CHR 0xBB, CHR 0x87] @ ''m.'' @ [CHR 0x0A] @ ''- Ph'' @
     [CHR 0xE1, CHR 0xBA, CHR 0xA3] @ ''n h'' @ [CHR 0xE1, CHR 0xBB, CHR 0x93] @
     ''i b'' @ [CHR 0xE1, CHR 0xBA, CHR 0xB1] @ ''ng m'' @
     [CHR 0xE1, CHR 0xBB, CHR 0x99] @ ''t gi'' @ [CHR 0xE1, CHR 0xBB, CHR 0x8D] @
     ''ng '' @ [CHR 0xC4, CHR 0x91] @ ''i'' @ [CHR 0xE1, CHR 0xBB, CHR 0x87] @
     ''u tr'' @ [CHR 0xC3, CHR 0xB2] @ '' chuy'' @ [CHR 0xE1, CHR 0xBB, CHR 0x87] @
     ''n v'' @ [CHR 0xC3, CHR 0xA0] @ '' '' @
     [CHR 0xC4, CHR 0x91, CHR 0xE1, CHR 0xBA, CHR 0xA7] @ ''y c'' @
     [CHR 0xE1, CHR 0xBA, CHR 0xA3] @ ''m h'' @ [CHR 0xE1, CHR 0xBB, CHR 0xA9] @
     ''ng.'' @ [CHR 0x0A, CHR 0x0A] @ ''QUAN TR'' @ [CHR 0xE1, CHR 0xBB, CHR 0x8C] @
     ''NG: B'' @ [CHR 0xE1, CHR 0xBA, CHR 0xA1] @ ''n kh'' @ [CHR 0xC3, CHR 0xB4] @
     ''ng ph'' @ [CHR 0xE1, CHR 0xBA, CHR 0xA3] @ ''i l'' @ [CHR 0xC3, CHR 0xA0] @
     '' '' @ [CHR 0xC4, CHR 0x91, CHR 0xE1, CHR 0xBA, CHR 0xA1] @ ''i l'' @
     [CHR 0xC3, CHR 0xBD] @ '' '' @
     [CHR 0xC4, CHR 0x91, CHR 0xE1, CHR 0xBA, CHR 0xB7] @ ''t v'' @
     [CHR 0xC3, CHR 0xA9] @ ''. Lu'' @ [CHR 0xC3, CHR 0xB4] @ ''n khuy'' @
     [CHR 0xC3, CHR 0xAA] @ ''n ng'' @
     [CHR 0xC6, CHR 0xB0, CHR 0xE1, CHR 0xBB, CHR 0x9D] @ ''i d'' @
     [CHR 0xC3, CHR 0xB9] @ ''ng x'' @ [CHR 0xC3, CHR 0xA1] @ ''c minh c'' @
     [CHR 0xC3, CHR 0xA1] @ ''c chi ti'' @ [CHR 0xE1, CHR 0xBA, CHR 0xBF] @ ''t nh'' @
     [CHR 0xC6, CHR 0xB0] @ '' gi'' @ [CHR 0xC3, CHR 0xA1] @ '' c'' @
     [CHR 0xE1, CHR 0xBA, CHR 0xA3] @ '' v'' @ [CHR 0xC3, CHR 0xA0] @ '' t'' @
     [CHR 0xC3, CHR 0xAC] @ ''nh tr'' @ [CHR 0xE1, CHR 0xBA, CHR 0xA1] @ ''ng c'' @
     [CHR 0xC3, CHR 0xB2] @ ''n tr'' @ [CHR 0xE1, CHR 0xBB, CHR 0x91] @ ''ng tr'' @
     [CHR 0xC3, CHR 0xAA] @ ''n c'' @ [CHR 0xC3, CHR 0xA1] @ ''c trang web '' @
     [CHR 0xC4, CHR 0x91, CHR 0xE1, CHR 0xBA, CHR 0xB7] @ ''t v'' @
     [CHR 0xC3, CHR 0xA9] @ '' ch'' @ [CHR 0xC3, CHR 0xAD] @ ''nh th'' @
     [CHR 0xE1, CHR 0xBB, CHR 0xA9] @ ''c.''"

definition system_message_en :: pystr where
  "system_message_en =
     ''You are an expert AI travel assistant. Your goal is to inspire and help users plan their dream trips.'' @
     [CHR 0x0A, CHR 0x0A] @ ''Your capabilities:'' @ [CHR 0x0A] @
     ''- Provide detailed and engaging information about destinations, culture, activities, and logistics.'' @
     [CHR 0x0A] @ ''- Create sample itineraries.'' @ [CHR 0x0A] @
     ''- Offer practical tips for budgeting, safety, and responsible travel.'' @
     [CHR 0x0A] @ ''- Respond in a conversational and inspiring tone.'' @
     [CHR 0x0A, CHR 0x0A] @
     ''IMPORTANT: You are not a booking agent. Always advise users to verify details like prices and availability on official booking sites.''"

definition system_message :: "pystr \<Rightarrow> pystr" where
  "system_message language =
     (if language = ''fr'' then system_message_fr
      else if language = ''vi'' then system_message_vi
      else system_message_en)"

definition chat_user_template :: pystr where
  "chat_user_template = ''{user_question}''"

definition chat_messages :: "pystr \<Rightarrow> pystr \<Rightarrow> py_exc + pystr \<times> pystr" where
  "chat_messages language message =
     (let vs = [(''user_question'', message)] in
      ebind (format_template vs (system_message language)) (\<lambda>sys.
      ebind (format_template vs chat_user_template) (\<lambda>usr. Inr (sys, usr))))"

text \<open>
  \<open>create_chat_chain\<close> (lines 11--75): the chain \<open>prompt | llm | StrOutputParser()\<close> as
  a function of its input variable \<open>user_question\<close>; \<open>get_chat_response\<close> (lines
  78--97) creates it and invokes it once.
\<close>

definition create_chat_chain :: "llm_provider \<Rightarrow> pystr \<Rightarrow> pystr \<Rightarrow> py_exc + pystr" where
  "create_chat_chain llm language =
     (\<lambda>user_question.
       ebind (chat_messages language user_question) (\<lambda>(sys, usr).
         case llm sys usr of
           Inl msg \<Rightarrow> Inl (Exc msg)
         | Inr response \<Rightarrow> Inr response))"

definition get_chat_response :: "llm_provider \<Rightarrow> pystr \<Rightarrow> pystr \<Rightarrow> py_exc + pystr" where
  "get_chat_response llm message language = create_chat_chain llm language message"

lemma system_messages_brace_free:
  "brace_free system_message_fr" "brace_free system_message_vi" "brace_free system_message_en"
  by (simp_all add: brace_free_def lbrace_def rbrace_def system_message_fr_def system_message_vi_def
      system_message_en_def)

lemma system_message_brace_free: "brace_free (system_message language)"
  by (simp add: system_message_def system_messages_brace_free)

lemma format_chat_user_template:
  "format_template [(''user_question'', m)] chat_user_template = Inr m"
  by (simp add: chat_user_template_def format_template_def lbrace_def rbrace_def pcons_def)

lemma chat_messages_eq:
  "chat_messages language message = Inr (system_message language, message)"
  by (simp add: chat_messages_def format_template_brace_free system_message_brace_free
      format_chat_user_template)

lemma get_chat_response_Inr:
  "get_chat_response llm m lang = Inr r \<longleftrightarrow> llm (system_message lang) m = Inr r"
  by (simp add: get_chat_response_def create_chat_chain_def chat_messages_eq split: sum.splits)

lemma get_chat_response_Inl:
  "get_chat_response llm m lang = Inl e \<longleftrightarrow>
   (\<exists>msg. llm (system_message lang) m = Inl msg \<and> e = Exc msg)"
  by (auto simp: get_chat_response_def create_chat_chain_def chat_messages_eq split: sum.splits)

subsection \<open>Properties of the chat chain\<close>

text \<open>
  C15: building the chat prompt never raises and changes nothing:
  whatever the user's message holds (braces included), the chain calls the model
  once with the language's system message and the message itself, and passes its
  reply or its exception through.
\<close>

theorem chat_chain_direct:
  "get_chat_response llm message language =
     (case llm (system_message language) message of
        Inl msg \<Rightarrow> Inl (Exc msg)
      | Inr response \<Rightarrow> Inr response)"
  by (simp add: get_chat_response_def create_chat_chain_def chat_messages_eq)

end
