(* ===== verification/Synthesis.thy ===== *)
theory Synthesis
  imports ChatChain
begin

text \<open>
  The synthesis prompt of \<^verbatim>\<open>src/backend/app/routes/research.py\<close> (lines 52--69):
  per language a template with the query between single quotes and the joined
  scraped text between a blank line and the closing instruction. As in the chat
  chain, \<open>"fr"\<close> and \<open>"vi"\<close> select their templates and every other language
  string falls back to English. The templates are \<open>(head, middle, tail)\<close> triples of
  the source's texts as UTF-8 bytes.
\<close>

definition synthesis_template_fr :: "pystr \<times> pystr \<times> pystr" where
  "synthesis_template_fr =
    (''Bas'' @ [CHR 0xC3, CHR 0xA9] @ '' sur les informations de voyage suivantes, r'' @
      [CHR 0xC3, CHR 0xA9] @ ''digez une r'' @ [CHR 0xC3, CHR 0xA9] @ ''ponse compl'' @
      [CHR 0xC3, CHR 0xA8] @ ''te et engageante pour la requ'' @ [CHR 0xC3, CHR 0xAA] @
      ''te de l'' @ [CHR 0x27] @ ''utilisateur '' @ [CHR 0x27],
     [CHR 0x27] @ ''. Int'' @ [CHR 0xC3, CHR 0xA9] @ ''grez les d'' @ [CHR 0xC3, CHR 0xA9] @
      ''tails cl'' @ [CHR 0xC3, CHR 0xA9] @ ''s dans un r'' @ [CHR 0xC3, CHR 0xA9] @
      ''cit coh'' @ [CHR 0xC3, CHR 0xA9] @ ''rent.'' @ [CHR 0x0A, CHR 0x0A],
     [CHR 0x0A, CHR 0x0A] @ ''Votre r'' @ [CHR 0xC3, CHR 0xA9] @ ''ponse doit '' @
      [CHR 0xC3, CHR 0xAA] @ ''tre bien structur'' @ [CHR 0xC3, CHR 0xA9] @
      ''e, informative et facile '' @ [CHR 0xC3, CHR 0xA0] @ '' lire.'')"

definition synthesis_template_vi :: "pystr \<times> pystr \<times> pystr" where
  "synthesis_template_vi =
    (''D'' @ [CHR 0xE1, CHR 0xBB, CHR 0xB1] @ ''a tr'' @ [CHR 0xC3, CHR 0xAA] @ ''n th'' @
      [CHR 0xC3, CHR 0xB4] @ ''ng tin du l'' @ [CHR 0xE1, CHR 0xBB, CHR 0x8B] @ ''ch sau '' @
      [CHR 0xC4, CHR 0x91, CHR 0xC3, CHR 0xA2] @ ''y, h'' @ [CHR 0xC3, CHR 0xA3] @ ''y vi'' @
      [CHR 0xE1, CHR 0xBA, CHR 0xBF] @ ''t m'' @ [CHR 0xE1, CHR 0xBB, CHR 0x99] @ ''t c'' @
      [CHR 0xC3, CHR 0xA2] @ ''u tr'' @ [CHR 0xE1, CHR 0xBA, CHR 0xA3] @ '' l'' @
      [CHR 0xE1, CHR 0xBB, CHR 0x9D] @ ''i t'' @ [CHR 0xE1, CHR 0xBB, CHR 0x95] @ ''ng h'' @
      [CHR 0xE1, CHR 0xBB, CHR 0xA3] @ ''p '' @
      [CHR 0xC4, CHR 0x91, CHR 0xE1, CHR 0xBA, CHR 0xA7] @ ''y '' @
      [CHR 0xC4, CHR 0x91, CHR 0xE1, CHR 0xBB, CHR 0xA7] @ '' v'' @ [CHR 0xC3, CHR 0xA0] @
      '' h'' @ [CHR 0xE1, CHR 0xBA, CHR 0xA5] @ ''p d'' @ [CHR 0xE1, CHR 0xBA, CHR 0xAB] @
      ''n cho truy v'' @ [CHR 0xE1, CHR 0xBA, CHR 0xA5] @ ''n c'' @
      [CHR 0xE1, CHR 0xBB, CHR 0xA7] @ ''a ng'' @
      [CHR 0xC6, CHR 0xB0, CHR 0xE1, CHR 0xBB, CHR 0x9D] @ ''i d'' @ [CHR 0xC3, CHR 0xB9] @
      ''ng '' @ [CHR 0x27],
     [CHR 0x27] @ ''. T'' @ [CHR 0xC3, CHR 0xAD] @ ''ch h'' @
      [CHR 0xE1, CHR 0xBB, CHR 0xA3] @ ''p c'' @ [CHR 0xC3, CHR 0xA1] @ ''c chi ti'' @
      [CHR 0xE1, CHR 0xBA, CHR 0xBF] @ ''t ch'' @ [CHR 0xC3, CHR 0xAD] @ ''nh v'' @
      [CHR 0xC3, CHR 0xA0] @ ''o m'' @ [CHR 0xE1, CHR 0xBB, CHR 0x99] @ ''t b'' @
      [CHR 0xC3, CHR 0xA0] @ ''i t'' @ [CHR 0xC6, CHR 0xB0, CHR 0xE1, CHR 0xBB, CHR 0x9D] @
      ''ng thu'' @ [CHR 0xE1, CHR 0xBA, CHR 0xAD] @ ''t m'' @
      [CHR 0xE1, CHR 0xBA, CHR 0xA1] @ ''ch l'' @ [CHR 0xE1, CHR 0xBA, CHR 0xA1] @ ''c.'' @
      [CHR 0x0A, CHR 0x0A],
     [CHR 0x0A, CHR 0x0A] @ ''C'' @ [CHR 0xC3, CHR 0xA2] @ ''u tr'' @
      [CHR 0xE1, CHR 0xBA, CHR 0xA3] @ '' l'' @ [CHR 0xE1, CHR 0xBB, CHR 0x9D] @ ''i c'' @
      [CHR 0xE1, CHR 0xBB, CHR 0xA7] @ ''a b'' @ [CHR 0xE1, CHR 0xBA, CHR 0xA1] @ ''n ph'' @
      [CHR 0xE1, CHR 0xBA, CHR 0xA3] @ ''i c'' @ [CHR 0xC3, CHR 0xB3] @ '' c'' @
      [CHR 0xE1, CHR 0xBA, CHR 0xA5] @ ''u tr'' @ [CHR 0xC3, CHR 0xBA] @ ''c t'' @
      [CHR 0xE1, CHR 0xBB, CHR 0x91] @ ''t, nhi'' @ [CHR 0xE1, CHR 0xBB, CHR 0x81] @
      ''u th'' @ [CHR 0xC3, CHR 0xB4] @ ''ng tin v'' @ [CHR 0xC3, CHR 0xA0] @ '' d'' @
      [CHR 0xE1, CHR 0xBB, CHR 0x85] @ '' '' @
      [CHR 0xC4, CHR 0x91, CHR 0xE1, CHR 0xBB, CHR 0x8D] @ ''c.'')"

definition synthesis_template_en :: "pystr \<times> pystr \<times> pystr" where
  "synthesis_template_en =
    (''Based on the following travel information, write a comprehensive and engaging synthesized response for the user'' @
      [CHR 0x27] @ ''s query '' @ [CHR 0x27],
     [CHR 0x27] @ ''. Integrate the key details into a coherent narrative.'' @
      [CHR 0x0A, CHR 0x0A],
     [CHR 0x0A, CHR 0x0A] @
      ''Your response should be well-structured, informative, and easy to read.'')"

definition synthesis_template :: "pystr \<Rightarrow> pystr \<times> pystr \<times> pystr" where
  "synthesis_template language =
     (if language = ''fr'' then synthesis_template_fr
      else if language = ''vi'' then synthesis_template_vi
      else synthesis_template_en)"

definition synthesis_prompt :: "pystr \<Rightarrow> pystr \<Rightarrow> pystr \<Rightarrow> pystr" where
  "synthesis_prompt language query results_text =
     (case synthesis_template language of (head, middle, tail) \<Rightarrow>
        head @ query @ middle @ results_text @ tail)"

end
