(* ===== verification/Research.thy ===== *)
theory Research
  imports Tavily Firecrawl ImageFilter Synthesis
begin

text \<open>
  The research orchestrator, \<^verbatim>\<open>search_travel_research\<close> of
  \<^verbatim>\<open>src/backend/app/routes/research.py\<close> (lines 15--102), with the three remote
  services as capabilities (\<open>services\<close>: the search, scrape and text-generation
  providers, built once at start-up and never changed). Every remote call the
  handler makes is recorded as a \<open>call\<close>, in order, so that the order of the
  stages is part of the result (\<open>traced\<close>, see the prelude).
  \<^item> \<open>scrape_one\<close> is one iteration of the loop of lines 40--47: the scrape, the
    \<open>"content" in scraped_data\<close> test and the append of a titled block, the
    extension of the image list and the update of the result's \<open>image_url\<close> to the
    first scraped image. The loop runs over \<open>formatted_results[:3]\<close>; the slice
    copies the list but not the dicts, so the updates are seen by the sources built
    later: the model returns the updated three and puts them back in front of the rest.
  \<^item> \<open>make_research_result\<close> is \<open>ResearchResult(...)\<close> of lines 82--90, pydantic's
    validation of one formatted dict (the first invalid field names the error).
  \<^item> \<open>research_route\<close> is the handler body (lines 28--99), \<open>research_endpoint\<close> adds
    FastAPI's request validation (status 422) and the handler's \<open>except\<close> clause,
    which turns every exception into \<open>HTTPException(500, "Research error: ...")\<close>.
\<close>

record services =
  sv_search :: search_provider
  sv_scrape :: scrape_provider
  sv_llm :: llm_provider

datatype call =
    CallSearch search_args
  | CallScrape scrape_args
  | CallLLM pystr pystr \<comment> \<open>system message, user message\<close>

type_synonym loop_acc = "pystr list \<times> pystr list \<times> fresult list"
  \<comment> \<open>\<open>scraped_contents\<close>, \<open>all_image_urls\<close>, the results scraped so far (updated)\<close>

definition scrape_one ::
  "services \<Rightarrow> loop_acc \<Rightarrow> fresult \<Rightarrow> (call, py_exc, loop_acc) traced" where
  "scrape_one sv acc r =
     (case acc of (contents, all_images, visited) \<Rightarrow>
      let scraped = scrape (sv_scrape sv) (fr_url r) in
      ([CallScrape (firecrawl_args (fr_url r))],
       ebind (if ''content'' \<in> set (outcome_keys scraped)
              then ebind (outcome_get scraped ''content'') (\<lambda>c.
                     Inr (contents @ [''Source: '' @ py_str (fr_title r) @ nl # py_str c]))
              else Inr contents) (\<lambda>contents'.
       Inr (if ''image_urls'' \<in> set (outcome_keys scraped) \<and> outcome_images scraped \<noteq> []
            then (contents', all_images @ outcome_images scraped,
                  visited @ [r\<lparr>fr_image_url := JStr (hd (outcome_images scraped))\<rparr>])
            else (contents', all_images, visited @ [r])))))"

fun scrape_loop :: "services \<Rightarrow> loop_acc \<Rightarrow> fresult list \<Rightarrow> (call, py_exc, loop_acc) traced" where
  "scrape_loop sv acc [] = ([], Inr acc)"
| "scrape_loop sv acc (r # rs) = tbind (scrape_one sv acc r) (\<lambda>acc'. scrape_loop sv acc' rs)"

definition make_research_result :: "fresult \<Rightarrow> py_exc + research_result" where
  "make_research_result r =
     ebind (pyd_str ''title'' (fr_title r)) (\<lambda>title.
     ebind (pyd_str ''url'' (fr_url r)) (\<lambda>url.
     ebind (pyd_str ''content'' (fr_content r)) (\<lambda>content.
     ebind (pyd_float ''score'' (fr_score r)) (\<lambda>score.
     ebind (pyd_opt_str ''image_url'' (fr_image_url r)) (\<lambda>image_url.
     Inr \<lparr>rr_title = title, rr_url = url, rr_content = content, rr_score = score,
          rr_image_url = image_url\<rparr>)))))"

definition research_route ::
  "services \<Rightarrow> research_request \<Rightarrow> timestamp \<Rightarrow> (call, py_exc, research_response) traced" where
  "research_route sv request now =
     (let query = rq_query request; language = rq_language request in
      tbind ([CallSearch (tavily_search_args query (rq_max_results request))],
             search_travel_research (sv_search sv) query (rq_max_results request)) (\<lambda>raw_results.
      tbind ([], format_results raw_results) (\<lambda>formatted_results.
      tbind (scrape_loop sv ([], [], []) (take 3 formatted_results)) (\<lambda>(scraped_contents, all_image_urls, scraped).
      let formatted_results = scraped @ drop 3 formatted_results;
          results_text = py_join [nl, nl] scraped_contents;
          prompt = synthesis_prompt language query results_text in
      tbind ([CallLLM (system_message language) prompt],
             get_chat_response (sv_llm sv) prompt language) (\<lambda>synthesized_response.
      let filtered_image_urls = filter_images query all_image_urls in
      tbind ([], emap make_research_result formatted_results) (\<lambda>sources.
      ([], Inr \<lparr>rp_query = query, rp_response = synthesized_response,
               rp_image_urls = filtered_image_urls, rp_sources = sources,
               rp_timestamp = now\<rparr>)))))))"

datatype http_error = HTTPException int pystr

definition research_endpoint ::
  "services \<Rightarrow> research_request \<Rightarrow> timestamp \<Rightarrow> (call, http_error, research_response) traced" where
  "research_endpoint sv request now =
     (if \<not> valid_research_request request
      then ([], Inl (HTTPException 422 ''request validation error''))
      else (case research_route sv request now of
              (calls, Inl e) \<Rightarrow> (calls, Inl (HTTPException 500 (''Research error: '' @ exc_str e)))
            | (calls, Inr response) \<Rightarrow> (calls, Inr response)))"

subsection \<open>Views of the route used by its lemmas\<close>

text \<open>
  The call, the images and the updated result of one scrape of the loop; the prompt,
  sources and images of the route once the search has answered (\<open>prompt_of\<close> is the
  prompt with an empty \<open>results_text\<close>, see \<open>research_prompt_without_scrapes\<close>).
  \<open>expected_source\<close> and \<open>normalized_hits\<close> state the sources the way the
  specification describes them: normalised results, the first three with the first
  image their scrape found.
\<close>

definition scrape_call :: "fresult \<Rightarrow> call" where
  "scrape_call r = CallScrape (firecrawl_args (fr_url r))"

definition scraped_images :: "services \<Rightarrow> fresult \<Rightarrow> pystr list" where
  "scraped_images sv r = outcome_images (scrape (sv_scrape sv) (fr_url r))"

definition with_scraped_image :: "services \<Rightarrow> fresult \<Rightarrow> fresult" where
  "with_scraped_image sv r =
     (if scraped_images sv r = [] then r else r\<lparr>fr_image_url := JStr (hd (scraped_images sv r))\<rparr>)"

definition prompt_of :: "research_request \<Rightarrow> pystr" where
  "prompt_of req = synthesis_prompt (rq_language req) (rq_query req) []"

definition sources_of :: "services \<Rightarrow> fresult list \<Rightarrow> fresult list" where
  "sources_of sv fs = map (with_scraped_image sv) (take 3 fs) @ drop 3 fs"

definition images_of :: "services \<Rightarrow> fresult list \<Rightarrow> pystr list" where
  "images_of sv fs = concat (map (scraped_images sv) (take 3 fs))"

definition expected_source :: "services \<Rightarrow> research_result \<Rightarrow> research_result" where
  "expected_source sv n =
     (let imgs = outcome_images (scrape (sv_scrape sv) (JStr (rr_url n))) in
      if imgs = [] then n else n\<lparr>rr_image_url := Some (hd imgs)\<rparr>)"

definition normalized_hits :: "jval \<Rightarrow> research_result list" where
  "normalized_hits raw = map (normalize_spec \<circ> hit_dict) (payload_hits raw)"

subsection \<open>A concrete request\<close>

text \<open>
  One search hit, a scrape that finds one image, a text-generation service that
  answers, and a request for it; the witnesses below run the handler on them.
\<close>

definition demo_hit :: "pystr \<Rightarrow> pystr \<Rightarrow> jval" where
  "demo_hit t u = JObj [(''title'', JStr t), (''url'', JStr u),
     (''content'', JStr ''Museum''), (''score'', JNum ''0.9''), (''image'', JNull)]"

definition louvre_hit :: jval where
  "louvre_hit = demo_hit ''Louvre'' ''https://louvre.fr''"

definition demo_services :: services where
  "demo_services =
     \<lparr>sv_search = \<lambda>_. Inr (JObj [(''results'', JArr [louvre_hit])]),
      sv_scrape = \<lambda>_. Inr (SdkDict [(''markdown'', JStr ''![m](https://x/paris.png)'')]),
      sv_llm = \<lambda>_ _. Inr ''Visit the Louvre.''\<rparr>"

definition flaky_services :: services where
  "flaky_services =
     \<lparr>sv_search = \<lambda>_. Inr (JObj [(''results'', JArr [louvre_hit,
        demo_hit ''Orsay'' ''https://b'', demo_hit ''Rodin'' ''https://c''])]),
      sv_scrape = \<lambda>a. if sc_url a = JStr ''https://b'' then Inl ''timeout''
                        else sv_scrape demo_services a,
      sv_llm = sv_llm demo_services\<rparr>"

definition demo_result :: "pystr \<Rightarrow> pystr \<Rightarrow> pystr option \<Rightarrow> research_result" where
  "demo_result t u img = \<lparr>rr_title = t, rr_url = u, rr_content = ''Museum'', rr_score = ''0.9'',
     rr_image_url = img\<rparr>"

definition demo_request :: research_request where
  "demo_request = \<lparr>rq_query = ''Paris museums'', rq_max_results = 5, rq_language = ''en''\<rparr>"

subsection \<open>The scrape loop\<close>

lemma scrape_one_eq:
  "scrape_one sv (contents, imgs, visited) r =
     ([scrape_call r], Inr (contents, imgs @ scraped_images sv r, visited @ [with_scraped_image sv r]))"
  using outcome_keys_content_image_urls [of "scrape (sv_scrape sv) (fr_url r)"]
  by (simp add: scrape_one_def scrape_call_def scraped_images_def with_scraped_image_def Let_def)

lemma scrape_loop_eq:
  "scrape_loop sv (contents, imgs, visited) rs =
     (map scrape_call rs,
      Inr (contents, imgs @ concat (map (scraped_images sv) rs), visited @ map (with_scraped_image sv) rs))"
  by (induction rs arbitrary: imgs visited) (simp_all add: scrape_one_eq)

subsection \<open>The route once the search has answered\<close>

lemma research_route_formatted:
  assumes "sv_search sv (tavily_search_args (rq_query req) (rq_max_results req)) = Inr raw"
    and "format_results raw = Inr fs"
  shows "research_route sv req now =
    (CallSearch (tavily_search_args (rq_query req) (rq_max_results req))
       # map scrape_call (take 3 fs) @ [CallLLM (system_message (rq_language req)) (prompt_of req)],
     ebind (get_chat_response (sv_llm sv) (prompt_of req) (rq_language req)) (\<lambda>response.
     ebind (emap make_research_result (sources_of sv fs)) (\<lambda>sources.
     Inr \<lparr>rp_query = rq_query req, rp_response = response,
          rp_image_urls = filter_images (rq_query req) (images_of sv fs),
          rp_sources = sources, rp_timestamp = now\<rparr>)))"
proof -
  have s: "search_travel_research (sv_search sv) (rq_query req) (rq_max_results req) = Inr raw"
    using assms(1) by (simp add: search_travel_research_Inr)
  show ?thesis
    by (simp add: research_route_def Let_def s assms(2) scrape_loop_eq tbind_no_calls
        prompt_of_def sources_of_def images_of_def)
qed

lemma research_route_format_error:
  assumes "sv_search sv (tavily_search_args (rq_query req) (rq_max_results req)) = Inr raw"
    and "format_results raw = Inl e"
  shows "research_route sv req now =
    ([CallSearch (tavily_search_args (rq_query req) (rq_max_results req))], Inl e)"
proof -
  have s: "search_travel_research (sv_search sv) (rq_query req) (rq_max_results req) = Inr raw"
    using assms(1) by (simp add: search_travel_research_Inr)
  show ?thesis by (simp add: research_route_def Let_def s assms(2))
qed

lemma research_route_search_error:
  assumes "sv_search sv (tavily_search_args (rq_query req) (rq_max_results req)) = Inl msg"
  shows "research_route sv req now =
    ([CallSearch (tavily_search_args (rq_query req) (rq_max_results req))],
     Inl (Exc (''Research search error: '' @ msg)))"
proof -
  have s: "search_travel_research (sv_search sv) (rq_query req) (rq_max_results req) =
      Inl (Exc (''Research search error: '' @ msg))"
    using assms by (simp add: search_travel_research_def)
  show ?thesis by (simp add: research_route_def Let_def s)
qed

subsection \<open>Sources as the spec describes them\<close>

lemma make_research_result_fresult_of [simp]:
  "make_research_result (fresult_of n) = Inr n"
  by (cases "rr_image_url n") (simp_all add: make_research_result_def fresult_of_def)

lemma emap_make_research_result_fresult_of:
  "emap make_research_result (map fresult_of ns) = Inr ns"
  by (induction ns) simp_all

lemma scraped_images_fresult_of [simp]:
  "scraped_images sv (fresult_of n) = outcome_images (scrape (sv_scrape sv) (JStr (rr_url n)))"
  by (simp add: scraped_images_def fresult_of_def)

lemma with_scraped_image_fresult_of:
  "with_scraped_image sv (fresult_of n) = fresult_of (expected_source sv n)"
  by (simp add: with_scraped_image_def scraped_images_def expected_source_def Let_def
      fresult_of_def)

lemma demo_payload:
  "sv_search demo_services args = Inr (JObj [(''results'', JArr [louvre_hit])])"
  "wf_payload (JObj [(''results'', JArr [louvre_hit])])"
  "normalized_hits (JObj [(''results'', JArr [louvre_hit])]) =
     [\<lparr>rr_title = ''Louvre'', rr_url = ''https://louvre.fr'', rr_content = ''Museum'',
       rr_score = ''0.9'', rr_image_url = None\<rparr>]"
proof -
  have "py_slice_str 500 ''Museum'' = ''Museum''" by code_simp
  then show "normalized_hits (JObj [(''results'', JArr [louvre_hit])]) =
     [\<lparr>rr_title = ''Louvre'', rr_url = ''https://louvre.fr'', rr_content = ''Museum'',
       rr_score = ''0.9'', rr_image_url = None\<rparr>]"
    by (simp add: louvre_hit_def demo_hit_def normalized_hits_def normalize_spec_def str_field_def)
qed (simp_all add: demo_services_def louvre_hit_def demo_hit_def wf_field_def)

lemma research_route_wf:
  assumes "sv_search sv (tavily_search_args (rq_query req) (rq_max_results req)) = Inr raw"
    and "wf_payload raw"
  shows "research_route sv req now =
    (CallSearch (tavily_search_args (rq_query req) (rq_max_results req))
       # map scrape_call (take 3 (map fresult_of (normalized_hits raw)))
       @ [CallLLM (system_message (rq_language req)) (prompt_of req)],
     ebind (get_chat_response (sv_llm sv) (prompt_of req) (rq_language req)) (\<lambda>response.
     Inr \<lparr>rp_query = rq_query req, rp_response = response,
          rp_image_urls = filter_images (rq_query req)
                            (images_of sv (map fresult_of (normalized_hits raw))),
          rp_sources = map (expected_source sv) (take 3 (normalized_hits raw))
                       @ drop 3 (normalized_hits raw),
          rp_timestamp = now\<rparr>))"
proof -
  let ?ns = "normalized_hits raw"
  have fs: "format_results raw = Inr (map fresult_of ?ns)"
    using format_results_wf_hits [OF assms(2)] by (simp add: normalized_hits_def)
  have "sources_of sv (map fresult_of ?ns) =
      map fresult_of (map (expected_source sv) (take 3 ?ns) @ drop 3 ?ns)"
    by (simp add: sources_of_def take_map drop_map with_scraped_image_fresult_of)
  then have "emap make_research_result (sources_of sv (map fresult_of ?ns)) =
      Inr (map (expected_source sv) (take 3 ?ns) @ drop 3 ?ns)"
    by (simp only: emap_make_research_result_fresult_of)
  then show ?thesis
    by (simp add: research_route_formatted [OF assms(1) fs])
qed

lemma research_route_calls:
  "fst (research_route sv req now) =
     CallSearch (tavily_search_args (rq_query req) (rq_max_results req)) #
     (case sv_search sv (tavily_search_args (rq_query req) (rq_max_results req)) of
        Inl _ \<Rightarrow> []
      | Inr raw \<Rightarrow> (case format_results raw of
          Inl _ \<Rightarrow> []
        | Inr fs \<Rightarrow> map scrape_call (take 3 fs)
                    @ [CallLLM (system_message (rq_language req)) (prompt_of req)]))"
proof (cases "sv_search sv (tavily_search_args (rq_query req) (rq_max_results req))")
  case (Inl msg)
  then show ?thesis by (simp add: research_route_search_error)
next
  case (Inr raw)
  then show ?thesis
    by (cases "format_results raw") (simp_all add: research_route_format_error research_route_formatted)
qed

lemma research_route_Inr:
  assumes "snd (research_route sv req now) = Inr r"
  shows "\<exists>raw fs. sv_search sv (tavily_search_args (rq_query req) (rq_max_results req)) = Inr raw
    \<and> format_results raw = Inr fs \<and> emap make_research_result (sources_of sv fs) = Inr (rp_sources r)
    \<and> rp_image_urls r = filter_images (rq_query req) (images_of sv fs) \<and> rp_query r = rq_query req"
proof (cases "sv_search sv (tavily_search_args (rq_query req) (rq_max_results req))")
  case (Inl msg)
  with assms show ?thesis by (simp add: research_route_search_error)
next
  case (Inr raw)
  with assms show ?thesis
    by (cases "format_results raw")
      (auto simp: research_route_format_error research_route_formatted ebind_eq_Inr)
qed

lemma research_route_images:
  "snd (research_route sv req now) = Inr r \<Longrightarrow> \<exists>xs. rp_image_urls r = filter_images (rq_query req) xs"
  by (blast dest: research_route_Inr)

lemma make_research_result_content:
  "make_research_result x = Inr s \<Longrightarrow> fr_content x = JStr (rr_content s)"
  by (auto simp: make_research_result_def ebind_eq_Inr)

lemma sources_of_content:
  "x \<in> set (sources_of sv fs) \<Longrightarrow> \<exists>y\<in>set fs. fr_content x = fr_content y"
  by (auto simp: sources_of_def with_scraped_image_def dest: in_set_takeD in_set_dropD)

lemma research_llm_call:
  assumes "CallLLM sys prompt \<in> set (fst (research_route sv req now))"
  shows "prompt = prompt_of req \<and> sys = system_message (rq_language req)"
  using assms by (auto simp: research_route_calls scrape_call_def split: sum.splits)

lemma make_research_result_Inl:
  "make_research_result r = Inl e \<Longrightarrow> \<exists>f. e = ValidationError f"
  by (auto simp: make_research_result_def ebind_eq_Inl pyd_float.simps pyd_opt_str.simps
      elim!: pyd_str.elims pyd_float.elims pyd_opt_str.elims)

lemma make_research_result_null_url:
  "fr_url r = JNull \<Longrightarrow> \<exists>e. make_research_result r = Inl e"
  by (cases "pyd_str ''title'' (fr_title r)") (simp_all add: make_research_result_def)

lemma url_with_scraped_image [simp]: "fr_url (with_scraped_image sv r) = fr_url r"
  by (simp add: with_scraped_image_def)

lemma sources_of_url:
  "r \<in> set fs \<Longrightarrow> \<exists>r'\<in>set (sources_of sv fs). fr_url r' = fr_url r"
proof -
  assume "r \<in> set fs"
  then have "r \<in> set (take 3 fs) \<or> r \<in> set (drop 3 fs)"
    by (metis Un_iff append_take_drop_id set_append)
  then show ?thesis
  proof
    assume "r \<in> set (take 3 fs)"
    then have "with_scraped_image sv r \<in> set (sources_of sv fs)" by (simp add: sources_of_def)
    then show ?thesis using url_with_scraped_image by (rule bexI [rotated])
  next
    assume "r \<in> set (drop 3 fs)"
    then show ?thesis by (auto simp: sources_of_def)
  qed
qed

lemma demo_route:
  "research_route demo_services demo_request 0 =
     ([CallSearch (tavily_search_args ''Paris museums'' 5),
       CallScrape (firecrawl_args (JStr ''https://louvre.fr'')),
       CallLLM (system_message ''en'') (prompt_of demo_request)],
      Inr \<lparr>rp_query = ''Paris museums'', rp_response = ''Visit the Louvre.'',
           rp_image_urls = [''https://x/paris.png''],
           rp_sources = [demo_result ''Louvre'' ''https://louvre.fr'' (Some ''https://x/paris.png'')],
           rp_timestamp = 0\<rparr>)"
proof -
  have img: "outcome_images (scrape (sv_scrape demo_services) (JStr ''https://louvre.fr''))
     = [''https://x/paris.png'']"
    by (simp add: demo_services_def scrape_def firecrawl_args_def markdown_of_def py_and_def Let_def)
  have flt: "filter_images ''Paris museums'' [''https://x/paris.png''] = [''https://x/paris.png'']"
    by code_simp
  have l: "get_chat_response (sv_llm demo_services) (prompt_of demo_request) ''en'' = Inr ''Visit the Louvre.''"
    by (simp add: demo_services_def get_chat_response_Inr)
  have q: "rq_query demo_request = ''Paris museums''" "rq_max_results demo_request = 5"
    "rq_language demo_request = ''en''" by (simp_all add: demo_request_def)
  show ?thesis
    by (simp add: research_route_wf [OF demo_payload(1,2)] demo_payload(3) q img flt l
        images_of_def expected_source_def demo_result_def scrape_call_def scraped_images_def
        fresult_of_def)
qed

subsection \<open>Properties of the orchestrator\<close>

text \<open>
  C3: when the search provider raises, the request ends
  with the one search call made and no other: no scrape, no synthesis, no partial
  response; the endpoint answers status 500 with the message
  \<open>"Research error: Research search error: ..."\<close>.
\<close>

theorem research_search_failure:
  assumes "valid_research_request req"
    and "sv_search sv (tavily_search_args (rq_query req) (rq_max_results req)) = Inl msg"
  shows "research_endpoint sv req now =
    ([CallSearch (tavily_search_args (rq_query req) (rq_max_results req))],
     Inl (HTTPException 500 (''Research error: Research search error: '' @ msg)))"
  using assms by (simp add: research_endpoint_def research_route_search_error)

text \<open>
  C7: once the search has answered and its results are
  normalised, the handler calls the services in this order and no other: the search,
  then one scrape for each of the first three results in their order (whatever
  \<open>max_results\<close> is), then one call of the text-generation service.
\<close>

theorem research_call_order:
  assumes "sv_search sv (tavily_search_args (rq_query req) (rq_max_results req)) = Inr raw"
    and "format_results raw = Inr fs"
  shows "fst (research_route sv req now) =
    CallSearch (tavily_search_args (rq_query req) (rq_max_results req))
      # map (\<lambda>r. CallScrape (firecrawl_args (fr_url r))) (take 3 fs)
      @ [CallLLM (system_message (rq_language req)) (prompt_of req)]"
  using research_route_formatted [OF assms] by (simp add: scrape_call_def comp_def)

text \<open>
  C12: the prompt sent to the text-generation
  service never contains scraped text: the handler tests for a \<open>content\<close> key that no
  scrape outcome has, so the aggregated text is always empty, whatever the scrapes
  return.
\<close>

theorem research_prompt_without_scrapes:
  assumes "CallLLM sys prompt \<in> set (fst (research_route sv req now))"
  shows "prompt = synthesis_prompt (rq_language req) (rq_query req) []
    \<and> sys = system_message (rq_language req)"
  using research_llm_call [OF assms] by (simp add: prompt_of_def)

text \<open>
  C1: on a search payload of the promised shape and a reply of the
  text-generation service, the handler answers a complete response: the query, the
  reply, the relevant scraped images (at most five), and as sources all normalised
  results (not only the three scraped), the first three with the first image their
  scrape found.
\<close>

theorem research_success:
  assumes "sv_search sv (tavily_search_args (rq_query req) (rq_max_results req)) = Inr raw"
    and "wf_payload raw"
    and "sv_llm sv (system_message (rq_language req)) (prompt_of req) = Inr reply"
  shows "snd (research_route sv req now) =
    Inr \<lparr>rp_query = rq_query req, rp_response = reply,
         rp_image_urls = filter_images (rq_query req)
                           (concat (map (\<lambda>n. outcome_images (scrape (sv_scrape sv) (JStr (rr_url n))))
                                     (take 3 (normalized_hits raw)))),
         rp_sources = map (expected_source sv) (take 3 (normalized_hits raw))
                      @ drop 3 (normalized_hits raw),
         rp_timestamp = now\<rparr>
    \<and> length (rp_image_urls (projr (snd (research_route sv req now)))) \<le> 5"
proof -
  have "get_chat_response (sv_llm sv) (prompt_of req) (rq_language req) = Inr reply"
    using assms(3) by (simp add: get_chat_response_Inr)
  then show ?thesis
    by (simp add: research_route_wf [OF assms(1,2)] images_of_def take_map comp_def
        filter_images_def)
qed

theorem research_search_failure_witness:
  "valid_research_request demo_request \<and>
   sv_search (demo_services\<lparr>sv_search := \<lambda>_. Inl ''timeout''\<rparr>)
     (tavily_search_args (rq_query demo_request) (rq_max_results demo_request)) = Inl ''timeout'' \<and>
   research_endpoint (demo_services\<lparr>sv_search := \<lambda>_. Inl ''timeout''\<rparr>) demo_request 0 =
     ([CallSearch (tavily_search_args ''Paris museums'' 5)],
      Inl (HTTPException 500 (''Research error: Research search error: '' @ ''timeout'')))"
proof -
  have v: "valid_research_request demo_request"
    unfolding demo_request_def valid_research_request_def by code_simp
  have s: "sv_search (demo_services\<lparr>sv_search := \<lambda>_. Inl ''timeout''\<rparr>)
     (tavily_search_args (rq_query demo_request) (rq_max_results demo_request)) = Inl ''timeout''"
    by simp
  show ?thesis using research_search_failure [OF v s, where now = 0] v s by (simp add: demo_request_def)
qed

theorem research_call_order_witness:
  "sv_search demo_services (tavily_search_args (rq_query demo_request) (rq_max_results demo_request))
     = Inr (JObj [(''results'', JArr [louvre_hit])]) \<and>
   format_results (JObj [(''results'', JArr [louvre_hit])]) =
     Inr (map fresult_of (normalized_hits (JObj [(''results'', JArr [louvre_hit])]))) \<and>
   fst (research_route demo_services demo_request 0) =
     [CallSearch (tavily_search_args ''Paris museums'' 5),
      CallScrape (firecrawl_args (JStr ''https://louvre.fr'')),
      CallLLM (system_message ''en'') (prompt_of demo_request)]"
proof -
  have f: "format_results (JObj [(''results'', JArr [louvre_hit])]) =
     Inr (map fresult_of (normalized_hits (JObj [(''results'', JArr [louvre_hit])])))"
    using format_results_wf_hits [OF demo_payload(2)] by (simp add: normalized_hits_def)
  show ?thesis using research_call_order [OF demo_payload(1) f, where now = 0] demo_payload(1) f
    by (simp add: demo_payload(3) demo_request_def fresult_of_def)
qed

theorem research_prompt_without_scrapes_witness:
  "CallLLM (system_message ''en'') (prompt_of demo_request)
     \<in> set (fst (research_route demo_services demo_request 0)) \<and>
   prompt_of demo_request = synthesis_prompt ''en'' ''Paris museums'' []"
proof -
  have c: "CallLLM (system_message (rq_language demo_request)) (prompt_of demo_request)
     \<in> set (fst (research_route demo_services demo_request 0))"
    by (simp add: research_route_wf [OF demo_payload(1,2)])
  show ?thesis using research_prompt_without_scrapes [OF c] c by (simp add: demo_request_def)
qed

theorem research_success_witness:
  "sv_search demo_services (tavily_search_args (rq_query demo_request) (rq_max_results demo_request))
     = Inr (JObj [(''results'', JArr [louvre_hit])]) \<and>
   wf_payload (JObj [(''results'', JArr [louvre_hit])]) \<and>
   sv_llm demo_services (system_message (rq_language demo_request)) (prompt_of demo_request)
     = Inr ''Visit the Louvre.'' \<and>
   snd (research_route demo_services demo_request 0) =
     Inr \<lparr>rp_query = ''Paris museums'', rp_response = ''Visit the Louvre.'',
          rp_image_urls = [''https://x/paris.png''],
          rp_sources = [\<lparr>rr_title = ''Louvre'', rr_url = ''https://louvre.fr'',
                         rr_content = ''Museum'', rr_score = ''0.9'',
                         rr_image_url = Some ''https://x/paris.png''\<rparr>],
          rp_timestamp = 0\<rparr>"
proof -
  have l: "sv_llm demo_services (system_message (rq_language demo_request)) (prompt_of demo_request)
     = Inr ''Visit the Louvre.''" by (simp add: demo_services_def)
  have img: "outcome_images (scrape (sv_scrape demo_services) (JStr ''https://louvre.fr''))
     = [''https://x/paris.png'']"
    by (simp add: demo_services_def scrape_def firecrawl_args_def markdown_of_def py_and_def Let_def)
  have flt: "filter_images ''Paris museums'' [''https://x/paris.png''] = [''https://x/paris.png'']"
    by code_simp
  show ?thesis
    using research_success [OF demo_payload(1,2) l, where now = 0] demo_payload l
    by (simp add: img flt expected_source_def demo_request_def)
qed

text \<open>
  C4: when the text-generation service raises, the
  handler fails with its message after the search and the three scrapes were made:
  nothing of the search or the scrapes is returned.
\<close>

theorem research_synthesis_failure:
  assumes "sv_search sv (tavily_search_args (rq_query req) (rq_max_results req)) = Inr raw"
    and "format_results raw = Inr fs"
    and "sv_llm sv (system_message (rq_language req)) (prompt_of req) = Inl msg"
  shows "research_route sv req now =
    (CallSearch (tavily_search_args (rq_query req) (rq_max_results req))
       # map scrape_call (take 3 fs) @ [CallLLM (system_message (rq_language req)) (prompt_of req)],
     Inl (Exc msg))"
proof -
  have "get_chat_response (sv_llm sv) (prompt_of req) (rq_language req) = Inl (Exc msg)"
    using assms(3) by (simp add: get_chat_response_Inl)
  then show ?thesis by (simp add: research_route_formatted [OF assms(1,2)])
qed

text \<open>
  C2: the scenario of the specification: when the
  scrape of the second of three results raises, the handler still answers; the images
  are those of the first and third scrapes, the second source keeps its search image,
  and all results are sources.
\<close>

theorem research_scrape_failure_isolated:
  assumes "sv_search sv (tavily_search_args (rq_query req) (rq_max_results req)) = Inr raw"
    and "wf_payload raw"
    and "normalized_hits raw = n0 # n1 # n2 # rest"
    and "sv_scrape sv (firecrawl_args (JStr (rr_url n1))) = Inl msg"
    and "sv_llm sv (system_message (rq_language req)) (prompt_of req) = Inr reply"
  shows "\<exists>r. snd (research_route sv req now) = Inr r
    \<and> rp_image_urls r = filter_images (rq_query req)
          (outcome_images (scrape (sv_scrape sv) (JStr (rr_url n0)))
           @ outcome_images (scrape (sv_scrape sv) (JStr (rr_url n2))))
    \<and> rp_sources r = expected_source sv n0 # n1 # expected_source sv n2 # rest"
proof -
  have e: "get_chat_response (sv_llm sv) (prompt_of req) (rq_language req) = Inr reply"
    using assms(5) by (simp add: get_chat_response_Inr)
  have n1: "outcome_images (scrape (sv_scrape sv) (JStr (rr_url n1))) = []"
    using assms(4) by (simp add: scrape_provider_error)
  then have "expected_source sv n1 = n1" by (simp add: expected_source_def)
  with n1 e show ?thesis
    by (simp add: research_route_wf [OF assms(1,2)] assms(3) images_of_def)
qed

text \<open>
  C14: a language other than exactly \<open>"fr"\<close> or
  \<open>"vi"\<close> (\<open>"FR"\<close>, \<open>"de"\<close>, \<open>""\<close>, which the request model accepts) is answered
  in English: the system message and the synthesis prompt are the English ones.
\<close>

theorem research_language_fallback:
  assumes "rq_language req \<noteq> ''fr''" and "rq_language req \<noteq> ''vi''"
    and "CallLLM sys prompt \<in> set (fst (research_route sv req now))"
  shows "sys = system_message_en \<and> prompt = synthesis_prompt ''en'' (rq_query req) []"
  using research_llm_call [OF assms(3)] assms(1,2)
  by (simp add: prompt_of_def system_message_def synthesis_prompt_def synthesis_template_def)

lemma research_null_url_fails:
  assumes "sv_search sv (tavily_search_args (rq_query req) (rq_max_results req)) = Inr raw"
    and "format_results raw = Inr fs"
    and "sv_llm sv (system_message (rq_language req)) (prompt_of req) = Inr reply"
    and "r \<in> set fs" and "fr_url r = JNull"
  shows "CallLLM (system_message (rq_language req)) (prompt_of req)
           \<in> set (fst (research_route sv req now))
    \<and> (\<exists>f. snd (research_route sv req now) = Inl (ValidationError f))"
proof -
  obtain r' where r': "r' \<in> set (sources_of sv fs)" "fr_url r' = JNull"
    using sources_of_url [OF assms(4)] assms(5) by auto
  obtain e0 where "make_research_result r' = Inl e0"
    using make_research_result_null_url [OF r'(2)] by blast
  then obtain e where e: "emap make_research_result (sources_of sv fs) = Inl e"
    using emap_Inl [OF r'(1), where f = make_research_result] by blast
  then obtain x where "make_research_result x = Inl e"
    using emap_Inl_elem [OF e] by blast
  then obtain f where f: "e = ValidationError f"
    using make_research_result_Inl by blast
  have "get_chat_response (sv_llm sv) (prompt_of req) (rq_language req) = Inr reply"
    using assms(3) by (simp add: get_chat_response_Inr)
  with e f show ?thesis by (simp add: research_route_formatted [OF assms(1,2)])
qed

text \<open>
  C13: a search hit whose \<open>url\<close> is \<open>null\<close>, all else well-formed, is passed on by
  the normaliser (\<open>.get("url", "")\<close> returns the stored \<open>None\<close>) and rejected only
  when the response is built: the handler calls the text-generation service and then
  fails with a validation error.
\<close>

theorem research_invalid_source_after_synthesis:
  assumes "sv_search sv (tavily_search_args (rq_query req) (rq_max_results req)) = Inr (JObj p)"
    and "map_of p ''results'' = Some (JArr (hs @ JObj d # hs'))"
    and "list_all wf_hit (hs @ hs')" and "map_of d ''url'' = Some JNull"
    and "wf_hit (JObj (filter (\<lambda>kv. fst kv \<noteq> ''url'') d))"
    and "sv_llm sv (system_message (rq_language req)) (prompt_of req) = Inr reply"
  shows "CallLLM (system_message (rq_language req)) (prompt_of req)
           \<in> set (fst (research_route sv req now))
    \<and> (\<exists>f. snd (research_route sv req now) = Inl (ValidationError f))"
proof -
  obtain fs r where "format_results (JObj p) = Inr fs" "r \<in> set fs" "fr_url r = JNull"
    using format_results_null_url [OF assms(2-5)] by blast
  then show ?thesis using research_null_url_fails [OF assms(1) _ assms(6)] by blast
qed

theorem research_synthesis_failure_witness:
  "sv_search (demo_services\<lparr>sv_llm := \<lambda>_ _. Inl ''quota exceeded''\<rparr>)
     (tavily_search_args (rq_query demo_request) (rq_max_results demo_request))
     = Inr (JObj [(''results'', JArr [louvre_hit])]) \<and>
   sv_llm (demo_services\<lparr>sv_llm := \<lambda>_ _. Inl ''quota exceeded''\<rparr>)
     (system_message (rq_language demo_request)) (prompt_of demo_request) = Inl ''quota exceeded'' \<and>
   research_route (demo_services\<lparr>sv_llm := \<lambda>_ _. Inl ''quota exceeded''\<rparr>) demo_request 0 =
     ([CallSearch (tavily_search_args ''Paris museums'' 5),
       CallScrape (firecrawl_args (JStr ''https://louvre.fr'')),
       CallLLM (system_message ''en'') (prompt_of demo_request)],
      Inl (Exc ''quota exceeded''))"
proof -
  have s: "sv_search (demo_services\<lparr>sv_llm := \<lambda>_ _. Inl ''quota exceeded''\<rparr>)
     (tavily_search_args (rq_query demo_request) (rq_max_results demo_request))
     = Inr (JObj [(''results'', JArr [louvre_hit])])"
    using demo_payload(1) by simp
  have f: "format_results (JObj [(''results'', JArr [louvre_hit])]) =
     Inr (map fresult_of (normalized_hits (JObj [(''results'', JArr [louvre_hit])])))"
    using format_results_wf_hits [OF demo_payload(2)] by (simp add: normalized_hits_def)
  have l: "sv_llm (demo_services\<lparr>sv_llm := \<lambda>_ _. Inl ''quota exceeded''\<rparr>)
     (system_message (rq_language demo_request)) (prompt_of demo_request) = Inl ''quota exceeded''"
    by simp
  show ?thesis using research_synthesis_failure [OF s f l, where now = 0] s l
    by (simp add: demo_payload(3) demo_request_def fresult_of_def scrape_call_def)
qed

lemma flaky_payload:
  "sv_search flaky_services args = Inr (JObj [(''results'', JArr [louvre_hit,
      demo_hit ''Orsay'' ''https://b'', demo_hit ''Rodin'' ''https://c''])])"
  "wf_payload (JObj [(''results'', JArr [louvre_hit,
      demo_hit ''Orsay'' ''https://b'', demo_hit ''Rodin'' ''https://c''])])"
  "normalized_hits (JObj [(''results'', JArr [louvre_hit,
      demo_hit ''Orsay'' ''https://b'', demo_hit ''Rodin'' ''https://c''])]) =
     [demo_result ''Louvre'' ''https://louvre.fr'' None, demo_result ''Orsay'' ''https://b'' None,
      demo_result ''Rodin'' ''https://c'' None]"
proof -
  have "py_slice_str 500 ''Museum'' = ''Museum''" by code_simp
  then show "normalized_hits (JObj [(''results'', JArr [louvre_hit,
      demo_hit ''Orsay'' ''https://b'', demo_hit ''Rodin'' ''https://c''])]) =
     [demo_result ''Louvre'' ''https://louvre.fr'' None, demo_result ''Orsay'' ''https://b'' None,
      demo_result ''Rodin'' ''https://c'' None]"
    by (simp add: louvre_hit_def demo_hit_def demo_result_def normalized_hits_def
        normalize_spec_def str_field_def)
qed (simp_all add: flaky_services_def louvre_hit_def demo_hit_def wf_field_def)

theorem research_scrape_failure_isolated_witness:
  "sv_scrape flaky_services (firecrawl_args (JStr ''https://b'')) = Inl ''timeout'' \<and>
   sv_llm flaky_services (system_message (rq_language demo_request)) (prompt_of demo_request)
     = Inr ''Visit the Louvre.'' \<and>
   (\<exists>r. snd (research_route flaky_services demo_request 0) = Inr r
      \<and> rp_image_urls r = [''https://x/paris.png'', ''https://x/paris.png'']
      \<and> rp_sources r =
          [demo_result ''Louvre'' ''https://louvre.fr'' (Some ''https://x/paris.png''),
           demo_result ''Orsay'' ''https://b'' None,
           demo_result ''Rodin'' ''https://c'' (Some ''https://x/paris.png'')])"
proof -
  have sc: "sv_scrape flaky_services (firecrawl_args (JStr (rr_url (demo_result ''Orsay'' ''https://b'' None))))
      = Inl ''timeout''"
    by (simp add: flaky_services_def firecrawl_args_def demo_result_def)
  have l: "sv_llm flaky_services (system_message (rq_language demo_request)) (prompt_of demo_request)
     = Inr ''Visit the Louvre.''" by (simp add: flaky_services_def demo_services_def)
  have img: "outcome_images (scrape (sv_scrape flaky_services) (JStr u)) = [''https://x/paris.png'']"
    if "u \<noteq> ''https://b''" for u
    using that by (simp add: flaky_services_def demo_services_def scrape_def firecrawl_args_def
        markdown_of_def py_and_def Let_def)
  have flt: "filter_images ''Paris museums'' [''https://x/paris.png'', ''https://x/paris.png'']
      = [''https://x/paris.png'', ''https://x/paris.png'']"
    by code_simp
  show ?thesis
    using research_scrape_failure_isolated [OF flaky_payload(1,2,3) sc l, where now = 0] sc l
    by (simp add: img flt expected_source_def demo_result_def demo_request_def)
qed

theorem research_language_fallback_witness:
  "rq_language (demo_request\<lparr>rq_language := ''FR''\<rparr>) \<noteq> ''fr'' \<and>
   rq_language (demo_request\<lparr>rq_language := ''FR''\<rparr>) \<noteq> ''vi'' \<and>
   CallLLM (system_message ''FR'') (prompt_of (demo_request\<lparr>rq_language := ''FR''\<rparr>))
     \<in> set (fst (research_route demo_services (demo_request\<lparr>rq_language := ''FR''\<rparr>) 0)) \<and>
   system_message ''FR'' = system_message_en \<and>
   prompt_of (demo_request\<lparr>rq_language := ''FR''\<rparr>) = synthesis_prompt ''en'' ''Paris museums'' []"
proof -
  have c: "CallLLM (system_message (rq_language (demo_request\<lparr>rq_language := ''FR''\<rparr>)))
      (prompt_of (demo_request\<lparr>rq_language := ''FR''\<rparr>))
     \<in> set (fst (research_route demo_services (demo_request\<lparr>rq_language := ''FR''\<rparr>) 0))"
    by (simp add: research_route_wf [OF demo_payload(1,2)])
  have "rq_language (demo_request\<lparr>rq_language := ''FR''\<rparr>) \<noteq> ''fr''"
    "rq_language (demo_request\<lparr>rq_language := ''FR''\<rparr>) \<noteq> ''vi''" by simp_all
  from research_language_fallback [OF this c] this c show ?thesis
    by (simp add: demo_request_def system_message_def)
qed

theorem research_invalid_source_after_synthesis_witness:
  "(\<exists>f. snd (research_route (demo_services\<lparr>sv_search := \<lambda>_. Inr (JObj [(''results'',
        JArr ([] @ JObj [(''title'', JStr ''T''), (''url'', JNull)] # []))])\<rparr>) demo_request 0)
     = Inl (ValidationError f)) \<and>
   CallLLM (system_message ''en'') (prompt_of demo_request)
     \<in> set (fst (research_route (demo_services\<lparr>sv_search := \<lambda>_. Inr (JObj [(''results'',
        JArr ([] @ JObj [(''title'', JStr ''T''), (''url'', JNull)] # []))])\<rparr>) demo_request 0))"
proof -
  have w: "wf_hit (JObj (filter (\<lambda>kv. fst kv \<noteq> ''url'') [(''title'', JStr ''T''), (''url'', JNull)]))"
    by (simp add: wf_field_def)
  have l: "sv_llm (demo_services\<lparr>sv_search := \<lambda>_. Inr (JObj [(''results'',
        JArr ([] @ JObj [(''title'', JStr ''T''), (''url'', JNull)] # []))])\<rparr>)
     (system_message (rq_language demo_request)) (prompt_of demo_request) = Inr ''Visit the Louvre.''"
    by (simp add: demo_services_def)
  show ?thesis
    using research_invalid_source_after_synthesis [OF _ _ _ _ w l,
        of "[(''results'', JArr ([] @ JObj [(''title'', JStr ''T''), (''url'', JNull)] # []))]"
        "[]" "[]" 0]
    by (simp add: demo_request_def)
qed





text \<open>
  C8: in every response, whatever the services answered,
  there are at most five image URLs and each contains, case-insensitively, a word of
  the query.
\<close>

theorem research_images_relevant:
  assumes "snd (research_route sv req now) = Inr r"
  shows "length (rp_image_urls r) \<le> 5 \<and>
    (\<forall>u\<in>set (rp_image_urls r). \<exists>k\<in>set (query_keywords (rq_query req)). sublist k (py_lower u))"
  using research_route_images [OF assms] filter_images_length filter_images_relevant by metis

theorem research_images_relevant_witness:
  "snd (research_route demo_services demo_request 0) =
     Inr \<lparr>rp_query = ''Paris museums'', rp_response = ''Visit the Louvre.'',
          rp_image_urls = [''https://x/paris.png''],
          rp_sources = [demo_result ''Louvre'' ''https://louvre.fr'' (Some ''https://x/paris.png'')],
          rp_timestamp = 0\<rparr> \<and>
   length [''https://x/paris.png''] \<le> (5::nat) \<and>
   (\<exists>k\<in>set (query_keywords ''Paris museums''). sublist k (py_lower ''https://x/paris.png''))"
proof -
  have r: "snd (research_route demo_services demo_request 0) =
     Inr \<lparr>rp_query = ''Paris museums'', rp_response = ''Visit the Louvre.'',
          rp_image_urls = [''https://x/paris.png''],
          rp_sources = [demo_result ''Louvre'' ''https://louvre.fr'' (Some ''https://x/paris.png'')],
          rp_timestamp = 0\<rparr>"
    by (simp add: demo_route)
  from research_images_relevant [OF r] r show ?thesis by (simp add: demo_request_def)
qed

text \<open>
  C11: the handler calls the search provider with the
  request's query and \<open>max_results\<close>, advanced depth and images included, and the
  scrape provider for markdown with a cache age of one hour.
\<close>

theorem research_call_arguments:
  "(CallSearch a \<in> set (fst (research_route sv req now)) \<longrightarrow>
      a = \<lparr>sa_query = rq_query req, sa_search_depth = ''advanced'',
           sa_max_results = rq_max_results req, sa_include_images = True\<rparr>)
   \<and> (CallScrape b \<in> set (fst (research_route sv req now)) \<longrightarrow>
      sc_formats b = [''markdown''] \<and> sc_max_age b = 3600000)"
  by (auto simp: research_route_calls scrape_call_def tavily_search_args_def firecrawl_args_def
      split: sum.splits)

theorem research_call_arguments_witness:
  "CallSearch (tavily_search_args ''Paris museums'' 5) \<in> set (fst (research_route demo_services demo_request 0)) \<and>
   CallScrape (firecrawl_args (JStr ''https://louvre.fr'')) \<in> set (fst (research_route demo_services demo_request 0)) \<and>
   tavily_search_args ''Paris museums'' 5 = \<lparr>sa_query = ''Paris museums'', sa_search_depth = ''advanced'',
           sa_max_results = 5, sa_include_images = True\<rparr> \<and>
   sc_formats (firecrawl_args (JStr ''https://louvre.fr'')) = [''markdown''] \<and>
   sc_max_age (firecrawl_args (JStr ''https://louvre.fr'')) = 3600000"
  using research_call_arguments [of "tavily_search_args ''Paris museums'' 5" demo_services demo_request 0
      "firecrawl_args (JStr ''https://louvre.fr'')"]
  by (simp add: demo_route tavily_search_args_def firecrawl_args_def)

text \<open>
  C9: every response the handler returns, whatever the
  services answered, satisfies the data-model invariants of the specification: it
  answers the request's query, has at most five image URLs, and no source's content
  exceeds 500 code points.
\<close>

theorem research_response_wf:
  assumes "snd (research_route sv req now) = Inr r"
  shows "wf_research_response (rq_query req) r"
proof -
  obtain raw fs where fs: "format_results raw = Inr fs"
    and src: "emap make_research_result (sources_of sv fs) = Inr (rp_sources r)"
    and img: "rp_image_urls r = filter_images (rq_query req) (images_of sv fs)"
    and q: "rp_query r = rq_query req"
    using research_route_Inr [OF assms] by blast
  have "utf8_len (rr_content s) \<le> 500" if s: "s \<in> set (rp_sources r)" for s
  proof -
    obtain x where x: "x \<in> set (sources_of sv fs)" "make_research_result x = Inr s"
      using emap_Inr_mem [OF src s] by blast
    then obtain y where y: "y \<in> set fs" "fr_content y = JStr (rr_content s)"
      using sources_of_content make_research_result_content by metis
    then obtain h where "format_result h = Inr y" using format_results_mem [OF fs] by blast
    then show ?thesis using y(2) by (rule format_result_str_content)
  qed
  with img q show ?thesis
    by (simp add: wf_research_response_def filter_images_length list_all_iff)
qed

theorem research_response_wf_witness:
  "snd (research_route demo_services demo_request 0) =
     Inr \<lparr>rp_query = ''Paris museums'', rp_response = ''Visit the Louvre.'',
          rp_image_urls = [''https://x/paris.png''],
          rp_sources = [demo_result ''Louvre'' ''https://louvre.fr'' (Some ''https://x/paris.png'')],
          rp_timestamp = 0\<rparr> \<and>
   wf_research_response ''Paris museums''
     \<lparr>rp_query = ''Paris museums'', rp_response = ''Visit the Louvre.'',
          rp_image_urls = [''https://x/paris.png''],
          rp_sources = [demo_result ''Louvre'' ''https://louvre.fr'' (Some ''https://x/paris.png'')],
          rp_timestamp = 0\<rparr>"
proof -
  have r: "snd (research_route demo_services demo_request 0) =
     Inr \<lparr>rp_query = ''Paris museums'', rp_response = ''Visit the Louvre.'',
          rp_image_urls = [''https://x/paris.png''],
          rp_sources = [demo_result ''Louvre'' ''https://louvre.fr'' (Some ''https://x/paris.png'')],
          rp_timestamp = 0\<rparr>"
    by (simp add: demo_route)
  from research_response_wf [OF r] r show ?thesis by (simp add: demo_request_def)
qed

end
