(* ===== verification/ResearchSteps.thy ===== *)
theory ResearchSteps
  imports Research
begin

text \<open>
  The orchestrator of \<^verbatim>\<open>src/backend/app/routes/research.py\<close> as the state machine of
  the specification (section 4.7): search, normalise, scrape the first three results
  one at a time, synthesise, filter the images and assemble, or fail. A state is the
  current phase with the data the handler holds at that point of its body, and the
  remote calls made so far. \<open>ostep\<close> is one step of the handler; each rule is the
  statement of \<open>search_travel_research\<close> it executes (the search, lines 29--32; the
  normalisation, line 35; one iteration of the loop, lines 40--47; the end of the
  loop; the synthesis with the filter, lines 50--79; the assembly, lines 82--99).
  The rules reuse the code-level definitions of the theories below (\<open>scrape_one\<close>,
  \<open>format_results\<close>, \<open>filter_images\<close>, \<open>make_research_result\<close>), so the machine is
  a small-step reading of the same handler, not a second specification. Every step
  keeps the value \<open>research_route\<close> computes and lowers \<open>phase_rank\<close>, so the final
  state of a run from the start is the handler's outcome; the invariant \<open>calls_inv\<close>
  of the reachable states bounds the scrapes and the synthesis calls.
\<close>

datatype phase =
    PSearch
  | PNormalize jval \<comment> \<open>\<open>raw_results\<close>\<close>
  | PScrape "fresult list" "fresult list" loop_acc
      \<comment> \<open>the results of \<open>[:3]\<close> still to scrape, \<open>formatted_results[3:]\<close>, the accumulators\<close>
  | PSynthesize "fresult list" loop_acc
  | PAssemble pystr "pystr list" "fresult list"
      \<comment> \<open>\<open>synthesized_response\<close>, \<open>filtered_image_urls\<close>, \<open>formatted_results\<close>\<close>
  | PDone research_response
  | PFailed py_exc

record ostate =
  os_phase :: phase
  os_calls :: "call list"

definition ostart :: ostate where
  "ostart = \<lparr>os_phase = PSearch, os_calls = []\<rparr>"

definition synth_prompt_of :: "research_request \<Rightarrow> loop_acc \<Rightarrow> pystr" where
  "synth_prompt_of req acc =
     synthesis_prompt (rq_language req) (rq_query req) (py_join [nl, nl] (fst acc))"

definition assembled :: "research_request \<Rightarrow> timestamp \<Rightarrow> pystr \<Rightarrow> pystr list \<Rightarrow> research_result list
    \<Rightarrow> research_response" where
  "assembled req now resp imgs sources =
     \<lparr>rp_query = rq_query req, rp_response = resp, rp_image_urls = imgs, rp_sources = sources,
      rp_timestamp = now\<rparr>"

inductive ostep :: "services \<Rightarrow> research_request \<Rightarrow> timestamp \<Rightarrow> ostate \<Rightarrow> ostate \<Rightarrow> bool"
  for sv req now where
  search_ok:
    "search_travel_research (sv_search sv) (rq_query req) (rq_max_results req) = Inr raw \<Longrightarrow>
     ostep sv req now \<lparr>os_phase = PSearch, os_calls = cs\<rparr>
       \<lparr>os_phase = PNormalize raw,
        os_calls = cs @ [CallSearch (tavily_search_args (rq_query req) (rq_max_results req))]\<rparr>"
| search_err:
    "search_travel_research (sv_search sv) (rq_query req) (rq_max_results req) = Inl e \<Longrightarrow>
     ostep sv req now \<lparr>os_phase = PSearch, os_calls = cs\<rparr>
       \<lparr>os_phase = PFailed e,
        os_calls = cs @ [CallSearch (tavily_search_args (rq_query req) (rq_max_results req))]\<rparr>"
| normalize_ok:
    "format_results raw = Inr fs \<Longrightarrow>
     ostep sv req now \<lparr>os_phase = PNormalize raw, os_calls = cs\<rparr>
       \<lparr>os_phase = PScrape (take 3 fs) (drop 3 fs) ([], [], []), os_calls = cs\<rparr>"
| normalize_err:
    "format_results raw = Inl e \<Longrightarrow>
     ostep sv req now \<lparr>os_phase = PNormalize raw, os_calls = cs\<rparr>
       \<lparr>os_phase = PFailed e, os_calls = cs\<rparr>"
| scrape_ok:
    "scrape_one sv acc r = (cs', Inr acc') \<Longrightarrow>
     ostep sv req now \<lparr>os_phase = PScrape (r # todo) rest acc, os_calls = cs\<rparr>
       \<lparr>os_phase = PScrape todo rest acc', os_calls = cs @ cs'\<rparr>"
| scrape_err:
    "scrape_one sv acc r = (cs', Inl e) \<Longrightarrow>
     ostep sv req now \<lparr>os_phase = PScrape (r # todo) rest acc, os_calls = cs\<rparr>
       \<lparr>os_phase = PFailed e, os_calls = cs @ cs'\<rparr>"
| scrape_done:
    "ostep sv req now \<lparr>os_phase = PScrape [] rest acc, os_calls = cs\<rparr>
       \<lparr>os_phase = PSynthesize rest acc, os_calls = cs\<rparr>"
| synth_ok:
    "get_chat_response (sv_llm sv) (synth_prompt_of req acc) (rq_language req) = Inr resp \<Longrightarrow>
     ostep sv req now \<lparr>os_phase = PSynthesize rest acc, os_calls = cs\<rparr>
       \<lparr>os_phase = PAssemble resp (filter_images (rq_query req) (fst (snd acc))) (snd (snd acc) @ rest),
        os_calls = cs @ [CallLLM (system_message (rq_language req)) (synth_prompt_of req acc)]\<rparr>"
| synth_err:
    "get_chat_response (sv_llm sv) (synth_prompt_of req acc) (rq_language req) = Inl e \<Longrightarrow>
     ostep sv req now \<lparr>os_phase = PSynthesize rest acc, os_calls = cs\<rparr>
       \<lparr>os_phase = PFailed e,
        os_calls = cs @ [CallLLM (system_message (rq_language req)) (synth_prompt_of req acc)]\<rparr>"
| assemble_ok:
    "emap make_research_result fs = Inr sources \<Longrightarrow>
     ostep sv req now \<lparr>os_phase = PAssemble resp imgs fs, os_calls = cs\<rparr>
       \<lparr>os_phase = PDone (assembled req now resp imgs sources), os_calls = cs\<rparr>"
| assemble_err:
    "emap make_research_result fs = Inl e \<Longrightarrow>
     ostep sv req now \<lparr>os_phase = PAssemble resp imgs fs, os_calls = cs\<rparr>
       \<lparr>os_phase = PFailed e, os_calls = cs\<rparr>"

fun is_terminal :: "phase \<Rightarrow> bool" where
  "is_terminal (PDone _) = True"
| "is_terminal (PFailed _) = True"
| "is_terminal _ = False"

fun phase_rank :: "phase \<Rightarrow> nat" where
  "phase_rank PSearch = 8"
| "phase_rank (PNormalize _) = 7"
| "phase_rank (PScrape todo _ _) = 3 + length todo"
| "phase_rank (PSynthesize _ _) = 2"
| "phase_rank (PAssemble _ _ _) = 1"
| "phase_rank _ = 0"

text \<open>
  What remains of the handler from a phase on, as a traced computation: the handler
  body from the statement the phase stands before.
\<close>

definition assemble_outcome ::
  "research_request \<Rightarrow> timestamp \<Rightarrow> pystr \<Rightarrow> pystr list \<Rightarrow> fresult list
     \<Rightarrow> (call, py_exc, research_response) traced" where
  "assemble_outcome req now resp imgs fs =
     tbind ([], emap make_research_result fs) (\<lambda>sources. ([], Inr (assembled req now resp imgs sources)))"

definition synth_outcome ::
  "services \<Rightarrow> research_request \<Rightarrow> timestamp \<Rightarrow> fresult list \<Rightarrow> loop_acc
     \<Rightarrow> (call, py_exc, research_response) traced" where
  "synth_outcome sv req now rest acc =
     tbind ([CallLLM (system_message (rq_language req)) (synth_prompt_of req acc)],
            get_chat_response (sv_llm sv) (synth_prompt_of req acc) (rq_language req)) (\<lambda>resp.
     assemble_outcome req now resp (filter_images (rq_query req) (fst (snd acc))) (snd (snd acc) @ rest))"

fun phase_outcome ::
  "services \<Rightarrow> research_request \<Rightarrow> timestamp \<Rightarrow> phase \<Rightarrow> (call, py_exc, research_response) traced" where
  "phase_outcome sv req now PSearch = research_route sv req now"
| "phase_outcome sv req now (PNormalize raw) =
     tbind ([], format_results raw) (\<lambda>fs.
     tbind (scrape_loop sv ([], [], []) (take 3 fs)) (synth_outcome sv req now (drop 3 fs)))"
| "phase_outcome sv req now (PScrape todo rest acc) =
     tbind (scrape_loop sv acc todo) (synth_outcome sv req now rest)"
| "phase_outcome sv req now (PSynthesize rest acc) = synth_outcome sv req now rest acc"
| "phase_outcome sv req now (PAssemble resp imgs fs) = assemble_outcome req now resp imgs fs"
| "phase_outcome sv req now (PDone r) = ([], Inr r)"
| "phase_outcome sv req now (PFailed e) = ([], Inl e)"

definition ostate_outcome ::
  "services \<Rightarrow> research_request \<Rightarrow> timestamp \<Rightarrow> ostate \<Rightarrow> (call, py_exc, research_response) traced" where
  "ostate_outcome sv req now s =
     (os_calls s @ fst (phase_outcome sv req now (os_phase s)), snd (phase_outcome sv req now (os_phase s)))"

fun is_scrape_call :: "call \<Rightarrow> bool" where
  "is_scrape_call (CallScrape _) = True"
| "is_scrape_call _ = False"

fun is_llm_call :: "call \<Rightarrow> bool" where
  "is_llm_call (CallLLM _ _) = True"
| "is_llm_call _ = False"

definition scrapes :: "call list \<Rightarrow> nat" where
  "scrapes cs = length (filter is_scrape_call cs)"

definition llm_calls :: "call list \<Rightarrow> nat" where
  "llm_calls cs = length (filter is_llm_call cs)"

text \<open>The invariant of the reachable states: the calls made so far, phase by phase.\<close>

fun calls_inv :: "phase \<Rightarrow> call list \<Rightarrow> bool" where
  "calls_inv PSearch cs \<longleftrightarrow> scrapes cs = 0 \<and> llm_calls cs = 0"
| "calls_inv (PNormalize _) cs \<longleftrightarrow> scrapes cs = 0 \<and> llm_calls cs = 0"
| "calls_inv (PScrape todo _ _) cs \<longleftrightarrow> scrapes cs + length todo \<le> 3 \<and> llm_calls cs = 0"
| "calls_inv (PSynthesize _ _) cs \<longleftrightarrow> scrapes cs \<le> 3 \<and> llm_calls cs = 0"
| "calls_inv (PAssemble _ _ _) cs \<longleftrightarrow> scrapes cs \<le> 3 \<and> llm_calls cs = 1"
| "calls_inv _ cs \<longleftrightarrow> scrapes cs \<le> 3 \<and> llm_calls cs \<le> 1"

subsection \<open>Steps\<close>

inductive_cases ostep_SearchE: "ostep sv req now \<lparr>os_phase = PSearch, os_calls = cs\<rparr> t"
inductive_cases ostep_NormalizeE: "ostep sv req now \<lparr>os_phase = PNormalize raw, os_calls = cs\<rparr> t"
inductive_cases ostep_ScrapeE: "ostep sv req now \<lparr>os_phase = PScrape todo rest acc, os_calls = cs\<rparr> t"
inductive_cases ostep_SynthesizeE: "ostep sv req now \<lparr>os_phase = PSynthesize rest acc, os_calls = cs\<rparr> t"
inductive_cases ostep_AssembleE: "ostep sv req now \<lparr>os_phase = PAssemble resp imgs fs, os_calls = cs\<rparr> t"
inductive_cases ostep_DoneE: "ostep sv req now \<lparr>os_phase = PDone r, os_calls = cs\<rparr> t"
inductive_cases ostep_FailedE: "ostep sv req now \<lparr>os_phase = PFailed e, os_calls = cs\<rparr> t"

lemmas ostep_elims = ostep_SearchE ostep_NormalizeE ostep_ScrapeE ostep_SynthesizeE ostep_AssembleE
  ostep_DoneE ostep_FailedE

lemma research_route_cps:
  "research_route sv req now =
     tbind ([CallSearch (tavily_search_args (rq_query req) (rq_max_results req))],
            search_travel_research (sv_search sv) (rq_query req) (rq_max_results req))
       (\<lambda>raw. phase_outcome sv req now (PNormalize raw))"
  by (simp add: research_route_def synth_outcome_def [abs_def] assemble_outcome_def synth_prompt_of_def
      assembled_def Let_def split_def)

lemma scrape_one_calls: "fst (scrape_one sv acc r) = [scrape_call r]"
  by (cases acc) (simp add: scrape_one_eq)

lemma ostate_eta: "\<lparr>os_phase = os_phase s, os_calls = os_calls s\<rparr> = s"
  by (cases s) simp

lemma scrape_one_Pair:
  "scrape_one sv acc r = (cs', res) \<Longrightarrow> cs' = [scrape_call r]"
  using scrape_one_calls [of sv acc r] by simp

lemma ostep_outcome:
  "ostep sv req now s t \<Longrightarrow> ostate_outcome sv req now t = ostate_outcome sv req now s"
  by (induction rule: ostep.induct)
    (simp_all add: ostate_outcome_def research_route_cps tbind_assoc tbind_prepend
      synth_outcome_def assemble_outcome_def)

lemma ostep_rank:
  "ostep sv req now s t \<Longrightarrow> phase_rank (os_phase t) < phase_rank (os_phase s)"
  by (induction rule: ostep.induct) simp_all

lemma ostep_progress:
  assumes "\<not> is_terminal ph"
  shows "\<exists>t. ostep sv req now \<lparr>os_phase = ph, os_calls = cs\<rparr> t"
proof (cases ph)
  case PSearch
  then show ?thesis
    by (cases "search_travel_research (sv_search sv) (rq_query req) (rq_max_results req)")
      (blast intro: search_ok search_err)+
next
  case (PNormalize raw)
  then show ?thesis
    by (cases "format_results raw") (blast intro: normalize_ok normalize_err)+
next
  case (PScrape todo rest acc)
  show ?thesis
  proof (cases todo)
    case (Cons r todo')
    obtain cs' res where "scrape_one sv acc r = (cs', res)" by fastforce
    with Cons PScrape show ?thesis
      by (cases res) (blast intro: scrape_ok scrape_err)+
  qed (use PScrape in \<open>blast intro: scrape_done\<close>)
next
  case (PSynthesize rest acc)
  then show ?thesis
    by (cases "get_chat_response (sv_llm sv) (synth_prompt_of req acc) (rq_language req)")
      (blast intro: synth_ok synth_err)+
next
  case (PAssemble resp imgs fs)
  then show ?thesis
    by (cases "emap make_research_result fs") (blast intro: assemble_ok assemble_err)+
qed (use assms in simp_all)

lemma reach_terminal:
  "\<exists>t. (ostep sv req now)\<^sup>*\<^sup>* s t \<and> is_terminal (os_phase t)"
proof (induction "phase_rank (os_phase s)" arbitrary: s rule: less_induct)
  case less
  show ?case
  proof (cases "is_terminal (os_phase s)")
    case False
    have "\<exists>u. ostep sv req now \<lparr>os_phase = os_phase s, os_calls = os_calls s\<rparr> u"
      using False by (rule ostep_progress)
    then obtain u where u: "ostep sv req now s u" by (auto simp: ostate_eta)
    then obtain t where "(ostep sv req now)\<^sup>*\<^sup>* u t" "is_terminal (os_phase t)"
      using less ostep_rank by blast
    with u show ?thesis by (blast intro: converse_rtranclp_into_rtranclp)
  qed blast
qed

lemma reach_outcome:
  "(ostep sv req now)\<^sup>*\<^sup>* ostart s \<Longrightarrow> ostate_outcome sv req now s = research_route sv req now"
proof (induction rule: rtranclp_induct)
  case base
  then show ?case by (simp add: ostart_def ostate_outcome_def)
next
  case (step y z)
  then show ?case using ostep_outcome [of sv req now y z] by simp
qed

lemma route_reachable:
  "\<exists>t. (ostep sv req now)\<^sup>*\<^sup>* ostart t \<and> is_terminal (os_phase t)
     \<and> research_route sv req now = (os_calls t, snd (phase_outcome sv req now (os_phase t)))"
proof -
  obtain t where t: "(ostep sv req now)\<^sup>*\<^sup>* ostart t" "is_terminal (os_phase t)"
    using reach_terminal by blast
  moreover from t(2) have "fst (phase_outcome sv req now (os_phase t)) = []"
    by (cases "os_phase t") simp_all
  ultimately show ?thesis using reach_outcome [OF t(1)] by (auto simp: ostate_outcome_def)
qed

lemma reach_calls_inv:
  "(ostep sv req now)\<^sup>*\<^sup>* ostart s \<Longrightarrow> calls_inv (os_phase s) (os_calls s)"
proof (induction rule: rtranclp_induct)
  case base
  then show ?case by (simp add: ostart_def scrapes_def llm_calls_def)
next
  case (step s t)
  from step.hyps(2) step.IH show ?case
    by (induction rule: ostep.induct)
      (auto simp: scrapes_def llm_calls_def scrape_call_def dest!: scrape_one_Pair)
qed

lemma terminal_outcome:
  assumes "is_terminal ph"
  shows "snd (phase_outcome sv req now ph) = Inr r \<longleftrightarrow> ph = PDone r"
    and "snd (phase_outcome sv req now ph) = Inl e \<longleftrightarrow> ph = PFailed e"
  using assms by (cases ph; simp)+

lemma route_terminal_reachable:
  assumes "research_route sv req now = (cs, res)"
  shows "(ostep sv req now)\<^sup>*\<^sup>* ostart
    \<lparr>os_phase = (case res of Inl e \<Rightarrow> PFailed e | Inr r \<Rightarrow> PDone r), os_calls = cs\<rparr>"
proof -
  obtain t where t: "(ostep sv req now)\<^sup>*\<^sup>* ostart t" "is_terminal (os_phase t)"
    "research_route sv req now = (os_calls t, snd (phase_outcome sv req now (os_phase t)))"
    using route_reachable by blast
  with assms have "os_calls t = cs" "snd (phase_outcome sv req now (os_phase t)) = res" by simp_all
  with t(2) have "t = \<lparr>os_phase = (case res of Inl e \<Rightarrow> PFailed e | Inr r \<Rightarrow> PDone r), os_calls = cs\<rparr>"
    by (cases res) (auto simp: terminal_outcome ostate_eta [symmetric])
  with t(1) show ?thesis by simp
qed

subsection \<open>Properties of the state machine\<close>

text \<open>
  C10: in every reachable state, the handler has made at
  most three scrapes and at most one call of the text-generation service.
\<close>

theorem orchestrator_call_bounds:
  assumes "(ostep sv req now)\<^sup>*\<^sup>* ostart s"
  shows "scrapes (os_calls s) \<le> 3 \<and> llm_calls (os_calls s) \<le> 1"
  using reach_calls_inv [OF assms] by (cases "os_phase s") auto

theorem orchestrator_call_bounds_witness:
  "(ostep demo_services demo_request 0)\<^sup>*\<^sup>* ostart
     \<lparr>os_phase = PDone \<lparr>rp_query = ''Paris museums'', rp_response = ''Visit the Louvre.'',
           rp_image_urls = [''https://x/paris.png''],
           rp_sources = [demo_result ''Louvre'' ''https://louvre.fr'' (Some ''https://x/paris.png'')],
           rp_timestamp = 0\<rparr>,
      os_calls = [CallSearch (tavily_search_args ''Paris museums'' 5),
       CallScrape (firecrawl_args (JStr ''https://louvre.fr'')),
       CallLLM (system_message ''en'') (prompt_of demo_request)]\<rparr>
   \<and> scrapes [CallSearch (tavily_search_args ''Paris museums'' 5),
       CallScrape (firecrawl_args (JStr ''https://louvre.fr'')),
       CallLLM (system_message ''en'') (prompt_of demo_request)] = 1
   \<and> llm_calls [CallSearch (tavily_search_args ''Paris museums'' 5),
       CallScrape (firecrawl_args (JStr ''https://louvre.fr'')),
       CallLLM (system_message ''en'') (prompt_of demo_request)] = 1"
proof -
  have r: "(ostep demo_services demo_request 0)\<^sup>*\<^sup>* ostart
     \<lparr>os_phase = PDone \<lparr>rp_query = ''Paris museums'', rp_response = ''Visit the Louvre.'',
           rp_image_urls = [''https://x/paris.png''],
           rp_sources = [demo_result ''Louvre'' ''https://louvre.fr'' (Some ''https://x/paris.png'')],
           rp_timestamp = 0\<rparr>,
      os_calls = [CallSearch (tavily_search_args ''Paris museums'' 5),
       CallScrape (firecrawl_args (JStr ''https://louvre.fr'')),
       CallLLM (system_message ''en'') (prompt_of demo_request)]\<rparr>"
    using route_terminal_reachable [OF demo_route] by simp
  from orchestrator_call_bounds [OF r] r show ?thesis by (simp add: scrapes_def llm_calls_def)
qed

end
