(* ===== verification/AnalysisChain.thy ===== *)
theory AnalysisChain
  imports ChatChain Schemas
begin

text \<open>
  The document-analysis chain of \<^verbatim>\<open>src/backend/app/chains/analysis_chain.py\<close>.
  \<^item> \<open>analysis_system_message\<close> and \<open>analysis_user_template\<close> are the language
    dispatch of \<open>create_analysis_chain\<close> (lines 37--85): \<open>"fr"\<close> and \<open>"vi"\<close> select
    their texts, every other string the English ones. A user template is the
    source's text, written as its literal pieces around the three variables
    \<open>{travel_text}\<close>, \<open>{context}\<close> and \<open>{format_instructions}\<close>.
  \<^item> \<open>analysis_messages\<close> formats both message templates (lines 88--94) with the
    chain's inputs and the partial variable \<open>format_instructions\<close>, the text
    \<open>PydanticOutputParser.get_format_instructions()\<close> generates (a parameter: it is
    library output).
  \<^item> The chain \<open>prompt | llm | parser\<close> (line 97): the model is the capability
    \<open>llm_provider\<close>; the output parser's extraction of JSON from the reply is the
    capability \<open>json_extractor\<close> (library code); its validation against
    \<open>TravelAnalysis\<close> (\<^verbatim>\<open>models/schemas.py\<close> lines 36--41) is
    \<open>pyd_travel_analysis\<close>. The message of the library's wrapping exception is
    abstracted to the validation error.
  \<^item> \<open>analyze_travel_document\<close> (lines 102--132): the model is loaded when the chain
    is built, outside the \<open>try\<close> (\<open>load_google_llm\<close>: the capability
    \<open>llm_loader\<close>), so a load failure propagates; every exception of the
    invocation is turned into the fallback analysis, whose summary holds the first
    200 code points of \<open>str(e)\<close>. The \<open>print\<close> of line 126 is not modelled.
\<close>

record travel_analysis =
  ta_summary :: pystr
  ta_key_findings :: "pystr list"
  ta_recommendations :: "pystr list"
  ta_next_steps :: "pystr list"

type_synonym json_extractor = "pystr \<Rightarrow> pystr + jval"
type_synonym llm_loader = "pystr + llm_provider"

definition analysis_system_message_fr :: pystr where
  "analysis_system_message_fr =
     ''Vous '' @ [CHR 0xC3, CHR 0xAA] @ ''tes un assistant de voyage IA sp'' @
     [CHR 0xC3, CHR 0xA9] @ ''cialis'' @ [CHR 0xC3, CHR 0xA9] @ '' dans l'' @
     [CHR 0x27] @ ''analyse de documents. Votre t'' @ [CHR 0xC3, CHR 0xA2] @
     ''che est d'' @ [CHR 0x27] @ ''extraire les informations cl'' @
     [CHR 0xC3, CHR 0xA9] @ ''s des documents de voyage et de les pr'' @
     [CHR 0xC3, CHR 0xA9] @ ''senter de mani'' @ [CHR 0xC3, CHR 0xA8] @
     ''re structur'' @ [CHR 0xC3, CHR 0xA9] @ ''e.'' @ [CHR 0x0A, CHR 0x0A] @
     ''Analysez le document fourni et extrayez les d'' @ [CHR 0xC3, CHR 0xA9] @
     ''tails pertinents. Concentrez-vous sur les informations exploitables telles que les dates, les heures, les lieux, les num'' @
     [CHR 0xC3, CHR 0xA9] @ ''ros de confirmation et les coordonn'' @
     [CHR 0xC3, CHR 0xA9] @ ''es.''"

definition analysis_system_message_vi :: pystr where
  "analysis_system_message_vi =
     ''B'' @ [CHR 0xE1, CHR 0xBA, CHR 0xA1] @ ''n l'' @ [CHR 0xC3, CHR 0xA0] @ '' m'' @
     [CHR 0xE1, CHR 0xBB, CHR 0x99] @ ''t tr'' @ [CHR 0xE1, CHR 0xBB, CHR 0xA3] @
     '' l'' @ [CHR 0xC3, CHR 0xBD] @ '' du l'' @ [CHR 0xE1, CHR 0xBB, CHR 0x8B] @
     ''ch AI chuy'' @ [CHR 0xC3, CHR 0xAA] @ ''n ph'' @ [CHR 0xC3, CHR 0xA2] @
     ''n t'' @ [CHR 0xC3, CHR 0xAD] @ ''ch t'' @ [CHR 0xC3, CHR 0xA0] @ ''i li'' @
     [CHR 0xE1, CHR 0xBB, CHR 0x87] @ ''u. Nhi'' @ [CHR 0xE1, CHR 0xBB, CHR 0x87] @
     ''m v'' @ [CHR 0xE1, CHR 0xBB, CHR 0xA5] @ '' c'' @
     [CHR 0xE1, CHR 0xBB, CHR 0xA7] @ ''a b'' @ [CHR 0xE1, CHR 0xBA, CHR 0xA1] @
     ''n l'' @ [CHR 0xC3, CHR 0xA0] @ '' tr'' @ [CHR 0xC3, CHR 0xAD] @ ''ch xu'' @
     [CHR 0xE1, CHR 0xBA, CHR 0xA5] @ ''t th'' @ [CHR 0xC3, CHR 0xB4] @ ''ng tin ch'' @
     [CHR 0xC3, CHR 0xAD] @ ''nh t'' @ [CHR 0xE1, CHR 0xBB, CHR 0xAB] @ '' c'' @
     [CHR 0xC3, CHR 0xA1] @ ''c t'' @ [CHR 0xC3, CHR 0xA0] @ ''i li'' @
     [CHR 0xE1, CHR 0xBB, CHR 0x87] @ ''u du l'' @ [CHR 0xE1, CHR 0xBB, CHR 0x8B] @
     ''ch v'' @ [CHR 0xC3, CHR 0xA0] @ '' tr'' @ [CHR 0xC3, CHR 0xAC] @ ''nh b'' @
     [CHR 0xC3, CHR 0xA0] @ ''y n'' @ [CHR 0xC3, CHR 0xB3] @ '' '' @
     [CHR 0xE1, CHR 0xBB, CHR 0x9F] @ '' '' @
     [CHR 0xC4, CHR 0x91, CHR 0xE1, CHR 0xBB, CHR 0x8B] @ ''nh d'' @
     [CHR 0xE1, CHR 0xBA, CHR 0xA1] @ ''ng c'' @ [CHR 0xC3, CHR 0xB3] @ '' c'' @
     [CHR 0xE1, CHR 0xBA, CHR 0xA5] @ ''u tr'' @ [CHR 0xC3, CHR 0xBA] @ ''c.'' @
     [CHR 0x0A, CHR 0x0A] @ ''Ph'' @ [CHR 0xC3, CHR 0xA2] @ ''n t'' @
     [CHR 0xC3, CHR 0xAD] @ ''ch t'' @ [CHR 0xC3, CHR 0xA0] @ ''i li'' @
     [CHR 0xE1, CHR 0xBB, CHR 0x87] @ ''u '' @
     [CHR 0xC4, CHR 0x91, CHR 0xC6, CHR 0xB0, CHR 0xE1, CHR 0xBB, CHR 0xA3] @
     ''c cung c'' @ [CHR 0xE1, CHR 0xBA, CHR 0xA5] @ ''p v'' @ [CHR 0xC3, CHR 0xA0] @
     '' tr'' @ [CHR 0xC3, CHR 0xAD] @ ''ch xu'' @ [CHR 0xE1, CHR 0xBA, CHR 0xA5] @
     ''t c'' @ [CHR 0xC3, CHR 0xA1] @ ''c chi ti'' @ [CHR 0xE1, CHR 0xBA, CHR 0xBF] @
     ''t c'' @ [CHR 0xC3, CHR 0xB3] @ '' li'' @ [CHR 0xC3, CHR 0xAA] @ ''n quan. T'' @
     [CHR 0xE1, CHR 0xBA, CHR 0xAD] @ ''p trung v'' @ [CHR 0xC3, CHR 0xA0] @ ''o c'' @
     [CHR 0xC3, CHR 0xA1] @ ''c th'' @ [CHR 0xC3, CHR 0xB4] @ ''ng tin c'' @
     [CHR 0xC3, CHR 0xB3] @ '' th'' @ [CHR 0xE1, CHR 0xBB, CHR 0x83] @ '' h'' @
     [CHR 0xC3, CHR 0xA0] @ ''nh '' @
     [CHR 0xC4, CHR 0x91, CHR 0xE1, CHR 0xBB, CHR 0x99] @ ''ng nh'' @
     [CHR 0xC6, CHR 0xB0] @ '' ng'' @ [CHR 0xC3, CHR 0xA0] @ ''y, gi'' @
     [CHR 0xE1, CHR 0xBB, CHR 0x9D] @ '', '' @
     [CHR 0xC4, CHR 0x91, CHR 0xE1, CHR 0xBB, CHR 0x8B] @ ''a '' @
     [CHR 0xC4, CHR 0x91] @ ''i'' @ [CHR 0xE1, CHR 0xBB, CHR 0x83] @ ''m, s'' @
     [CHR 0xE1, CHR 0xBB, CHR 0x91] @ '' x'' @ [CHR 0xC3, CHR 0xA1] @ ''c nh'' @
     [CHR 0xE1, CHR 0xBA, CHR 0xAD] @ ''n v'' @ [CHR 0xC3, CHR 0xA0] @ '' chi ti'' @
     [CHR 0xE1, CHR 0xBA, CHR 0xBF] @ ''t li'' @ [CHR 0xC3, CHR 0xAA] @ ''n h'' @
     [CHR 0xE1, CHR 0xBB, CHR 0x87] @ ''.''"

definition analysis_system_message_en :: pystr where
  "analysis_system_message_en =
     ''You are a travel AI assistant specializing in document analysis. Your task is to extract key information from travel documents and present it in a structured format.'' @
     [CHR 0x0A, CHR 0x0A] @
     ''Analyze the provided document and extract the relevant details. Focus on actionable information such as dates, times, locations, confirmation numbers, and contact details.''"

definition analysis_template_fr :: "pystr \<times> pystr \<times> pystr \<times> pystr" where
  "analysis_template_fr =
    (''Analysez ce document de voyage et fournissez une analyse structur'' @
     [CHR 0xC3, CHR 0xA9] @ ''e:'' @ [CHR 0x0A, CHR 0x0A] @ ''Document de Voyage:'' @
     [CHR 0x0A],
     [CHR 0x0A, CHR 0x0A] @ ''Contexte Additionnel:'' @ [CHR 0x0A],
     [CHR 0x0A, CHR 0x0A],
     [CHR 0x0A, CHR 0x0A] @ ''R'' @ [CHR 0xC3, CHR 0xA9] @
     ''pondez UNIQUEMENT en JSON valide.'')"

definition analysis_template_vi :: "pystr \<times> pystr \<times> pystr \<times> pystr" where
  "analysis_template_vi =
    (''Ph'' @ [CHR 0xC3, CHR 0xA2] @ ''n t'' @ [CHR 0xC3, CHR 0xAD] @ ''ch t'' @
     [CHR 0xC3, CHR 0xA0] @ ''i li'' @ [CHR 0xE1, CHR 0xBB, CHR 0x87] @ ''u du l'' @
     [CHR 0xE1, CHR 0xBB, CHR 0x8B] @ ''ch n'' @ [CHR 0xC3, CHR 0xA0] @ ''y v'' @
     [CHR 0xC3, CHR 0xA0] @ '' cung c'' @ [CHR 0xE1, CHR 0xBA, CHR 0xA5] @ ''p m'' @
     [CHR 0xE1, CHR 0xBB, CHR 0x99] @ ''t ph'' @ [CHR 0xC3, CHR 0xA2] @ ''n t'' @
     [CHR 0xC3, CHR 0xAD] @ ''ch c'' @ [CHR 0xC3, CHR 0xB3] @ '' c'' @
     [CHR 0xE1, CHR 0xBA, CHR 0xA5] @ ''u tr'' @ [CHR 0xC3, CHR 0xBA] @ ''c:'' @
     [CHR 0x0A, CHR 0x0A] @ ''T'' @ [CHR 0xC3, CHR 0xA0] @ ''i li'' @
     [CHR 0xE1, CHR 0xBB, CHR 0x87] @ ''u du l'' @ [CHR 0xE1, CHR 0xBB, CHR 0x8B] @
     ''ch:'' @ [CHR 0x0A],
     [CHR 0x0A, CHR 0x0A] @ ''B'' @ [CHR 0xE1, CHR 0xBB, CHR 0x91] @ ''i c'' @
     [CHR 0xE1, CHR 0xBA, CHR 0xA3] @ ''nh b'' @ [CHR 0xE1, CHR 0xBB, CHR 0x95] @
     '' sung:'' @ [CHR 0x0A],
     [CHR 0x0A, CHR 0x0A],
     [CHR 0x0A, CHR 0x0A] @ ''Ch'' @ [CHR 0xE1, CHR 0xBB, CHR 0x89] @ '' tr'' @
     [CHR 0xE1, CHR 0xBA, CHR 0xA3] @ '' l'' @ [CHR 0xE1, CHR 0xBB, CHR 0x9D] @
     ''i b'' @ [CHR 0xE1, CHR 0xBA, CHR 0xB1] @ ''ng JSON h'' @
     [CHR 0xE1, CHR 0xBB, CHR 0xA3] @ ''p l'' @ [CHR 0xE1, CHR 0xBB, CHR 0x87] @ ''.'')"

definition analysis_template_en :: "pystr \<times> pystr \<times> pystr \<times> pystr" where
  "analysis_template_en =
    (''Analyze this travel document and provide a structured analysis:'' @
     [CHR 0x0A, CHR 0x0A] @ ''Travel Document:'' @ [CHR 0x0A],
     [CHR 0x0A, CHR 0x0A] @ ''Additional Context:'' @ [CHR 0x0A],
     [CHR 0x0A, CHR 0x0A],
     [CHR 0x0A, CHR 0x0A] @ ''Respond ONLY with valid JSON.'')"

definition analysis_system_message :: "pystr \<Rightarrow> pystr" where
  "analysis_system_message language =
     (if language = ''fr'' then analysis_system_message_fr
      else if language = ''vi'' then analysis_system_message_vi
      else analysis_system_message_en)"

definition analysis_template :: "pystr \<Rightarrow> pystr \<times> pystr \<times> pystr \<times> pystr" where
  "analysis_template language =
     (if language = ''fr'' then analysis_template_fr
      else if language = ''vi'' then analysis_template_vi
      else analysis_template_en)"

definition analysis_user_template :: "pystr \<Rightarrow> pystr" where
  "analysis_user_template language =
     (case analysis_template language of (head, after_text, after_context, tail) \<Rightarrow>
        head @ ''{travel_text}'' @ after_text @ ''{context}'' @ after_context
        @ ''{format_instructions}'' @ tail)"

definition analysis_context :: "pystr \<Rightarrow> pystr" where
  "analysis_context context = (if context = [] then ''No additional context provided'' else context)"

definition analysis_messages :: "pystr \<Rightarrow> pystr \<Rightarrow> pystr \<Rightarrow> pystr \<Rightarrow> py_exc + pystr \<times> pystr" where
  "analysis_messages language format_instructions text context =
     (let vs = [(''travel_text'', text), (''context'', context),
                (''format_instructions'', format_instructions)] in
      ebind (format_template vs (analysis_system_message language)) (\<lambda>sys.
      ebind (format_template vs (analysis_user_template language)) (\<lambda>usr. Inr (sys, usr))))"

text \<open>Pydantic's validation of \<open>TravelAnalysis\<close>: each field is required.\<close>

fun pyd_str_list :: "pystr \<Rightarrow> jval \<Rightarrow> py_exc + pystr list" where
  "pyd_str_list f (JArr xs) = emap (pyd_str f) xs"
| "pyd_str_list f _ = Inl (ValidationError f)"

definition pyd_field :: "jdict \<Rightarrow> pystr \<Rightarrow> (pystr \<Rightarrow> jval \<Rightarrow> py_exc + 'a) \<Rightarrow> py_exc + 'a" where
  "pyd_field d k check = (case map_of d k of None \<Rightarrow> Inl (ValidationError k) | Some v \<Rightarrow> check k v)"

fun pyd_travel_analysis :: "jval \<Rightarrow> py_exc + travel_analysis" where
  "pyd_travel_analysis (JObj d) =
     ebind (pyd_field d ''summary'' pyd_str) (\<lambda>summary.
     ebind (pyd_field d ''key_findings'' pyd_str_list) (\<lambda>key_findings.
     ebind (pyd_field d ''recommendations'' pyd_str_list) (\<lambda>recommendations.
     ebind (pyd_field d ''next_steps'' pyd_str_list) (\<lambda>next_steps.
     Inr \<lparr>ta_summary = summary, ta_key_findings = key_findings,
          ta_recommendations = recommendations, ta_next_steps = next_steps\<rparr>))))"
| "pyd_travel_analysis _ = Inl (ValidationError ''TravelAnalysis'')"

definition analysis_fallback :: "py_exc \<Rightarrow> travel_analysis" where
  "analysis_fallback e =
     \<lparr>ta_summary = ''Analysis completed but encountered formatting issues: '' @ py_slice_str 200 (exc_str e),
      ta_key_findings = [''Analysis was performed but results need manual review''],
      ta_recommendations = [''Verify all travel details with official sources''],
      ta_next_steps = [''Double-check booking confirmations'', ''Contact travel providers if necessary'']\<rparr>"

text \<open>
  \<open>create_analysis_chain\<close> (lines 12--99): the chain \<open>prompt | llm | parser\<close> as a
  function of its input variables \<open>travel_text\<close> and \<open>context\<close>; \<open>invoke_analysis\<close>
  is its invocation by \<open>analyze_travel_document\<close> (lines 115--122), which replaces an
  empty context by its default.
\<close>

definition create_analysis_chain ::
  "llm_provider \<Rightarrow> json_extractor \<Rightarrow> pystr \<Rightarrow> pystr \<Rightarrow> pystr \<times> pystr \<Rightarrow> py_exc + travel_analysis" where
  "create_analysis_chain llm parse format_instructions language =
     (\<lambda>(travel_text, context).
       ebind (analysis_messages language format_instructions travel_text context) (\<lambda>(sys, usr).
         case llm sys usr of
           Inl msg \<Rightarrow> Inl (Exc msg)
         | Inr reply \<Rightarrow> (case parse reply of
                          Inl msg \<Rightarrow> Inl (Exc msg)
                        | Inr j \<Rightarrow> pyd_travel_analysis j)))"

definition invoke_analysis ::
  "llm_provider \<Rightarrow> json_extractor \<Rightarrow> pystr \<Rightarrow> pystr \<Rightarrow> pystr \<Rightarrow> pystr \<Rightarrow> py_exc + travel_analysis" where
  "invoke_analysis llm parse format_instructions text context language =
     create_analysis_chain llm parse format_instructions language (text, analysis_context context)"

definition analyze_travel_document ::
  "llm_loader \<Rightarrow> json_extractor \<Rightarrow> pystr \<Rightarrow> pystr \<Rightarrow> pystr \<Rightarrow> pystr \<Rightarrow> py_exc + travel_analysis" where
  "analyze_travel_document load parse format_instructions text context language =
     (case load of
        Inl msg \<Rightarrow> Inl (Exc msg)
      | Inr llm \<Rightarrow>
          Inr (case invoke_analysis llm parse format_instructions text context language of
                 Inr result \<Rightarrow> result
               | Inl e \<Rightarrow> analysis_fallback e))"

text \<open>The user message the model receives, as the specification of the prompt.\<close>

definition analysis_prompt_text :: "pystr \<Rightarrow> pystr \<Rightarrow> pystr \<Rightarrow> pystr \<Rightarrow> pystr" where
  "analysis_prompt_text language format_instructions text context_value =
     (case analysis_template language of (head, after_text, after_context, tail) \<Rightarrow>
        head @ text @ after_text @ context_value @ after_context @ format_instructions @ tail)"

definition analysis_user_message :: "pystr \<Rightarrow> pystr \<Rightarrow> pystr \<Rightarrow> pystr \<Rightarrow> pystr" where
  "analysis_user_message language format_instructions text context =
     analysis_prompt_text language format_instructions text (analysis_context context)"

subsection \<open>The prompt\<close>

lemma analysis_texts_brace_free:
  "brace_free (analysis_system_message language)"
  "case analysis_template language of (h, a, b, t) \<Rightarrow>
     brace_free h \<and> brace_free a \<and> brace_free b \<and> brace_free t"
  by (simp_all add: analysis_system_message_def analysis_template_def brace_free_def lbrace_def
      rbrace_def analysis_system_message_fr_def analysis_system_message_vi_def
      analysis_system_message_en_def analysis_template_fr_def analysis_template_vi_def
      analysis_template_en_def)

lemma analysis_placeholders:
  "''{travel_text}'' = lbrace # ''travel_text'' @ [rbrace]"
  "''{context}'' = lbrace # ''context'' @ [rbrace]"
  "''{format_instructions}'' = lbrace # ''format_instructions'' @ [rbrace]"
  "brace_free ''travel_text''" "brace_free ''context''" "brace_free ''format_instructions''"
  by (simp_all add: lbrace_def rbrace_def brace_free_def)

lemma analysis_messages_eq:
  "analysis_messages language format_instructions text context =
     Inr (analysis_system_message language,
          analysis_prompt_text language format_instructions text context)"
proof -
  obtain h a b t where tpl: "analysis_template language = (h, a, b, t)"
    by (cases "analysis_template language") auto
  with analysis_texts_brace_free(2) [of language]
  have bf: "brace_free h" "brace_free a" "brace_free b" "brace_free t" by simp_all
  let ?vs = "[(''travel_text'', text), (''context'', context),
              (''format_instructions'', format_instructions)]"
  have u: "analysis_user_template language =
      h @ lbrace # ''travel_text'' @ rbrace # a @ lbrace # ''context'' @ rbrace #
      b @ lbrace # ''format_instructions'' @ rbrace # t"
    by (simp add: analysis_user_template_def tpl analysis_placeholders)
  have f1: "format_template ?vs (h @ lbrace # ''travel_text'' @ rbrace # R) =
      ebind (format_template ?vs R) (\<lambda>r. Inr (h @ text @ r))" for R
    by (rule format_template_field) (simp_all add: bf analysis_placeholders)
  have f2: "format_template ?vs (a @ lbrace # ''context'' @ rbrace # R) =
      ebind (format_template ?vs R) (\<lambda>r. Inr (a @ context @ r))" for R
    by (rule format_template_field) (simp_all add: bf analysis_placeholders)
  have f3: "format_template ?vs (b @ lbrace # ''format_instructions'' @ rbrace # R) =
      ebind (format_template ?vs R) (\<lambda>r. Inr (b @ format_instructions @ r))" for R
    by (rule format_template_field) (simp_all add: bf analysis_placeholders)
  have "format_template ?vs (analysis_user_template language) =
      Inr (analysis_prompt_text language format_instructions text context)"
    unfolding u f1 f2 f3 format_template_brace_free [OF bf(4)]
    by (simp add: analysis_prompt_text_def tpl)
  then show ?thesis
    by (simp add: analysis_messages_def format_template_brace_free analysis_texts_brace_free(1))
qed

lemma analyze_loaded:
  "analyze_travel_document (Inr llm) parse fi text context language =
     Inr (case (case llm (analysis_system_message language)
                          (analysis_user_message language fi text context) of
                  Inl msg \<Rightarrow> Inl (Exc msg)
                | Inr reply \<Rightarrow> (case parse reply of
                                 Inl msg \<Rightarrow> Inl (Exc msg)
                               | Inr j \<Rightarrow> pyd_travel_analysis j)) of
            Inr result \<Rightarrow> result
          | Inl e \<Rightarrow> analysis_fallback e)"
  by (simp add: analyze_travel_document_def invoke_analysis_def create_analysis_chain_def
      analysis_messages_eq analysis_user_message_def)

lemma pyd_str_Inl: "pyd_str f v = Inl e \<Longrightarrow> e = ValidationError f"
  by (cases v) auto

lemma pyd_str_list_Inl: "pyd_str_list f v = Inl e \<Longrightarrow> e = ValidationError f"
  by (cases v) (auto dest!: emap_Inl_elem pyd_str_Inl)

lemma pyd_field_Inl:
  assumes "pyd_field d k check = Inl e" and "\<And>v. check k v = Inl e \<Longrightarrow> e = ValidationError k"
  shows "e = ValidationError k"
  using assms by (auto simp: pyd_field_def split: option.splits)

lemma pyd_travel_analysis_Inl:
  assumes "pyd_travel_analysis j = Inl e"
  shows "\<exists>f. e = ValidationError f"
proof (cases j)
  case (JObj d)
  from assms JObj consider
      "pyd_field d ''summary'' pyd_str = Inl e"
    | "pyd_field d ''key_findings'' pyd_str_list = Inl e"
    | "pyd_field d ''recommendations'' pyd_str_list = Inl e"
    | "pyd_field d ''next_steps'' pyd_str_list = Inl e"
    by (auto simp: ebind_eq_Inl)
  then show ?thesis
    by cases (blast dest: pyd_field_Inl pyd_str_Inl pyd_str_list_Inl)+
qed (use assms in auto)

lemma emap_pyd_str_JStr: "emap (pyd_str f) (map JStr xs) = Inr xs"
  by (induction xs) simp_all

subsection \<open>Properties of the analysis chain\<close>

text \<open>
  C27: formatting the analysis prompt never raises, whatever the document, the
  context and the format instructions hold (braces included). The model receives the
  language's system message and that language's user template, whose four literal
  pieces hold no brace, with the three values inserted as they are, in order, and
  \<open>"No additional context provided"\<close> for an empty context.
\<close>

theorem analysis_prompt_verbatim:
  "case analysis_template language of (h, a, b, t) \<Rightarrow>
     brace_free h \<and> brace_free a \<and> brace_free b \<and> brace_free t \<and>
     analysis_messages language fi text (analysis_context context) =
       Inr (analysis_system_message language,
            h @ text @ a @ (if context = [] then ''No additional context provided'' else context)
              @ b @ fi @ t)"
proof -
  obtain h a b t where tpl: "analysis_template language = (h, a, b, t)"
    by (cases "analysis_template language") auto
  with analysis_texts_brace_free(2) [of language] show ?thesis
    by (simp add: analysis_messages_eq analysis_prompt_text_def analysis_context_def)
qed

text \<open>
  C28: once the model is loaded, a model call or an output
  parse that raises with message \<open>m\<close> does not fail the analysis: it returns the
  fallback analysis built from \<open>m\<close>.
\<close>

theorem analysis_failure_fallback:
  assumes "llm (analysis_system_message language) (analysis_user_message language fi text context) = Inl m
    \<or> (llm (analysis_system_message language) (analysis_user_message language fi text context) = Inr reply
        \<and> parse reply = Inl m)"
  shows "analyze_travel_document (Inr llm) parse fi text context language = Inr (analysis_fallback (Exc m))"
  using assms by (auto simp: analyze_loaded)

theorem analysis_failure_fallback_witness:
  "(\<lambda>_ _. Inl ''quota exceeded'' :: pystr + pystr) (analysis_system_message ''en'')
     (analysis_user_message ''en'' ''FI'' ''Flight AF1'' []) = Inl ''quota exceeded'' \<and>
   analyze_travel_document (Inr (\<lambda>_ _. Inl ''quota exceeded'')) (\<lambda>_. Inl ''unused'') ''FI''
     ''Flight AF1'' [] ''en'' = Inr (analysis_fallback (Exc ''quota exceeded''))"
  using analysis_failure_fallback [of "\<lambda>_ _. Inl ''quota exceeded''" "''en''" "''FI''" "''Flight AF1''" "[]"
      "''quota exceeded''" "''r''" "\<lambda>_. Inl ''unused''"]
  by simp

text \<open>
  C29: an answer that parses as JSON but is no
  \<open>TravelAnalysis\<close> (a field missing or of the wrong type) is rejected by the
  validation, and the analysis returns the fallback built from the validation error.
\<close>

theorem analysis_invalid_output_fallback:
  assumes "llm (analysis_system_message language) (analysis_user_message language fi text context) = Inr reply"
    and "parse reply = Inr j" and "pyd_travel_analysis j = Inl e"
  shows "analyze_travel_document (Inr llm) parse fi text context language = Inr (analysis_fallback e)
    \<and> (\<exists>f. e = ValidationError f)"
proof -
  have "\<exists>f. e = ValidationError f"
    using assms(3) by (rule pyd_travel_analysis_Inl)
  with assms show ?thesis by (simp add: analyze_loaded)
qed

text \<open>
  C30: when the model answers and its answer parses to an object
  with the four fields of \<open>TravelAnalysis\<close>, the analysis is that object.
\<close>

theorem analysis_success:
  assumes "llm (analysis_system_message language) (analysis_user_message language fi text context) = Inr reply"
    and "parse reply = Inr j" and "pyd_travel_analysis j = Inr r"
  shows "analyze_travel_document (Inr llm) parse fi text context language = Inr r"
  using assms by (simp add: analyze_loaded)

text \<open>
  C31: the fallback summary is the fixed prefix followed by
  the first \<open>min 200 (len (str e))\<close> code points of the error message: a hard cut
  that never splits a character.
\<close>

theorem analysis_fallback_summary:
  "\<exists>cut. ta_summary (analysis_fallback e) = ''Analysis completed but encountered formatting issues: '' @ cut
     \<and> prefix cut (exc_str e) \<and> utf8_len cut = min 200 (utf8_len (exc_str e))
     \<and> utf8_chars cut = take 200 (utf8_chars (exc_str e))"
  by (auto simp: analysis_fallback_def py_slice_str_prefix utf8_len_slice utf8_chars_slice)

theorem analysis_invalid_output_fallback_witness:
  "pyd_travel_analysis (JObj []) = Inl (ValidationError ''summary'') \<and>
   analyze_travel_document (Inr (\<lambda>_ _. Inr ''{}'')) (\<lambda>_. Inr (JObj [])) ''FI'' ''Flight AF1'' [] ''en''
     = Inr (analysis_fallback (ValidationError ''summary''))"
proof -
  have v: "pyd_travel_analysis (JObj []) = Inl (ValidationError ''summary'')"
    by (simp add: pyd_field_def)
  show ?thesis
    using analysis_invalid_output_fallback [of "\<lambda>_ _. Inr ''{}''" "''en''" "''FI''" "''Flight AF1''"
        "[]" "''{}''" "\<lambda>_. Inr (JObj [])" "JObj []" "ValidationError ''summary''", OF _ _ v] v
    by simp
qed

theorem analysis_success_witness:
  "pyd_travel_analysis (JObj [(''summary'', JStr ''One flight''), (''key_findings'', JArr [JStr ''AF1'']),
       (''recommendations'', JArr []), (''next_steps'', JArr [])])
     = Inr \<lparr>ta_summary = ''One flight'', ta_key_findings = [''AF1''], ta_recommendations = [],
            ta_next_steps = []\<rparr> \<and>
   analyze_travel_document (Inr (\<lambda>_ _. Inr ''{...}''))
     (\<lambda>_. Inr (JObj [(''summary'', JStr ''One flight''), (''key_findings'', JArr [JStr ''AF1'']),
       (''recommendations'', JArr []), (''next_steps'', JArr [])])) ''FI'' ''Flight AF1'' [] ''en''
     = Inr \<lparr>ta_summary = ''One flight'', ta_key_findings = [''AF1''], ta_recommendations = [],
            ta_next_steps = []\<rparr>"
proof -
  have v: "pyd_travel_analysis (JObj [(''summary'', JStr ''One flight''), (''key_findings'', JArr [JStr ''AF1'']),
       (''recommendations'', JArr []), (''next_steps'', JArr [])])
     = Inr \<lparr>ta_summary = ''One flight'', ta_key_findings = [''AF1''], ta_recommendations = [],
            ta_next_steps = []\<rparr>"
    by (simp add: pyd_field_def)
  show ?thesis
    using analysis_success [of "\<lambda>_ _. Inr ''{...}''" "''en''" "''FI''" "''Flight AF1''" "[]" "''{...}''"
        "\<lambda>_. Inr (JObj [(''summary'', JStr ''One flight''), (''key_findings'', JArr [JStr ''AF1'']),
          (''recommendations'', JArr []), (''next_steps'', JArr [])])", OF _ _ v] v
    by simp
qed

end
