(* ===== verification/Services.thy ===== *)
theory Services
  imports Research
begin

text \<open>
  The service singletons: \<^verbatim>\<open>TavilyService\<close> (\<^verbatim>\<open>services/tavily_service.py\<close> lines
  10--15, instance at lines 66--67) and \<^verbatim>\<open>FirecrawlService\<close>
  (\<^verbatim>\<open>services/firecrawl_service.py\<close> lines 37--42, instance at lines 86--87) are built
  once, at import, from the settings of \<^verbatim>\<open>app.config\<close>, and hold nothing but their
  client. The settings module is not in the repository: \<open>settings\<close> holds the fields
  the code reads, and the SDK clients are constructors from an API key to a
  capability. \<open>app_services\<close> is the \<open>services\<close> record the research handler
  receives.
\<close>

record settings =
  st_tavily_api_key :: pystr
  st_firecrawl_api_key :: pystr
  st_cors_origins_list :: "pystr list"
  st_host :: pystr
  st_port :: int

type_synonym tavily_client = "pystr \<Rightarrow> search_provider"
type_synonym firecrawl_app = "pystr \<Rightarrow> scrape_provider"

definition tavily_service :: "tavily_client \<Rightarrow> settings \<Rightarrow> search_provider" where
  "tavily_service client_ctor st = client_ctor (st_tavily_api_key st)"

definition firecrawl_service :: "firecrawl_app \<Rightarrow> settings \<Rightarrow> scrape_provider" where
  "firecrawl_service app_ctor st = app_ctor (st_firecrawl_api_key st)"

definition app_services :: "tavily_client \<Rightarrow> firecrawl_app \<Rightarrow> llm_provider \<Rightarrow> settings \<Rightarrow> services" where
  "app_services client_ctor app_ctor llm st =
     \<lparr>sv_search = tavily_service client_ctor st, sv_scrape = firecrawl_service app_ctor st,
      sv_llm = llm\<rparr>"

end
