(* ===== verification/App.thy ===== *)
theory App
  imports Services
begin

text \<open>
  The application of \<^verbatim>\<open>src/backend/app/main.py\<close>, as the data it configures: the
  FastAPI metadata (lines 12--18), the CORS settings (lines 21--27, the allowed
  origins come from \<^verbatim>\<open>settings.cors_origins_list\<close>: \<open>app_cors_settings\<close>),
  the routers included in order (lines 30--32), the arguments of \<open>uvicorn.run\<close> in
  the script entry point (lines 46--54: \<open>uvicorn_config\<close>), the path under which
  the research handler is served (the router's
  prefix and the route of \<^verbatim>\<open>routes/research.py\<close> lines 12 and 15), and the constant
  answer of the root endpoint (lines 35--44). Routing, middleware and serving are
  FastAPI's and are not modelled; the health and analysis routers are imported from
  modules that are not in the repository.
\<close>

record app_info =
  app_title :: pystr
  app_description :: pystr
  app_version :: pystr
  app_docs_url :: pystr
  app_redoc_url :: pystr

definition travel_app :: app_info where
  "travel_app =
     \<lparr>app_title = ''Travel AI Backend'',
      app_description = ''Travel AI Assistant API '' @
        [CHR 0xE2, CHR 0x9C, CHR 0x88, CHR 0xEF, CHR 0xB8, CHR 0x8F] @ '' - Powered by LangChain'',
      app_version = ''2.0.0'', app_docs_url = ''/docs'', app_redoc_url = ''/redoc''\<rparr>"

record cors_config =
  cors_allow_origins :: "pystr list"
  cors_allow_credentials :: bool
  cors_allow_methods :: "pystr list"
  cors_allow_headers :: "pystr list"

definition app_cors :: "pystr list \<Rightarrow> cors_config" where
  "app_cors origins =
     \<lparr>cors_allow_origins = origins, cors_allow_credentials = True,
      cors_allow_methods = [''*''], cors_allow_headers = [''*'']\<rparr>"

datatype app_router = HealthRouter | AnalysisRouter | ResearchRouter

definition app_routers :: "app_router list" where
  "app_routers = [HealthRouter, AnalysisRouter, ResearchRouter]"

definition research_router_prefix :: pystr where
  "research_router_prefix = ''/api''"

definition research_path :: pystr where
  "research_path = research_router_prefix @ ''/research''"

definition root_response :: jval where
  "root_response =
     JObj [(''message'', JStr (''Welcome to Travel AI Backend '' @
             [CHR 0xE2, CHR 0x9C, CHR 0x88, CHR 0xEF, CHR 0xB8, CHR 0x8F])),
           (''version'', JStr ''2.0.0''),
           (''powered_by'', JStr ''LangChain + Google Gemini''),
           (''docs'', JStr ''/docs''),
           (''status'', JStr ''running'')]"

text \<open>The server started when the module is run as a script (lines 47--54).\<close>

record server_config =
  srv_app :: pystr
  srv_host :: pystr
  srv_port :: int
  srv_reload :: bool

definition uvicorn_config :: "settings \<Rightarrow> server_config" where
  "uvicorn_config st =
     \<lparr>srv_app = ''app.main:app'', srv_host = st_host st, srv_port = st_port st, srv_reload = True\<rparr>"

definition app_cors_settings :: "settings \<Rightarrow> cors_config" where
  "app_cors_settings st = app_cors (st_cors_origins_list st)"

end
