(* ===== verification/Spec2Isabelle.thy ===== *)
theory Spec2Isabelle
  imports ResearchSteps AnalysisChain App
begin

text \<open>
  \<^bold>\<open>Verification of the travel-research backend.\<close>
  The program (\<^verbatim>\<open>src/backend/app\<close>) answers \<^verbatim>\<open>POST /api/research\<close>: it searches the
  web with Tavily, normalises the hits, scrapes the first three with Firecrawl and
  extracts the markdown image links, asks the Gemini chat chain for a synthesis,
  keeps the images whose URL contains a word of the query, and returns the response.
  The development models that pipeline as HOL functions over explicit values; the
  three remote services are capabilities, functions from the arguments of the call
  to \<open>str(e) + answer\<close>, and the calls the handler makes are recorded in order.

  \<^bold>\<open>Theories, in import order.\<close>
  \<^item> \<open>Prelude\<close>: the exception monad \<open>ebind\<close> (a Python statement that may raise is a
    value of \<open>py_exc + 'a\<close>), \<open>emap\<close> (a loop whose body may raise), the traced monad
    \<open>tbind\<close> (the calls made, then the result or the exception), and list lemmas.
  \<^item> \<open>PyStr\<close>: Python \<open>str\<close> as UTF-8 bytes: code points (\<open>utf8_chars\<close>), \<open>len\<close> and
    \<open>s[:n]\<close> counted in code points, \<open>lower\<close>, \<open>isspace\<close>, \<open>split()\<close>, \<open>join\<close>.
  \<^item> \<open>PyValue\<close>: JSON values as the services return them (\<open>jval\<close>), the exceptions
    (\<open>py_exc\<close>), \<open>.get\<close>, \<open>in\<close>, subscripts, slices, pydantic's field validation.
  \<^item> \<open>Schemas\<close>: the models of \<^verbatim>\<open>models/schemas.py\<close> as records, with their field
    constraints as predicates (\<open>valid_research_request\<close>, \<open>valid_chat_request\<close>,
    \<open>valid_analysis_request\<close>), and the spec's invariants of a research response
    (\<open>wf_research_response\<close>).
  \<^item> \<open>Tavily\<close>: \<^verbatim>\<open>services/tavily_service.py\<close>: \<open>search_travel_research\<close> (the
    search call and its re-raise) and \<open>format_results\<close> (the normaliser); the spec's
    \<open>NormalizedResult\<close> as \<open>normalize_spec\<close> and the refinement lemma between them.
  \<^item> \<open>MarkdownImages\<close>: the \<open>re.findall\<close> of \<^verbatim>\<open>services/firecrawl_service.py\<close>
    line 71 as the backtracking matcher Python runs for its pattern (\<open>match_img\<close>)
    and the left-to-right scan of \<open>findall\<close> (\<open>findall_img\<close>).
  \<^item> \<open>Firecrawl\<close>: \<open>_to_dict\<close> and \<open>FirecrawlService.scrape\<close>: the fallbacks of the
    conversion, the markdown lookup, the error outcome of the \<open>except\<close> clause.
  \<^item> \<open>ImageFilter\<close>: the keyword filter of \<^verbatim>\<open>routes/research.py\<close> lines 75--79.
  \<^item> \<open>PromptTemplate\<close>: LangChain's f-string prompt templates, which both chains
    build their messages with: parsing (\<open>{{\<close>, \<open>{name}\<close>, the \<open>ValueError\<close>s of
    malformed text) and formatting (\<open>KeyError\<close> for a missing variable).
  \<^item> \<open>ChatChain\<close>, \<open>Synthesis\<close>: the system messages of \<^verbatim>\<open>chains/chat_chain.py\<close>
    and the synthesis prompts of the route, per language, as byte strings;
    \<open>create_chat_chain\<close> is the chain \<open>prompt | llm | StrOutputParser\<close> as a function
    of the user's question, and \<open>get_chat_response\<close> creates it and invokes it once.
  \<^item> \<open>Research\<close>: the handler \<open>search_travel_research\<close> of \<^verbatim>\<open>routes/research.py\<close>
    as \<open>research_route\<close> (its body) and \<open>research_endpoint\<close> (request validation, 422,
    and the \<open>except\<close> clause, 500), with the scrape loop (\<open>scrape_one\<close>,
    \<open>scrape_loop\<close>) and the validation of the sources (\<open>make_research_result\<close>).
  \<^item> \<open>Services\<close>: the service classes' constructors (\<open>tavily_service\<close>,
    \<open>firecrawl_service\<close>: the client built from the configured API key) and the
    module-level instances that make up the handler's \<open>services\<close> (\<open>app_services\<close>);
    \<open>settings\<close> holds the configuration fields the code reads.
  \<^item> \<open>ResearchSteps\<close>: the same handler as the state machine of the specification
    (section 4.7), an inductive step relation \<open>ostep\<close> on phases and call traces; its
    rules reuse the code-level definitions, so it is a small-step reading of the same
    lines, used for the invariant of the reachable states.
  \<^item> \<open>AnalysisChain\<close>: \<^verbatim>\<open>chains/analysis_chain.py\<close>, the document analysis that
    no route of the repository calls: its prompts, the chain
    \<open>prompt | llm | PydanticOutputParser\<close> (\<open>create_analysis_chain\<close>) with \<open>TravelAnalysis\<close> validation, and
    the fallback analysis of \<open>analyze_travel_document\<close>.
  \<^item> \<open>App\<close>: what \<^verbatim>\<open>main.py\<close> configures: the application's metadata, CORS settings,
    routers, the research route's path, the root endpoint's answer and the
    \<open>uvicorn.run\<close> arguments of the script entry point.

  \<^bold>\<open>What is shown.\<close>
  \<^item> Orchestrator (\<open>Research\<close>, \<open>ResearchSteps\<close>): on a well-formed search payload and
    a synthesis reply, the response is the spec's (all normalised results as
    sources, the first three with their first scraped image, the filtered images);
    a failing scrape only removes its images; a failing search or synthesis ends
    the request with one error and no response; a search without hits still gives a
    complete, empty response; the calls are the search, the scrapes of the first three
    results in order and one synthesis call; every reachable state of \<open>ostep\<close> has made
    at most three scrapes and one synthesis call; the endpoint answers 422 exactly
    for the requests outside the model's field bounds; and every response satisfies
    the spec's data-model invariants (\<open>research_response_wf\<close>).
  \<^item> Normaliser: refinement of the spec's \<open>NormalizedResult\<close> on well-formed payloads;
    the 500-code-point bound on content; the \<open>TypeError\<close> a \<open>null\<close> content makes the
    whole normaliser raise; a \<open>null\<close> url passed through to the handler.
  \<^item> Scrape client: absorbed failures, the top-level and nested markdown shapes, and
    the exact outcome for every response that converts to no dict.
  \<^item> Image extractor: soundness (each URL is group 1 of a link in the text),
    completeness (a text holding a one-line link yields a URL, the alt text's
    backtracking included), a length bound, and the round trip from rendered links
    back to their URLs.
  \<^item> Image filter: at most five, order kept, only URLs holding a word of the query,
    none lost before the cut, insensitive to case.
  \<^item> Chains: the chat chain equals one direct model call with the message unchanged
    (the prompt templates never raise on the repository's texts); the analysis
    prompt inserts its inputs verbatim; the analysis returns the validated answer,
    or the fallback built from the error for every failure after the model is
    loaded, with a summary cut at 200 code points.

  \<^bold>\<open>Findings.\<close> The route tests \<open>"content" in scraped_data\<close>, a key the scrape client
  never returns, so the synthesis never sees scraped text
  (\<open>research_prompt_without_scrapes\<close>); a \<open>null\<close> content makes the normaliser raise;
  a \<open>null\<close> url fails only after the synthesis; any language but \<open>"fr"\<close> and \<open>"vi"\<close>
  is answered in English.

  \<^bold>\<open>Bounds and termination.\<close> No fuel is used: every loop of the program runs over a
  finite list (the hits, the first three results, the characters of the markdown),
  so every definition is total; \<open>findall_img\<close> and \<open>py_split\<close> terminate by the
  length of the text they consume, and so does \<open>parse_template\<close>. The state machine
  terminates by \<open>phase_rank\<close>, which every step lowers.

  \<^bold>\<open>Not modelled.\<close> The remote services themselves (only their interface), what
  FastAPI and uvicorn do with the configuration of \<^verbatim>\<open>main.py\<close> (routing, middleware,
  serving),
  \<^verbatim>\<open>app.config\<close> (not in the repository: how \<open>settings\<close> is loaded), the log \<open>print\<close>s, the numeric strings
  pydantic also converts to \<open>float\<close>, the text of \<open>get_format_instructions()\<close> and
  the JSON extraction of the output parser (library code: a parameter and a
  capability), and the health and analysis routes, whose modules \<^verbatim>\<open>main.py\<close> imports
  but the repository does not contain (their models are modelled in \<open>Schemas\<close>). The timestamp is an abstract
  clock reading.
\<close>

end
